theory Spec2Isabelle
  imports Main
begin

section \<open>Values, result tables and the running process\<close>

text \<open>
  The two Streamlit programs of the repository, \<^verbatim>\<open>app.py\<close> (the read-only dashboard)
  and \<^verbatim>\<open>app_full_crud.py\<close> (the CRUD front-end), talk to a PostgreSQL store through
  \<^verbatim>\<open>pandas.read_sql\<close>. A bound parameter or a cell of a result is a value; dates are
  counted in days.
\<close>

datatype val = VNull | VInt int | VStr string | VDate int

type_synonym params = "(string \<times> val) list"

text \<open>
  A \<^verbatim>\<open>pandas.DataFrame\<close>: column labels and rows. \<^verbatim>\<open>pd.DataFrame()\<close> has neither;
  \<^verbatim>\<open>df.empty\<close> holds when either axis has length zero.
\<close>

record DataFrame =
  columns :: "string list"
  rows :: "val list list"

definition DataFrame_new :: DataFrame where
  "DataFrame_new = \<lparr>columns = [], rows = []\<rparr>"

definition df_empty :: "DataFrame \<Rightarrow> bool" where
  "df_empty df = (columns df = [] \<or> rows df = [])"

text \<open>
  \<^verbatim>\<open>df.iloc[0].to_dict() if not df.empty else None\<close>: the first row as a dictionary
  from column label to cell (kept as an association list, in column order).
\<close>

definition iloc0_to_dict :: "DataFrame \<Rightarrow> (string \<times> val) list option" where
  "iloc0_to_dict df =
     (if df_empty df then None
      else (case rows df of [] \<Rightarrow> None | r # _ \<Rightarrow> Some (zip (columns df) r)))"

subsection \<open>Configuration\<close>

text \<open>
  The environment after \<^verbatim>\<open>load_dotenv()\<close>, read with \<^verbatim>\<open>os.getenv\<close>. Host, port and (in
  \<^verbatim>\<open>app.py\<close>) the TLS mode have defaults; database name, user and password have none.
\<close>

type_synonym env = "string \<rightharpoonup> string"

definition getenv :: "env \<Rightarrow> string \<Rightarrow> string option" where
  "getenv e k = e k"

definition getenv_default :: "env \<Rightarrow> string \<Rightarrow> string \<Rightarrow> string" where
  "getenv_default e k d = (case e k of None \<Rightarrow> d | Some v \<Rightarrow> v)"

record config =
  PGHOST :: string
  PGPORT :: string
  PGDATABASE :: "string option"
  PGUSER :: "string option"
  PGPASSWORD :: "string option"
  PGSSLMODE :: string

definition load_config :: "env \<Rightarrow> config" where
  "load_config e =
     \<lparr>PGHOST = getenv_default e ''PGHOST'' ''localhost'',
      PGPORT = getenv_default e ''PGPORT'' ''5432'',
      PGDATABASE = getenv e ''PGDATABASE'',
      PGUSER = getenv e ''PGUSER'',
      PGPASSWORD = getenv e ''PGPASSWORD'',
      PGSSLMODE = getenv_default e ''PGSSLMODE'' ''require''\<rparr>"

text \<open>Python truthiness of an optional string: \<^verbatim>\<open>None\<close> and \<^verbatim>\<open>""\<close> are false.\<close>

definition truthy :: "string option \<Rightarrow> bool" where
  "truthy v = (case v of None \<Rightarrow> False | Some s \<Rightarrow> s \<noteq> [])"

text \<open>\<^verbatim>\<open>all([PGDATABASE, PGUSER, PGPASSWORD])\<close>\<close>

definition credentials_present :: "config \<Rightarrow> bool" where
  "credentials_present c = list_all truthy [PGDATABASE c, PGUSER c, PGPASSWORD c]"

text \<open>The user name as it is formatted into text (\<^verbatim>\<open>f"{PGUSER}"\<close>).\<close>

definition fmt_opt :: "string option \<Rightarrow> string" where
  "fmt_opt v = (case v of None \<Rightarrow> ''None'' | Some s \<Rightarrow> s)"


section \<open>The SQL statements of the two programs\<close>

text \<open>
  Every SQL literal of \<^verbatim>\<open>app_full_crud.py\<close> (the five listings and the twelve
  mutations) and of \<^verbatim>\<open>app.py\<close> (eighteen queries), and the two session directives of
  the connect hook. \<open>sql_text\<close> is the text handed to the store; the layout white space
  of the triple-quoted literals of \<^verbatim>\<open>app.py\<close> is written as single blanks.
\<close>

datatype stmt =
    CrudUsers | CrudArtists | CrudAlbums | CrudSongs | CrudPlaylists
  | InsertSong | UpdateSong | DeleteSong
  | InsertArtist | UpdateArtist | DeleteArtist
  | InsertUser | UpdateUser | DeleteUser
  | InsertPlaylist | UpdatePlaylist | DeletePlaylist
  | AppUsers | AppSongs | AppSongsArtists | AppAlbums | AppAlbumsArtists
  | AppArtists | AppArtistSongCounts | AppPlaylists | AppPlaylistsCreators
  | AppPlaylistChoices | AppPlaylistSongs
  | AppUserLikes | AppAlbumTracks | AppMostLiked | AppUserActivity
  | AppNetwork | AppTopLiked | AppAvgSongs
  | SetStatementTimeout | SetSearchPath string

fun sql_text :: "stmt \<Rightarrow> string" where
  "sql_text CrudUsers = ''SELECT userID, userName FROM User_table ORDER BY userID''"
| "sql_text CrudArtists =
     ''SELECT artistID, artist_name, artist_location FROM Artist ORDER BY artistID''"
| "sql_text CrudAlbums =
     ''SELECT albumID, album_name, release_date FROM Album ORDER BY albumID''"
| "sql_text CrudSongs =
     ''SELECT song_id, songName, dayReleased FROM Song ORDER BY song_id LIMIT :lim''"
| "sql_text CrudPlaylists =
     ''SELECT playlistID, playlist_name, num_songs FROM Playlist ORDER BY playlistID''"
| "sql_text InsertSong =
     ''INSERT INTO Song(songName, dayReleased) VALUES (:n, :d) RETURNING song_id, songName, dayReleased''"
| "sql_text UpdateSong =
     ''UPDATE Song SET songName = :n, dayReleased = :d WHERE song_id = :sid RETURNING song_id, songName, dayReleased''"
| "sql_text DeleteSong =
     ''DELETE FROM Song WHERE song_id = :sid RETURNING song_id, songName, dayReleased''"
| "sql_text InsertArtist =
     ''INSERT INTO Artist(artist_name, artist_location) VALUES (:n, :l) RETURNING artistID, artist_name, artist_location''"
| "sql_text UpdateArtist =
     ''UPDATE Artist SET artist_name = :n, artist_location = :l WHERE artistID = :aid RETURNING artistID, artist_name, artist_location''"
| "sql_text DeleteArtist =
     ''DELETE FROM Artist WHERE artistID = :aid RETURNING artistID, artist_name, artist_location''"
| "sql_text InsertUser =
     ''INSERT INTO User_table(userName) VALUES (:n) RETURNING userID, userName''"
| "sql_text UpdateUser =
     ''UPDATE User_table SET userName = :n WHERE userID = :uid RETURNING userID, userName''"
| "sql_text DeleteUser =
     ''DELETE FROM User_table WHERE userID = :uid RETURNING userID, userName''"
| "sql_text InsertPlaylist =
     ''INSERT INTO Playlist(playlist_name, num_songs) VALUES (:n, :ns) RETURNING playlistID, playlist_name, num_songs''"
| "sql_text UpdatePlaylist =
     ''UPDATE Playlist SET playlist_name = :n, num_songs = :ns WHERE playlistID = :pid RETURNING playlistID, playlist_name, num_songs''"
| "sql_text DeletePlaylist =
     ''DELETE FROM Playlist WHERE playlistID = :pid RETURNING playlistID, playlist_name, num_songs''"
| "sql_text AppUsers = ''SELECT * FROM User_table ORDER BY userID LIMIT :lim''"
| "sql_text AppSongs = ''SELECT * FROM Song ORDER BY song_id LIMIT :lim''"
| "sql_text AppSongsArtists =
     ''SELECT s.song_id, s.songName, s.dayReleased, a.artist_name FROM Song s JOIN Produces p ON s.song_id = p.song_id JOIN Artist a ON p.artistID = a.artistID ORDER BY s.song_id LIMIT :lim''"
| "sql_text AppAlbums = ''SELECT * FROM Album ORDER BY albumID LIMIT :lim''"
| "sql_text AppAlbumsArtists =
     ''SELECT al.albumID, al.album_name, al.release_date, ar.artist_name FROM Album al JOIN Records r ON al.albumID = r.albumID JOIN Artist ar ON r.artistID = ar.artistID ORDER BY al.release_date DESC LIMIT :lim''"
| "sql_text AppArtists = ''SELECT * FROM Artist ORDER BY artistID LIMIT :lim''"
| "sql_text AppArtistSongCounts =
     ''SELECT a.artist_name, COUNT(p.song_id) as song_count FROM Artist a LEFT JOIN Produces p ON a.artistID = p.artistID GROUP BY a.artistID, a.artist_name ORDER BY song_count DESC LIMIT :lim''"
| "sql_text AppPlaylists = ''SELECT * FROM Playlist ORDER BY playlistID LIMIT :lim''"
| "sql_text AppPlaylistsCreators =
     ''SELECT p.playlistID, p.playlist_name, p.num_songs, u.userName as creator FROM Playlist p JOIN Creates c ON p.playlistID = c.playlistID JOIN User_table u ON c.userID = u.userID ORDER BY p.playlistID LIMIT :lim''"
| "sql_text AppPlaylistChoices =
     ''SELECT playlistID, playlist_name FROM Playlist ORDER BY playlistID''"
| "sql_text AppPlaylistSongs =
     ''SELECT s.songName, a.artist_name, sv.position FROM Saves sv JOIN Song s ON sv.song_id = s.song_id JOIN Produces p ON s.song_id = p.song_id JOIN Artist a ON p.artistID = a.artistID WHERE sv.playlistID = :pid ORDER BY sv.position''"
| "sql_text AppUserLikes =
     ''SELECT u.userName, s.songName, a.artist_name, l.liked_date FROM Likes l JOIN User_table u ON l.userID = u.userID JOIN Song s ON l.song_id = s.song_id JOIN Produces p ON s.song_id = p.song_id JOIN Artist a ON p.artistID = a.artistID ORDER BY l.liked_date DESC LIMIT :lim''"
| "sql_text AppAlbumTracks =
     ''SELECT al.album_name, s.songName, c.track_number, ar.artist_name FROM Contains c JOIN Album al ON c.albumID = al.albumID JOIN Song s ON c.song_id = s.song_id JOIN Records r ON al.albumID = r.albumID JOIN Artist ar ON r.artistID = ar.artistID ORDER BY al.album_name, c.track_number LIMIT :lim''"
| "sql_text AppMostLiked =
     ''SELECT s.songName, a.artist_name, COUNT(l.userID) as like_count FROM Song s JOIN Produces p ON s.song_id = p.song_id JOIN Artist a ON p.artistID = a.artistID LEFT JOIN Likes l ON s.song_id = l.song_id GROUP BY s.song_id, s.songName, a.artist_name ORDER BY like_count DESC LIMIT :lim''"
| "sql_text AppUserActivity =
     ''SELECT u.userName, COUNT(DISTINCT l.song_id) as songs_liked, COUNT(DISTINCT c.playlistID) as playlists_created FROM User_table u LEFT JOIN Likes l ON u.userID = l.userID LEFT JOIN Creates c ON u.userID = c.userID GROUP BY u.userID, u.userName ORDER BY songs_liked DESC LIMIT :lim''"
| "sql_text AppNetwork =
     ''SELECT u.userName, s.songName, a.artist_name FROM Likes l JOIN User_table u ON l.userID = u.userID JOIN Song s ON l.song_id = s.song_id JOIN Produces p ON s.song_id = p.song_id JOIN Artist a ON p.artistID = a.artistID LIMIT 500''"
| "sql_text AppTopLiked =
     ''SELECT s.songName, COUNT(l.userID) AS like_count FROM Song s LEFT JOIN Likes l ON s.song_id = l.song_id GROUP BY s.songName ORDER BY like_count DESC LIMIT 5''"
| "sql_text AppAvgSongs =
     ''SELECT AVG(song_count) AS avg_songs FROM ( SELECT playlistID, COUNT(song_id) AS song_count FROM Saves GROUP BY playlistID ) t''"
| "sql_text SetStatementTimeout = ''SET statement_timeout TO 8000''"
| "sql_text (SetSearchPath u) = ''SET search_path TO '' @ u @ '', public''"

section \<open>Connection manager\<close>

text \<open>
  The store is outside the repository: executing a statement with its bound parameters
  on a database state either raises (\<open>Inl\<close> the exception's text) or returns a result
  table and the state after the statement. The programs are modelled over any store.
\<close>

type_synonym 'db store = "stmt \<Rightarrow> params \<Rightarrow> 'db \<Rightarrow> string + (DataFrame \<times> 'db)"

text \<open>
  What a run of a program touches: the committed state of the database, whether the
  pool holds a live physical connection, the statements sent to the store so far (text
  and bound parameters), and the messages put on the page with \<^verbatim>\<open>st.error\<close>.
\<close>

record 'db world =
  store_db :: 'db
  connected :: bool
  sent :: "(string \<times> params) list"
  shown :: "string list"

definition send :: "stmt \<Rightarrow> params \<Rightarrow> 'db world \<Rightarrow> 'db world" where
  "send q ps w = w\<lparr>sent := sent w @ [(sql_text q, ps)]\<rparr>"

text \<open>
  The \<^verbatim>\<open>connect\<close> event listener (\<^verbatim>\<open>_set_statement_timeout\<close> in \<^verbatim>\<open>app.py\<close>,
  \<^verbatim>\<open>_set_search_path\<close> in \<^verbatim>\<open>app_full_crud.py\<close>; the bodies are the same): two directives on
  every new physical connection, the second with the user name formatted into its text.
\<close>

definition set_search_path :: "'db store \<Rightarrow> config \<Rightarrow> 'db world \<Rightarrow> (string + unit) \<times> 'db world" where
  "set_search_path store c w =
     (let w1 = send SetStatementTimeout [] w in
      case store SetStatementTimeout [] (store_db w1) of
        Inl e \<Rightarrow> (Inl e, w1)
      | Inr _ \<Rightarrow>
          (let q = SetSearchPath (fmt_opt (PGUSER c)); w2 = send q [] w1 in
           case store q [] (store_db w2) of
             Inl e \<Rightarrow> (Inl e, w2)
           | Inr _ \<Rightarrow> (Inr (), w2\<lparr>connected := True\<rparr>)))"

text \<open>Taking a connection from the pool: the listener runs when a new one is opened.\<close>

definition checkout :: "'db store \<Rightarrow> config \<Rightarrow> 'db world \<Rightarrow> (string + unit) \<times> 'db world" where
  "checkout store c w = (if connected w then (Inr (), w) else set_search_path store c w)"

text \<open>
  \<^verbatim>\<open>with engine.connect()/engine.begin() as conn: pd.read_sql(text(sql), conn, params=...)\<close>.
  When the statement returns, the state the store reports is kept (\<^verbatim>\<open>begin\<close> commits);
  when it raises, the transaction is rolled back, the committed state stays as it was,
  and the exception leaves the \<^verbatim>\<open>with\<close> block.
\<close>

definition read_sql :: "'db store \<Rightarrow> config \<Rightarrow> stmt \<Rightarrow> params \<Rightarrow> 'db world \<Rightarrow> (string + DataFrame) \<times> 'db world" where
  "read_sql store c q ps w =
     (case checkout store c w of
        (Inl e, w1) \<Rightarrow> (Inl e, w1)
      | (Inr _, w1) \<Rightarrow>
          (let w2 = send q ps w1 in
           case store q ps (store_db w2) of
             Inl e \<Rightarrow> (Inl e, w2)
           | Inr (df, db') \<Rightarrow> (Inr df, w2\<lparr>store_db := db'\<rparr>)))"

section \<open>Data access layer\<close>

subsection \<open>Reads\<close>

text \<open>
  \<^verbatim>\<open>fetch_df\<close>: the \<^verbatim>\<open>try\<close> block catches every exception, reports it with
  \<^verbatim>\<open>st.error\<close> and returns \<^verbatim>\<open>pd.DataFrame()\<close>. The two files differ in the message only.
  \<^verbatim>\<open>params or {}\<close> turns a missing dictionary into the empty one.
\<close>

definition fetch_df_with :: "string \<Rightarrow> 'db store \<Rightarrow> config \<Rightarrow> stmt \<Rightarrow> params option \<Rightarrow> 'db world \<Rightarrow> DataFrame \<times> 'db world" where
  "fetch_df_with prefix store c q params w =
     (case read_sql store c q (case params of None \<Rightarrow> [] | Some ps \<Rightarrow> ps) w of
        (Inl e, w') \<Rightarrow> (DataFrame_new, w'\<lparr>shown := shown w' @ [prefix @ e]\<rparr>)
      | (Inr df, w') \<Rightarrow> (df, w'))"

definition fetch_df :: "'db store \<Rightarrow> config \<Rightarrow> stmt \<Rightarrow> params option \<Rightarrow> 'db world \<Rightarrow> DataFrame \<times> 'db world" where
  "fetch_df = fetch_df_with ''DB error: ''"

definition fetch_df_crud :: "'db store \<Rightarrow> config \<Rightarrow> stmt \<Rightarrow> params option \<Rightarrow> 'db world \<Rightarrow> DataFrame \<times> 'db world" where
  "fetch_df_crud = fetch_df_with ''Query failed: ''"

definition fetch_users :: "'db store \<Rightarrow> config \<Rightarrow> 'db world \<Rightarrow> DataFrame \<times> 'db world" where
  "fetch_users store c w = fetch_df_crud store c CrudUsers None w"

definition fetch_artists :: "'db store \<Rightarrow> config \<Rightarrow> 'db world \<Rightarrow> DataFrame \<times> 'db world" where
  "fetch_artists store c w = fetch_df_crud store c CrudArtists None w"

definition fetch_albums :: "'db store \<Rightarrow> config \<Rightarrow> 'db world \<Rightarrow> DataFrame \<times> 'db world" where
  "fetch_albums store c w = fetch_df_crud store c CrudAlbums None w"

definition fetch_songs :: "'db store \<Rightarrow> config \<Rightarrow> int \<Rightarrow> 'db world \<Rightarrow> DataFrame \<times> 'db world" where
  "fetch_songs store c limit w = fetch_df_crud store c CrudSongs (Some [(''lim'', VInt limit)]) w"

definition fetch_playlists :: "'db store \<Rightarrow> config \<Rightarrow> 'db world \<Rightarrow> DataFrame \<times> 'db world" where
  "fetch_playlists store c w = fetch_df_crud store c CrudPlaylists None w"

subsection \<open>Mutations\<close>

text \<open>
  Each helper of \<^verbatim>\<open>app_full_crud.py\<close> runs one statement inside \<^verbatim>\<open>engine.begin()\<close> and
  returns the first row of its \<^verbatim>\<open>RETURNING\<close> table as a dictionary, or \<^verbatim>\<open>None\<close>. There is
  no \<^verbatim>\<open>try\<close> around it: an exception of the store leaves the helper.
\<close>

definition mutate :: "'db store \<Rightarrow> config \<Rightarrow> stmt \<Rightarrow> params \<Rightarrow> 'db world \<Rightarrow> (string + (string \<times> val) list option) \<times> 'db world" where
  "mutate store c q ps w =
     (case read_sql store c q ps w of
        (Inl e, w') \<Rightarrow> (Inl e, w')
      | (Inr df, w') \<Rightarrow> (Inr (iloc0_to_dict df), w'))"

definition opt_str :: "string option \<Rightarrow> val" where
  "opt_str l = (case l of None \<Rightarrow> VNull | Some s \<Rightarrow> VStr s)"

definition insert_song where
  "insert_song store c name date_released w =
     mutate store c InsertSong [(''n'', VStr name), (''d'', VDate date_released)] w"

definition update_song where
  "update_song store c sid name date_released w =
     mutate store c UpdateSong [(''sid'', VInt sid), (''n'', VStr name), (''d'', VDate date_released)] w"

definition delete_song where
  "delete_song store c sid w = mutate store c DeleteSong [(''sid'', VInt sid)] w"

definition insert_artist where
  "insert_artist store c name location w =
     mutate store c InsertArtist [(''n'', VStr name), (''l'', opt_str location)] w"

definition update_artist where
  "update_artist store c aid name location w =
     mutate store c UpdateArtist [(''aid'', VInt aid), (''n'', VStr name), (''l'', opt_str location)] w"

definition delete_artist where
  "delete_artist store c aid w = mutate store c DeleteArtist [(''aid'', VInt aid)] w"

definition insert_user where
  "insert_user store c username w = mutate store c InsertUser [(''n'', VStr username)] w"

definition update_user where
  "update_user store c uid username w =
     mutate store c UpdateUser [(''uid'', VInt uid), (''n'', VStr username)] w"

definition delete_user where
  "delete_user store c uid w = mutate store c DeleteUser [(''uid'', VInt uid)] w"

definition insert_playlist where
  "insert_playlist store c name num_songs w =
     mutate store c InsertPlaylist [(''n'', VStr name), (''ns'', VInt num_songs)] w"

definition update_playlist where
  "update_playlist store c pid name num_songs w =
     mutate store c UpdatePlaylist [(''pid'', VInt pid), (''n'', VStr name), (''ns'', VInt num_songs)] w"

definition delete_playlist where
  "delete_playlist store c pid w = mutate store c DeletePlaylist [(''pid'', VInt pid)] w"


section \<open>The pages\<close>

text \<open>
  A run of a Streamlit script goes from top to bottom once. It ends by running off the
  end, by \<^verbatim>\<open>st.stop()\<close>, by \<^verbatim>\<open>st.rerun()\<close>, or by an exception nobody catches.
\<close>

datatype outcome = Completed | Stopped | Rerun | Raised string

text \<open>
  \<^verbatim>\<open>st.number_input("Row limit", min_value=1, max_value=2000, value=200, step=50)\<close>.
  Modelled from the spec: the widget is Streamlit's, not the repository's; it yields its
  default until the user enters a number and keeps what it yields between its bounds.
\<close>

definition number_input :: "int \<Rightarrow> int \<Rightarrow> int \<Rightarrow> int option \<Rightarrow> int" where
  "number_input min_value max_value dflt entry =
     (case entry of None \<Rightarrow> dflt | Some v \<Rightarrow> max min_value (min max_value v))"

definition row_limit_of :: "int option \<Rightarrow> int" where
  "row_limit_of entry = number_input 1 2000 200 entry"

text \<open>\<^verbatim>\<open>st.number_input("Number of Songs", min_value=0, value=..., step=1)\<close>: no upper bound.\<close>

definition number_input_min :: "int \<Rightarrow> int \<Rightarrow> int option \<Rightarrow> int" where
  "number_input_min min_value dflt entry =
     (case entry of None \<Rightarrow> dflt | Some v \<Rightarrow> max min_value v)"

definition missing_credentials :: string where
  "missing_credentials =
     ''Missing DB credentials. Please set PGDATABASE, PGUSER, and PGPASSWORD in your .env file.''"

text \<open>
  \<^verbatim>\<open>make_url\<close> converts the port with \<^verbatim>\<open>int(PGPORT)\<close>; Python's conversion of a string to
  an integer is a parameter (\<open>None\<close> when it raises \<^verbatim>\<open>ValueError\<close>). Creating the engine
  opens no connection.
\<close>

definition make_url :: "(string \<Rightarrow> int option) \<Rightarrow> config \<Rightarrow> string + unit" where
  "make_url py_int c =
     (case py_int (PGPORT c) of
        None \<Rightarrow> Inl (''invalid literal for int() with base 10: '' @ PGPORT c)
      | Some _ \<Rightarrow> Inr ())"

subsection \<open>The dashboard, \<^verbatim>\<open>app.py\<close>\<close>

datatype view = UserLikes | AlbumTracks | MostLikedSongs | UserActivity

text \<open>
  What the user and the presentation code contribute to a run. The presentation code
  (select boxes over a result, graph and chart construction) is outside the data access
  layer: \<open>selected_playlist\<close> is the identifier that the select box over the playlist
  listing and \<^verbatim>\<open>int(selected_playlist)\<close> yield, and \<open>presents\<close> tells whether the code
  that draws a result raises (\<open>Some\<close> the exception), which ends the run.
\<close>

record app_ui =
  row_limit_entry :: "int option"
  view_choice :: view
  selected_playlist :: "DataFrame \<Rightarrow> string + int"
  presents :: "stmt \<Rightarrow> DataFrame \<Rightarrow> string option"

definition lim_params :: "int \<Rightarrow> params option" where
  "lim_params row_limit = Some [(''lim'', VInt row_limit)]"

fun view_stmt :: "view \<Rightarrow> stmt" where
  "view_stmt UserLikes = AppUserLikes"
| "view_stmt AlbumTracks = AppAlbumTracks"
| "view_stmt MostLikedSongs = AppMostLiked"
| "view_stmt UserActivity = AppUserActivity"

text \<open>Tabs one to four: users, songs, albums, artists.\<close>

definition app_tabs_1_4 :: "'db store \<Rightarrow> config \<Rightarrow> int \<Rightarrow> 'db world \<Rightarrow> 'db world" where
  "app_tabs_1_4 store c row_limit w0 =
     (let (df, w1) = fetch_df store c AppUsers (lim_params row_limit) w0;
          (df, w2) = fetch_df store c AppSongs (lim_params row_limit) w1;
          (df2, w3) = fetch_df store c AppSongsArtists (lim_params row_limit) w2;
          (df, w4) = fetch_df store c AppAlbums (lim_params row_limit) w3;
          (df2, w5) = fetch_df store c AppAlbumsArtists (lim_params row_limit) w4;
          (df, w6) = fetch_df store c AppArtists (lim_params row_limit) w5
      in if \<not> df_empty df
         then snd (fetch_df store c AppArtistSongCounts (lim_params row_limit) w6)
         else w6)"

text \<open>Tab five: playlists, and the songs of the playlist picked in the select box.\<close>

definition app_tab_5 :: "'db store \<Rightarrow> config \<Rightarrow> app_ui \<Rightarrow> int \<Rightarrow> 'db world \<Rightarrow> outcome option \<times> 'db world" where
  "app_tab_5 store c ui row_limit w0 =
     (let (df, w1) = fetch_df store c AppPlaylists (lim_params row_limit) w0;
          (df2, w2) = fetch_df store c AppPlaylistsCreators (lim_params row_limit) w1;
          (playlists, w3) = fetch_df store c AppPlaylistChoices None w2
      in if \<not> df_empty playlists
         then (case selected_playlist ui playlists of
                 Inl e \<Rightarrow> (Some (Raised e), w3)
               | Inr pid \<Rightarrow>
                   (None, snd (fetch_df store c AppPlaylistSongs (Some [(''pid'', VInt pid)]) w3)))
         else (None, w3))"

text \<open>Tab six and the three visualisations below the tabs.\<close>

definition app_tab_6 :: "'db store \<Rightarrow> config \<Rightarrow> app_ui \<Rightarrow> int \<Rightarrow> 'db world \<Rightarrow> outcome \<times> 'db world" where
  "app_tab_6 store c ui row_limit w0 =
     (let (df, w1) = fetch_df store c (view_stmt (view_choice ui)) (lim_params row_limit) w0;
          (df_rel, w2) = fetch_df store c AppNetwork None w1
      in case (if \<not> df_empty df_rel then presents ui AppNetwork df_rel else None) of
           Some e \<Rightarrow> (Raised e, w2)
         | None \<Rightarrow>
             (let (df_popular, w3) = fetch_df store c AppTopLiked None w2
              in case (if \<not> df_empty df_popular then presents ui AppTopLiked df_popular else None) of
                   Some e \<Rightarrow> (Raised e, w3)
                 | None \<Rightarrow>
                     (let (df_avg, w4) = fetch_df store c AppAvgSongs None w3
                      in case (if \<not> df_empty df_avg then presents ui AppAvgSongs df_avg else None) of
                           Some e \<Rightarrow> (Raised e, w4)
                         | None \<Rightarrow> (Completed, w4))))"

definition app_page :: "'db store \<Rightarrow> config \<Rightarrow> app_ui \<Rightarrow> 'db world \<Rightarrow> outcome \<times> 'db world" where
  "app_page store c ui w0 =
     (let row_limit = row_limit_of (row_limit_entry ui);
          w1 = app_tabs_1_4 store c row_limit w0
      in case app_tab_5 store c ui row_limit w1 of
           (Some out, w2) \<Rightarrow> (out, w2)
         | (None, w2) \<Rightarrow> app_tab_6 store c ui row_limit w2)"

text \<open>
  The script: the credential check comes first and ends the run with \<^verbatim>\<open>st.stop()\<close>;
  then the engine (kept by \<^verbatim>\<open>st.cache_resource\<close>, so its pool outlives the run), then
  the page.
\<close>

definition app_main :: "(string \<Rightarrow> int option) \<Rightarrow> env \<Rightarrow> app_ui \<Rightarrow> 'db store \<Rightarrow> 'db world \<Rightarrow> outcome \<times> 'db world" where
  "app_main py_int e ui store w =
     (let c = load_config e
      in if \<not> credentials_present c
         then (Stopped, w\<lparr>shown := shown w @ [missing_credentials]\<rparr>)
         else (case make_url py_int c of
                 Inl err \<Rightarrow> (Raised err, w)
               | Inr _ \<Rightarrow> app_page store c ui w))"


subsection \<open>The CRUD front-end, \<^verbatim>\<open>app_full_crud.py\<close>\<close>

text \<open>
  \<^verbatim>\<open>str.strip()\<close> removes the characters that \<^verbatim>\<open>str.isspace\<close> accepts. Among the
  characters of the model, which has the code points below 256, these are the blank, the
  controls 9 to 13 and 28 to 31, the next-line control and the no-break space.
\<close>

definition isspace :: "char \<Rightarrow> bool" where
  "isspace ch =
     (ch \<in> set [CHR '' '', CHR 0x09, CHR 0x0A, CHR 0x0B, CHR 0x0C, CHR 0x0D,
                 CHR 0x1C, CHR 0x1D, CHR 0x1E, CHR 0x1F, CHR 0x85, CHR 0xA0])"

definition strip :: "string \<Rightarrow> string" where
  "strip s = rev (dropWhile isspace (rev (dropWhile isspace s)))"

text \<open>\<^verbatim>\<open>artist_location.strip() or None\<close>\<close>

definition strip_or_none :: "string \<Rightarrow> string option" where
  "strip_or_none s = (if strip s = [] then None else Some (strip s))"

text \<open>
  At most one form is submitted or one button pressed in a run. The fields are what the
  user typed; the row an update or a deletion acts on comes from a select box.
\<close>

datatype crud_event =
    NoEvent
  | InsertUserSubmit string | UpdateUserSubmit string | DeleteUserClick bool
  | InsertArtistSubmit string string | UpdateArtistSubmit string string | DeleteArtistClick bool
  | InsertSongSubmit string int | UpdateSongSubmit string int | DeleteSongClick bool
  | InsertPlaylistSubmit string "int option" | UpdatePlaylistSubmit string "int option"
  | DeletePlaylistClick bool

text \<open>
  \<open>upd_sel\<close> stands for the code between a listing and its update form (the dictionary
  of choices, the select box, the current row): the selected identifier, or the
  exception it raises. \<open>del_sel\<close> is the identifier picked in the select box of the
  deletion. \<open>current_num_songs\<close> is the default of the number widget of the playlist
  update form.
\<close>

record crud_ui =
  crud_row_limit_entry :: "int option"
  event :: crud_event
  upd_sel :: "stmt \<Rightarrow> DataFrame \<Rightarrow> string + int"
  del_sel :: "stmt \<Rightarrow> DataFrame \<Rightarrow> int"
  current_num_songs :: "DataFrame \<Rightarrow> int"

text \<open>
  \<^verbatim>\<open>if rec: st.session_state.just_... = rec; st.rerun()\<close> after a mutation helper; an
  exception of the helper is not caught by the page either. A dictionary is true when it
  is not empty. (The flash record itself is not modelled.)
\<close>

definition rec_truthy :: "(string \<times> val) list option \<Rightarrow> bool" where
  "rec_truthy r = (case r of None \<Rightarrow> False | Some d \<Rightarrow> d \<noteq> [])"

definition flash_rerun :: "(string + (string \<times> val) list option) \<times> 'db world \<Rightarrow> outcome option \<times> 'db world" where
  "flash_rerun r =
     (case r of
        (Inl e, w) \<Rightarrow> (Some (Raised e), w)
      | (Inr r, w) \<Rightarrow> (if rec_truthy r then (Some Rerun, w) else (None, w)))"

text \<open>The handlers of the users tab.\<close>

definition on_insert_user :: "'db store \<Rightarrow> config \<Rightarrow> crud_event \<Rightarrow> 'db world \<Rightarrow> outcome option \<times> 'db world" where
  "on_insert_user store c ev w =
     (case ev of
        InsertUserSubmit username \<Rightarrow>
          (if strip username = [] then (None, w)
           else flash_rerun (insert_user store c (strip username) w))
      | _ \<Rightarrow> (None, w))"

definition on_update_user :: "'db store \<Rightarrow> config \<Rightarrow> crud_event \<Rightarrow> DataFrame \<Rightarrow> int \<Rightarrow> 'db world \<Rightarrow> outcome option \<times> 'db world" where
  "on_update_user store c ev df sel_uid w =
     (case ev of
        UpdateUserSubmit new_username \<Rightarrow>
          flash_rerun (update_user store c sel_uid (strip new_username) w)
      | _ \<Rightarrow> (None, w))"

definition on_delete_user :: "'db store \<Rightarrow> config \<Rightarrow> crud_event \<Rightarrow> int \<Rightarrow> 'db world \<Rightarrow> outcome option \<times> 'db world" where
  "on_delete_user store c ev del_uid w =
     (case ev of
        DeleteUserClick confirm \<Rightarrow>
          (if \<not> confirm then (None, w) else flash_rerun (delete_user store c del_uid w))
      | _ \<Rightarrow> (None, w))"

text \<open>The handlers of the artists tab.\<close>

definition on_insert_artist :: "'db store \<Rightarrow> config \<Rightarrow> crud_event \<Rightarrow> 'db world \<Rightarrow> outcome option \<times> 'db world" where
  "on_insert_artist store c ev w =
     (case ev of
        InsertArtistSubmit artist_name artist_location \<Rightarrow>
          (if strip artist_name = [] then (None, w)
           else flash_rerun
                  (insert_artist store c (strip artist_name) (strip_or_none artist_location) w))
      | _ \<Rightarrow> (None, w))"

definition on_update_artist :: "'db store \<Rightarrow> config \<Rightarrow> crud_event \<Rightarrow> DataFrame \<Rightarrow> int \<Rightarrow> 'db world \<Rightarrow> outcome option \<times> 'db world" where
  "on_update_artist store c ev df sel_aid w =
     (case ev of
        UpdateArtistSubmit new_name new_location \<Rightarrow>
          flash_rerun (update_artist store c sel_aid (strip new_name) (strip_or_none new_location) w)
      | _ \<Rightarrow> (None, w))"

definition on_delete_artist :: "'db store \<Rightarrow> config \<Rightarrow> crud_event \<Rightarrow> int \<Rightarrow> 'db world \<Rightarrow> outcome option \<times> 'db world" where
  "on_delete_artist store c ev del_aid w =
     (case ev of
        DeleteArtistClick confirm \<Rightarrow>
          (if \<not> confirm then (None, w) else flash_rerun (delete_artist store c del_aid w))
      | _ \<Rightarrow> (None, w))"

text \<open>The handlers of the songs tab.\<close>

definition on_insert_song :: "'db store \<Rightarrow> config \<Rightarrow> crud_event \<Rightarrow> 'db world \<Rightarrow> outcome option \<times> 'db world" where
  "on_insert_song store c ev w =
     (case ev of
        InsertSongSubmit song_name date_released \<Rightarrow>
          (if strip song_name = [] then (None, w)
           else flash_rerun (insert_song store c (strip song_name) date_released w))
      | _ \<Rightarrow> (None, w))"

definition on_update_song :: "'db store \<Rightarrow> config \<Rightarrow> crud_event \<Rightarrow> DataFrame \<Rightarrow> int \<Rightarrow> 'db world \<Rightarrow> outcome option \<times> 'db world" where
  "on_update_song store c ev df sel_sid w =
     (case ev of
        UpdateSongSubmit new_song_name new_date \<Rightarrow>
          flash_rerun (update_song store c sel_sid (strip new_song_name) new_date w)
      | _ \<Rightarrow> (None, w))"

definition on_delete_song :: "'db store \<Rightarrow> config \<Rightarrow> crud_event \<Rightarrow> int \<Rightarrow> 'db world \<Rightarrow> outcome option \<times> 'db world" where
  "on_delete_song store c ev del_sid w =
     (case ev of
        DeleteSongClick confirm \<Rightarrow>
          (if \<not> confirm then (None, w) else flash_rerun (delete_song store c del_sid w))
      | _ \<Rightarrow> (None, w))"

text \<open>The handlers of the playlists tab.\<close>

definition on_insert_playlist :: "'db store \<Rightarrow> config \<Rightarrow> crud_event \<Rightarrow> 'db world \<Rightarrow> outcome option \<times> 'db world" where
  "on_insert_playlist store c ev w =
     (case ev of
        InsertPlaylistSubmit playlist_name num_songs \<Rightarrow>
          (if strip playlist_name = [] then (None, w)
           else flash_rerun
                  (insert_playlist store c (strip playlist_name) (number_input_min 0 0 num_songs) w))
      | _ \<Rightarrow> (None, w))"

definition on_update_playlist :: "'db store \<Rightarrow> config \<Rightarrow> crud_ui \<Rightarrow> crud_event \<Rightarrow> DataFrame \<Rightarrow> int \<Rightarrow> 'db world \<Rightarrow> outcome option \<times> 'db world" where
  "on_update_playlist store c ui ev df sel_pid w =
     (case ev of
        UpdatePlaylistSubmit new_playlist_name new_num_songs \<Rightarrow>
          flash_rerun
            (update_playlist store c sel_pid (strip new_playlist_name)
               (number_input_min 0 (current_num_songs ui df) new_num_songs) w)
      | _ \<Rightarrow> (None, w))"

definition on_delete_playlist :: "'db store \<Rightarrow> config \<Rightarrow> crud_event \<Rightarrow> int \<Rightarrow> 'db world \<Rightarrow> outcome option \<times> 'db world" where
  "on_delete_playlist store c ev del_pid w =
     (case ev of
        DeletePlaylistClick confirm \<Rightarrow>
          (if \<not> confirm then (None, w) else flash_rerun (delete_playlist store c del_pid w))
      | _ \<Rightarrow> (None, w))"

text \<open>
  The four CRUD tabs have one shape: the listing, the insert form, and, when the listing
  is not empty, the update form and the deletion button. \<open>q\<close> names the tab by its
  listing; \<open>ins\<close>, \<open>upd\<close> and \<open>del\<close> are the handlers of the tab.
\<close>

definition crud_tab :: "crud_ui \<Rightarrow> stmt \<Rightarrow> ('db world \<Rightarrow> outcome option \<times> 'db world) \<Rightarrow> (DataFrame \<Rightarrow> int \<Rightarrow> 'db world \<Rightarrow> outcome option \<times> 'db world) \<Rightarrow> (int \<Rightarrow> 'db world \<Rightarrow> outcome option \<times> 'db world) \<Rightarrow> DataFrame \<times> 'db world \<Rightarrow> outcome option \<times> 'db world" where
  "crud_tab ui q ins upd del listing =
     (case listing of (df, w1) \<Rightarrow>
        (case ins w1 of
           (Some out, w2) \<Rightarrow> (Some out, w2)
         | (None, w2) \<Rightarrow>
             (if df_empty df then (None, w2)
              else (case upd_sel ui q df of
                      Inl e \<Rightarrow> (Some (Raised e), w2)
                    | Inr sel \<Rightarrow>
                        (case upd df sel w2 of
                           (Some out, w3) \<Rightarrow> (Some out, w3)
                         | (None, w3) \<Rightarrow> del (del_sel ui q df) w3)))))"

definition tab_users :: "'db store \<Rightarrow> config \<Rightarrow> crud_ui \<Rightarrow> 'db world \<Rightarrow> outcome option \<times> 'db world" where
  "tab_users store c ui w =
     crud_tab ui CrudUsers (on_insert_user store c (event ui))
       (on_update_user store c (event ui)) (on_delete_user store c (event ui))
       (fetch_users store c w)"

definition tab_artists :: "'db store \<Rightarrow> config \<Rightarrow> crud_ui \<Rightarrow> 'db world \<Rightarrow> outcome option \<times> 'db world" where
  "tab_artists store c ui w =
     crud_tab ui CrudArtists (on_insert_artist store c (event ui))
       (on_update_artist store c (event ui)) (on_delete_artist store c (event ui))
       (fetch_artists store c w)"

definition tab_songs :: "'db store \<Rightarrow> config \<Rightarrow> crud_ui \<Rightarrow> int \<Rightarrow> 'db world \<Rightarrow> outcome option \<times> 'db world" where
  "tab_songs store c ui row_limit w =
     crud_tab ui CrudSongs (on_insert_song store c (event ui))
       (on_update_song store c (event ui)) (on_delete_song store c (event ui))
       (fetch_songs store c row_limit w)"

definition tab_playlists :: "'db store \<Rightarrow> config \<Rightarrow> crud_ui \<Rightarrow> 'db world \<Rightarrow> outcome option \<times> 'db world" where
  "tab_playlists store c ui w =
     crud_tab ui CrudPlaylists (on_insert_playlist store c (event ui))
       (on_update_playlist store c ui (event ui)) (on_delete_playlist store c (event ui))
       (fetch_playlists store c w)"

definition crud_page :: "'db store \<Rightarrow> config \<Rightarrow> crud_ui \<Rightarrow> 'db world \<Rightarrow> outcome \<times> 'db world" where
  "crud_page store c ui w0 =
     (let row_limit = row_limit_of (crud_row_limit_entry ui)
      in case tab_users store c ui w0 of
           (Some out, w1) \<Rightarrow> (out, w1)
         | (None, w1) \<Rightarrow>
        (case tab_artists store c ui w1 of
           (Some out, w2) \<Rightarrow> (out, w2)
         | (None, w2) \<Rightarrow>
        (case tab_songs store c ui row_limit w2 of
           (Some out, w3) \<Rightarrow> (out, w3)
         | (None, w3) \<Rightarrow>
        (let (albums, w4) = fetch_albums store c w3
         in case tab_playlists store c ui w4 of
              (Some out, w5) \<Rightarrow> (out, w5)
            | (None, w5) \<Rightarrow> (Completed, w5)))))"

text \<open>
  The script creates its engine on every run (no cache), so the pool starts without a
  connection. The TLS mode is fixed to \<^verbatim>\<open>require\<close> here.
\<close>

definition load_config_crud :: "env \<Rightarrow> config" where
  "load_config_crud e = (load_config e)\<lparr>PGSSLMODE := ''require''\<rparr>"

definition crud_main :: "(string \<Rightarrow> int option) \<Rightarrow> env \<Rightarrow> crud_ui \<Rightarrow> 'db store \<Rightarrow> 'db world \<Rightarrow> outcome \<times> 'db world" where
  "crud_main py_int e ui store w =
     (let c = load_config_crud e
      in if \<not> credentials_present c
         then (Stopped, w\<lparr>shown := shown w @ [missing_credentials]\<rparr>)
         else (case make_url py_int c of
                 Inl err \<Rightarrow> (Raised err, w)
               | Inr _ \<Rightarrow> crud_page store c ui (w\<lparr>connected := False\<rparr>)))"


section \<open>The relational store\<close>

text \<open>
  Modelled from the spec: the schema (the \<^verbatim>\<open>CREATE TABLE\<close> statements) is not among the
  sources. The tables and columns are the ones the statements name; an entity's
  identifier is a surrogate integer key that the store assigns from a sequence of the
  table, and the store enforces the primary keys. Cells of a name column hold a string,
  \<^verbatim>\<open>artist_location\<close> may be null. Rows are kept in a list per table.
\<close>

record database =
  User_table :: "(int \<times> string) list"
  Artist :: "(int \<times> string \<times> string option) list"
  Song :: "(int \<times> string \<times> int) list"
  Album :: "(int \<times> string \<times> int) list"
  Playlist :: "(int \<times> string \<times> int) list"
  Produces :: "(int \<times> int) list"
  Records :: "(int \<times> int) list"
  Contains :: "(int \<times> int \<times> int) list"
  Saves :: "(int \<times> int \<times> int) list"
  Creates :: "(int \<times> int) list"
  Likes :: "(int \<times> int \<times> int) list"
  userID_seq :: int
  artistID_seq :: int
  song_id_seq :: int
  playlistID_seq :: int

text \<open>
  The association tables: \<open>Produces\<close> (artistID, song_id), \<open>Records\<close> (artistID,
  albumID), \<open>Contains\<close> (albumID, song_id, track_number), \<open>Saves\<close> (playlistID, song_id,
  position), \<open>Creates\<close> (userID, playlistID), \<open>Likes\<close> (userID, song_id, liked_date).
  What the store does with the rows that reference a deleted row is the schema's choice
  and a parameter here.
\<close>

datatype on_delete = Restrict | Cascade

subsection \<open>Bound parameters\<close>

definition get_int :: "params \<Rightarrow> string \<Rightarrow> int option" where
  "get_int ps k = (case map_of ps k of Some (VInt i) \<Rightarrow> Some i | _ \<Rightarrow> None)"

definition get_str :: "params \<Rightarrow> string \<Rightarrow> string option" where
  "get_str ps k = (case map_of ps k of Some (VStr x) \<Rightarrow> Some x | _ \<Rightarrow> None)"

definition get_date :: "params \<Rightarrow> string \<Rightarrow> int option" where
  "get_date ps k = (case map_of ps k of Some (VDate d) \<Rightarrow> Some d | _ \<Rightarrow> None)"

definition get_opt_str :: "params \<Rightarrow> string \<Rightarrow> string option option" where
  "get_opt_str ps k =
     (case map_of ps k of Some (VStr x) \<Rightarrow> Some (Some x) | Some VNull \<Rightarrow> Some None | _ \<Rightarrow> None)"

definition bad_parameters :: string where
  "bad_parameters = ''a value is required for a bind parameter, or it has the wrong type''"

definition duplicate_key :: string where
  "duplicate_key = ''duplicate key value violates unique constraint''"

definition foreign_key :: string where
  "foreign_key = ''update or delete on table violates foreign key constraint''"

subsection \<open>Result tables\<close>

text \<open>PostgreSQL folds the unquoted column names to lower case; the pages read them so.\<close>

definition user_cols :: "string list" where
  "user_cols = [''userid'', ''username'']"

definition artist_cols :: "string list" where
  "artist_cols = [''artistid'', ''artist_name'', ''artist_location'']"

definition song_cols :: "string list" where
  "song_cols = [''song_id'', ''songname'', ''dayreleased'']"

definition album_cols :: "string list" where
  "album_cols = [''albumid'', ''album_name'', ''release_date'']"

definition playlist_cols :: "string list" where
  "playlist_cols = [''playlistid'', ''playlist_name'', ''num_songs'']"

definition user_cells :: "int \<times> string \<Rightarrow> val list" where
  "user_cells r = (case r of (i, n) \<Rightarrow> [VInt i, VStr n])"

definition artist_cells :: "int \<times> string \<times> string option \<Rightarrow> val list" where
  "artist_cells r = (case r of (i, n, l) \<Rightarrow> [VInt i, VStr n, opt_str l])"

definition song_cells :: "int \<times> string \<times> int \<Rightarrow> val list" where
  "song_cells r = (case r of (i, n, d) \<Rightarrow> [VInt i, VStr n, VDate d])"

definition album_cells :: "int \<times> string \<times> int \<Rightarrow> val list" where
  "album_cells r = (case r of (i, n, d) \<Rightarrow> [VInt i, VStr n, VDate d])"

definition playlist_cells :: "int \<times> string \<times> int \<Rightarrow> val list" where
  "playlist_cells r = (case r of (i, n, k) \<Rightarrow> [VInt i, VStr n, VInt k])"

definition frame :: "string list \<Rightarrow> val list list \<Rightarrow> DataFrame" where
  "frame cs rs = \<lparr>columns = cs, rows = rs\<rparr>"

subsection \<open>Clauses\<close>

text \<open>
  \<^verbatim>\<open>ORDER BY\<close> one integer key, ascending or descending. SQL leaves the order of rows
  with equal keys open; the model keeps them in table order (a stable sort), and
  \<open>first_rows\<close> below says what holds of a listing for every order of such rows.
  \<^verbatim>\<open>LIMIT n\<close> keeps the first \<open>n\<close> rows and rejects a negative \<open>n\<close>. PostgreSQL
  also rejects a bound that does not fit a bigint; the model accepts it. The pages bind
  a row limit of at most 2000.
\<close>

definition order_by :: "('r \<Rightarrow> int) \<Rightarrow> 'r list \<Rightarrow> 'r list" where
  "order_by key rs = sort_key key rs"

definition order_by_desc :: "('r \<Rightarrow> int) \<Rightarrow> 'r list \<Rightarrow> 'r list" where
  "order_by_desc key rs = sort_key (\<lambda>r. - key r) rs"

definition limit_rows :: "int \<Rightarrow> 'r list \<Rightarrow> string + 'r list" where
  "limit_rows n rs = (if n < 0 then Inl ''LIMIT must not be negative'' else Inr (take (nat n) rs))"

text \<open>
  \<^verbatim>\<open>a JOIN b ON ...\<close> pairs every row of \<open>a\<close> with the rows of \<open>b\<close> that match it;
  \<^verbatim>\<open>a LEFT JOIN b ON ...\<close> keeps a row of \<open>a\<close> without a match, with nulls for \<open>b\<close>.
\<close>

definition inner_join :: "'a list \<Rightarrow> 'b list \<Rightarrow> ('a \<Rightarrow> 'b \<Rightarrow> bool) \<Rightarrow> ('a \<times> 'b) list" where
  "inner_join xs ys on = concat (map (\<lambda>x. map (\<lambda>y. (x, y)) (filter (on x) ys)) xs)"

definition left_join :: "'a list \<Rightarrow> 'b list \<Rightarrow> ('a \<Rightarrow> 'b \<Rightarrow> bool) \<Rightarrow> ('a \<times> 'b option) list" where
  "left_join xs ys on =
     concat (map (\<lambda>x. if filter (on x) ys = [] then [(x, None)]
                       else map (\<lambda>y. (x, Some y)) (filter (on x) ys)) xs)"

text \<open>
  \<^verbatim>\<open>GROUP BY\<close>: one group per distinct key, holding the rows with that key;
  \<^verbatim>\<open>COUNT(col)\<close> counts the rows of a group whose \<open>col\<close> is not null.
\<close>

definition group_by :: "('r \<Rightarrow> 'k) \<Rightarrow> 'r list \<Rightarrow> ('k \<times> 'r list) list" where
  "group_by key rs = map (\<lambda>k. (k, filter (\<lambda>r. key r = k) rs)) (remdups (map key rs))"

definition count_col :: "('r \<Rightarrow> 'c option) \<Rightarrow> 'r list \<Rightarrow> int" where
  "count_col col rs = int (length (filter (\<lambda>r. col r \<noteq> None) rs))"

subsection \<open>Listings of \<^verbatim>\<open>app_full_crud.py\<close>\<close>

definition select_users :: "database \<Rightarrow> DataFrame" where
  "select_users db = frame user_cols (map user_cells (order_by fst (User_table db)))"

definition select_artists :: "database \<Rightarrow> DataFrame" where
  "select_artists db = frame artist_cols (map artist_cells (order_by fst (Artist db)))"

definition select_albums :: "database \<Rightarrow> DataFrame" where
  "select_albums db = frame album_cols (map album_cells (order_by fst (Album db)))"

definition select_playlists :: "database \<Rightarrow> DataFrame" where
  "select_playlists db = frame playlist_cols (map playlist_cells (order_by fst (Playlist db)))"

definition select_songs :: "params \<Rightarrow> database \<Rightarrow> string + DataFrame" where
  "select_songs ps db =
     (case get_int ps ''lim'' of
        None \<Rightarrow> Inl bad_parameters
      | Some lim \<Rightarrow>
          (case limit_rows lim (order_by fst (Song db)) of
             Inl e \<Rightarrow> Inl e
           | Inr rs \<Rightarrow> Inr (frame song_cols (map song_cells rs))))"

subsection \<open>Listings of \<^verbatim>\<open>app.py\<close>\<close>

text \<open>
  A statement that ends in \<^verbatim>\<open>ORDER BY ... LIMIT :lim\<close> returns the ordered rows, cut at
  the bound parameter.
\<close>

definition select_limited :: "string list \<Rightarrow> ('r \<Rightarrow> val list) \<Rightarrow> 'r list \<Rightarrow> params \<Rightarrow> string + DataFrame" where
  "select_limited cols cells ordered ps =
     (case get_int ps ''lim'' of
        None \<Rightarrow> Inl bad_parameters
      | Some lim \<Rightarrow>
          (case limit_rows lim ordered of
             Inl e \<Rightarrow> Inl e
           | Inr rs \<Rightarrow> Inr (frame cols (map cells rs))))"

text \<open>
  The five flat listings, \<^verbatim>\<open>SELECT * FROM t ORDER BY key LIMIT :lim\<close>. The star stands for
  the columns of the table, which the model has in the order the statements of
  \<^verbatim>\<open>app_full_crud.py\<close> name them.
\<close>

definition select_star_users :: "params \<Rightarrow> database \<Rightarrow> string + DataFrame" where
  "select_star_users ps db =
     select_limited user_cols user_cells (order_by fst (User_table db)) ps"

definition select_star_songs :: "params \<Rightarrow> database \<Rightarrow> string + DataFrame" where
  "select_star_songs ps db =
     select_limited song_cols song_cells (order_by fst (Song db)) ps"

definition select_star_albums :: "params \<Rightarrow> database \<Rightarrow> string + DataFrame" where
  "select_star_albums ps db =
     select_limited album_cols album_cells (order_by fst (Album db)) ps"

definition select_star_artists :: "params \<Rightarrow> database \<Rightarrow> string + DataFrame" where
  "select_star_artists ps db =
     select_limited artist_cols artist_cells (order_by fst (Artist db)) ps"

definition select_star_playlists :: "params \<Rightarrow> database \<Rightarrow> string + DataFrame" where
  "select_star_playlists ps db =
     select_limited playlist_cols playlist_cells (order_by fst (Playlist db)) ps"

text \<open>
  Songs and who created them: \<^verbatim>\<open>Song s JOIN Produces p ON s.song_id = p.song_id JOIN
  Artist a ON p.artistID = a.artistID ORDER BY s.song_id\<close>.
\<close>

definition songs_artists :: "database \<Rightarrow> (((int \<times> string \<times> int) \<times> (int \<times> int)) \<times> (int \<times> string \<times> string option)) list" where
  "songs_artists db =
     inner_join (inner_join (Song db) (Produces db) (\<lambda>s p. fst s = snd p))
       (Artist db) (\<lambda>(s, p) a. fst p = fst a)"

definition songs_artists_cells :: "((int \<times> string \<times> int) \<times> (int \<times> int)) \<times> (int \<times> string \<times> string option) \<Rightarrow> val list" where
  "songs_artists_cells r = (case r of ((s, p), a) \<Rightarrow> song_cells s @ [VStr (fst (snd a))])"

definition select_songs_artists :: "params \<Rightarrow> database \<Rightarrow> string + DataFrame" where
  "select_songs_artists ps db =
     select_limited [''song_id'', ''songname'', ''dayreleased'', ''artist_name'']
       songs_artists_cells (order_by (\<lambda>((s, p), a). fst s) (songs_artists db)) ps"

text \<open>
  Albums with artists: \<^verbatim>\<open>Album al JOIN Records r ON al.albumID = r.albumID JOIN Artist ar
  ON r.artistID = ar.artistID ORDER BY al.release_date DESC\<close>.
\<close>

definition albums_artists :: "database \<Rightarrow> (((int \<times> string \<times> int) \<times> (int \<times> int)) \<times> (int \<times> string \<times> string option)) list" where
  "albums_artists db =
     inner_join (inner_join (Album db) (Records db) (\<lambda>al r. fst al = snd r))
       (Artist db) (\<lambda>(al, r) ar. fst r = fst ar)"

definition albums_artists_cells :: "((int \<times> string \<times> int) \<times> (int \<times> int)) \<times> (int \<times> string \<times> string option) \<Rightarrow> val list" where
  "albums_artists_cells r = (case r of ((al, rc), ar) \<Rightarrow> album_cells al @ [VStr (fst (snd ar))])"

definition select_albums_artists :: "params \<Rightarrow> database \<Rightarrow> string + DataFrame" where
  "select_albums_artists ps db =
     select_limited [''albumid'', ''album_name'', ''release_date'', ''artist_name'']
       albums_artists_cells
       (order_by_desc (\<lambda>((al, rc), ar). snd (snd al)) (albums_artists db)) ps"

text \<open>
  Playlists with creators: \<^verbatim>\<open>Playlist p JOIN Creates c ON p.playlistID = c.playlistID JOIN
  User_table u ON c.userID = u.userID ORDER BY p.playlistID\<close>.
\<close>

definition playlists_creators :: "database \<Rightarrow> (((int \<times> string \<times> int) \<times> (int \<times> int)) \<times> (int \<times> string)) list" where
  "playlists_creators db =
     inner_join (inner_join (Playlist db) (Creates db) (\<lambda>p c. fst p = snd c))
       (User_table db) (\<lambda>(p, c) u. fst c = fst u)"

definition playlists_creators_cells :: "((int \<times> string \<times> int) \<times> (int \<times> int)) \<times> (int \<times> string) \<Rightarrow> val list" where
  "playlists_creators_cells r = (case r of ((p, c), u) \<Rightarrow> playlist_cells p @ [VStr (snd u)])"

definition select_playlists_creators :: "params \<Rightarrow> database \<Rightarrow> string + DataFrame" where
  "select_playlists_creators ps db =
     select_limited [''playlistid'', ''playlist_name'', ''num_songs'', ''creator'']
       playlists_creators_cells (order_by (\<lambda>((p, c), u). fst p) (playlists_creators db)) ps"

text \<open>
  The playlists to choose from, \<^verbatim>\<open>SELECT playlistID, playlist_name FROM Playlist ORDER BY
  playlistID\<close>, and the songs of the chosen one: \<^verbatim>\<open>Saves sv JOIN Song s ON sv.song_id =
  s.song_id JOIN Produces p ON s.song_id = p.song_id JOIN Artist a ON p.artistID =
  a.artistID WHERE sv.playlistID = :pid ORDER BY sv.position\<close>. Neither has a bound.
\<close>

definition playlist_choice_cells :: "int \<times> string \<times> int \<Rightarrow> val list" where
  "playlist_choice_cells p = [VInt (fst p), VStr (fst (snd p))]"

definition select_playlist_choices :: "database \<Rightarrow> DataFrame" where
  "select_playlist_choices db =
     frame [''playlistid'', ''playlist_name'']
       (map playlist_choice_cells (order_by fst (Playlist db)))"

definition playlist_songs :: "database \<Rightarrow> int \<Rightarrow> ((((int \<times> int \<times> int) \<times> (int \<times> string \<times> int)) \<times> (int \<times> int)) \<times> (int \<times> string \<times> string option)) list" where
  "playlist_songs db pid =
     filter (\<lambda>(((sv, s), p), a). fst sv = pid)
       (inner_join
          (inner_join (inner_join (Saves db) (Song db) (\<lambda>sv s. fst (snd sv) = fst s))
             (Produces db) (\<lambda>(sv, s) p. fst s = snd p))
          (Artist db) (\<lambda>((sv, s), p) a. fst p = fst a))"

definition playlist_songs_cells :: "(((int \<times> int \<times> int) \<times> (int \<times> string \<times> int)) \<times> (int \<times> int)) \<times> (int \<times> string \<times> string option) \<Rightarrow> val list" where
  "playlist_songs_cells r =
     (case r of (((sv, s), p), a) \<Rightarrow>
        [VStr (fst (snd s)), VStr (fst (snd a)), VInt (snd (snd sv))])"

definition select_playlist_songs :: "params \<Rightarrow> database \<Rightarrow> string + DataFrame" where
  "select_playlist_songs ps db =
     (case get_int ps ''pid'' of
        None \<Rightarrow> Inl bad_parameters
      | Some pid \<Rightarrow>
          Inr (frame [''songname'', ''artist_name'', ''position'']
                 (map playlist_songs_cells
                    (order_by (\<lambda>(((sv, s), p), a). snd (snd sv)) (playlist_songs db pid)))))"

text \<open>
  User likes: \<^verbatim>\<open>Likes l JOIN User_table u ON l.userID = u.userID JOIN Song s ON l.song_id =
  s.song_id JOIN Produces p ON s.song_id = p.song_id JOIN Artist a ON p.artistID =
  a.artistID ORDER BY l.liked_date DESC\<close>.
\<close>

definition user_likes :: "database \<Rightarrow> (((((int \<times> int \<times> int) \<times> (int \<times> string)) \<times> (int \<times> string \<times> int)) \<times> (int \<times> int)) \<times> (int \<times> string \<times> string option)) list" where
  "user_likes db =
     inner_join
       (inner_join
          (inner_join (inner_join (Likes db) (User_table db) (\<lambda>l u. fst l = fst u))
             (Song db) (\<lambda>(l, u) s. fst (snd l) = fst s))
          (Produces db) (\<lambda>((l, u), s) p. fst s = snd p))
       (Artist db) (\<lambda>(((l, u), s), p) a. fst p = fst a)"

definition user_likes_cells :: "((((int \<times> int \<times> int) \<times> (int \<times> string)) \<times> (int \<times> string \<times> int)) \<times> (int \<times> int)) \<times> (int \<times> string \<times> string option) \<Rightarrow> val list" where
  "user_likes_cells r =
     (case r of ((((l, u), s), p), a) \<Rightarrow>
        [VStr (snd u), VStr (fst (snd s)), VStr (fst (snd a)), VDate (snd (snd l))])"

definition select_user_likes :: "params \<Rightarrow> database \<Rightarrow> string + DataFrame" where
  "select_user_likes ps db =
     select_limited [''username'', ''songname'', ''artist_name'', ''liked_date'']
       user_likes_cells
       (order_by_desc (\<lambda>((((l, u), s), p), a). snd (snd l)) (user_likes db)) ps"

text \<open>
  User activity: \<^verbatim>\<open>User_table u LEFT JOIN Likes l ON u.userID = l.userID LEFT JOIN Creates c
  ON u.userID = c.userID\<close>, grouped by \<^verbatim>\<open>u.userID, u.userName\<close>, counting the distinct
  \<^verbatim>\<open>l.song_id\<close> and the distinct \<^verbatim>\<open>c.playlistID\<close>, \<^verbatim>\<open>ORDER BY songs_liked DESC\<close>.
\<close>

definition count_distinct :: "('r \<Rightarrow> 'c option) \<Rightarrow> 'r list \<Rightarrow> int" where
  "count_distinct col rs =
     int (length (remdups (concat (map (\<lambda>r. case col r of None \<Rightarrow> [] | Some v \<Rightarrow> [v]) rs))))"

definition user_activity_rows :: "database \<Rightarrow> (string \<times> int \<times> int) list" where
  "user_activity_rows db =
     map (\<lambda>((uid, uname), g).
            (uname,
             count_distinct (\<lambda>((u, l), c). map_option (\<lambda>l. fst (snd l)) l) g,
             count_distinct (\<lambda>((u, l), c). map_option snd c) g))
       (group_by (\<lambda>((u, l), c). (fst u, snd u))
          (left_join (left_join (User_table db) (Likes db) (\<lambda>u l. fst u = fst l))
             (Creates db) (\<lambda>(u, l) c. fst u = fst c)))"

definition user_activity_cells :: "string \<times> int \<times> int \<Rightarrow> val list" where
  "user_activity_cells r = (case r of (uname, n, k) \<Rightarrow> [VStr uname, VInt n, VInt k])"

definition select_user_activity :: "params \<Rightarrow> database \<Rightarrow> string + DataFrame" where
  "select_user_activity ps db =
     select_limited [''username'', ''songs_liked'', ''playlists_created'']
       user_activity_cells (order_by_desc (\<lambda>r. fst (snd r)) (user_activity_rows db)) ps"

subsection \<open>The two aggregate views of \<^verbatim>\<open>app.py\<close>\<close>

text \<open>
  Artist song counts: \<^verbatim>\<open>Artist a LEFT JOIN Produces p ON a.artistID = p.artistID\<close>,
  grouped by \<^verbatim>\<open>a.artistID, a.artist_name\<close>, counting \<^verbatim>\<open>p.song_id\<close>.
\<close>

definition artist_song_count_rows :: "database \<Rightarrow> (string \<times> int) list" where
  "artist_song_count_rows db =
     map (\<lambda>((aid, name), g). (name, count_col (\<lambda>(a, p). map_option snd p) g))
       (group_by (\<lambda>(a, p). (fst a, fst (snd a)))
          (left_join (Artist db) (Produces db) (\<lambda>a p. fst a = fst p)))"

definition select_artist_song_counts :: "params \<Rightarrow> database \<Rightarrow> string + DataFrame" where
  "select_artist_song_counts ps db =
     (case get_int ps ''lim'' of
        None \<Rightarrow> Inl bad_parameters
      | Some lim \<Rightarrow>
          (case limit_rows lim (order_by_desc snd (artist_song_count_rows db)) of
             Inl e \<Rightarrow> Inl e
           | Inr rs \<Rightarrow>
               Inr (frame [''artist_name'', ''song_count'']
                      (map (\<lambda>(name, n). [VStr name, VInt n]) rs))))"

text \<open>
  Most liked songs: \<^verbatim>\<open>Song s JOIN Produces p ON s.song_id = p.song_id JOIN Artist a ON
  p.artistID = a.artistID LEFT JOIN Likes l ON s.song_id = l.song_id\<close>, grouped by
  \<^verbatim>\<open>s.song_id, s.songName, a.artist_name\<close>, counting \<^verbatim>\<open>l.userID\<close>.
\<close>

definition most_liked_rows :: "database \<Rightarrow> (string \<times> string \<times> int) list" where
  "most_liked_rows db =
     map (\<lambda>((sid, sname, aname), g). (sname, aname, count_col (\<lambda>(spa, l). map_option fst l) g))
       (group_by (\<lambda>(((s, p), a), l). (fst s, fst (snd s), fst (snd a)))
          (left_join
             (inner_join (inner_join (Song db) (Produces db) (\<lambda>s p. fst s = snd p))
                (Artist db) (\<lambda>(s, p) a. fst p = fst a))
             (Likes db) (\<lambda>((s, p), a) l. fst s = fst (snd l))))"

definition select_most_liked :: "params \<Rightarrow> database \<Rightarrow> string + DataFrame" where
  "select_most_liked ps db =
     (case get_int ps ''lim'' of
        None \<Rightarrow> Inl bad_parameters
      | Some lim \<Rightarrow>
          (case limit_rows lim (order_by_desc (\<lambda>r. snd (snd r)) (most_liked_rows db)) of
             Inl e \<Rightarrow> Inl e
           | Inr rs \<Rightarrow>
               Inr (frame [''songname'', ''artist_name'', ''like_count'']
                      (map (\<lambda>(sname, aname, n). [VStr sname, VStr aname, VInt n]) rs))))"

subsection \<open>Mutations\<close>

text \<open>
  \<^verbatim>\<open>INSERT ... RETURNING\<close>: the identifier is the next value of the table's sequence; a
  value that is already a key of the table violates the primary key. (PostgreSQL does
  not roll a sequence back; the model leaves the whole state as it was when a statement
  fails.)
\<close>

definition sql_insert_song :: "params \<Rightarrow> database \<Rightarrow> string + DataFrame \<times> database" where
  "sql_insert_song ps db =
     (case (get_str ps ''n'', get_date ps ''d'') of
        (Some n, Some d) \<Rightarrow>
          (let i = song_id_seq db
           in if i \<in> fst ` set (Song db) then Inl duplicate_key
              else Inr (frame song_cols [song_cells (i, n, d)],
                        db\<lparr>Song := Song db @ [(i, n, d)], song_id_seq := i + 1\<rparr>))
      | _ \<Rightarrow> Inl bad_parameters)"

definition sql_insert_artist :: "params \<Rightarrow> database \<Rightarrow> string + DataFrame \<times> database" where
  "sql_insert_artist ps db =
     (case (get_str ps ''n'', get_opt_str ps ''l'') of
        (Some n, Some l) \<Rightarrow>
          (let i = artistID_seq db
           in if i \<in> fst ` set (Artist db) then Inl duplicate_key
              else Inr (frame artist_cols [artist_cells (i, n, l)],
                        db\<lparr>Artist := Artist db @ [(i, n, l)], artistID_seq := i + 1\<rparr>))
      | _ \<Rightarrow> Inl bad_parameters)"

definition sql_insert_user :: "params \<Rightarrow> database \<Rightarrow> string + DataFrame \<times> database" where
  "sql_insert_user ps db =
     (case get_str ps ''n'' of
        Some n \<Rightarrow>
          (let i = userID_seq db
           in if i \<in> fst ` set (User_table db) then Inl duplicate_key
              else Inr (frame user_cols [user_cells (i, n)],
                        db\<lparr>User_table := User_table db @ [(i, n)], userID_seq := i + 1\<rparr>))
      | _ \<Rightarrow> Inl bad_parameters)"

definition sql_insert_playlist :: "params \<Rightarrow> database \<Rightarrow> string + DataFrame \<times> database" where
  "sql_insert_playlist ps db =
     (case (get_str ps ''n'', get_int ps ''ns'') of
        (Some n, Some k) \<Rightarrow>
          (let i = playlistID_seq db
           in if i \<in> fst ` set (Playlist db) then Inl duplicate_key
              else Inr (frame playlist_cols [playlist_cells (i, n, k)],
                        db\<lparr>Playlist := Playlist db @ [(i, n, k)], playlistID_seq := i + 1\<rparr>))
      | _ \<Rightarrow> Inl bad_parameters)"

text \<open>
  \<^verbatim>\<open>UPDATE ... SET ... WHERE id = :id RETURNING\<close>: every row with that identifier gets
  the new fields (a full-row replacement), in place; the rows it changed are returned.
\<close>

definition set_where :: "int \<Rightarrow> 'f \<Rightarrow> (int \<times> 'f) list \<Rightarrow> (int \<times> 'f) list" where
  "set_where k f rs = map (\<lambda>r. if fst r = k then (k, f) else r) rs"

definition returning_where :: "int \<Rightarrow> (int \<times> 'f) list \<Rightarrow> (int \<times> 'f) list" where
  "returning_where k rs = filter (\<lambda>r. fst r = k) rs"

definition sql_update_song :: "params \<Rightarrow> database \<Rightarrow> string + DataFrame \<times> database" where
  "sql_update_song ps db =
     (case (get_int ps ''sid'', get_str ps ''n'', get_date ps ''d'') of
        (Some sid, Some n, Some d) \<Rightarrow>
          Inr (frame song_cols
                 (map song_cells (returning_where sid (set_where sid (n, d) (Song db)))),
               db\<lparr>Song := set_where sid (n, d) (Song db)\<rparr>)
      | _ \<Rightarrow> Inl bad_parameters)"

definition sql_update_artist :: "params \<Rightarrow> database \<Rightarrow> string + DataFrame \<times> database" where
  "sql_update_artist ps db =
     (case (get_int ps ''aid'', get_str ps ''n'', get_opt_str ps ''l'') of
        (Some aid, Some n, Some l) \<Rightarrow>
          Inr (frame artist_cols
                 (map artist_cells (returning_where aid (set_where aid (n, l) (Artist db)))),
               db\<lparr>Artist := set_where aid (n, l) (Artist db)\<rparr>)
      | _ \<Rightarrow> Inl bad_parameters)"

definition sql_update_user :: "params \<Rightarrow> database \<Rightarrow> string + DataFrame \<times> database" where
  "sql_update_user ps db =
     (case (get_int ps ''uid'', get_str ps ''n'') of
        (Some uid, Some n) \<Rightarrow>
          Inr (frame user_cols
                 (map user_cells (returning_where uid (set_where uid n (User_table db)))),
               db\<lparr>User_table := set_where uid n (User_table db)\<rparr>)
      | _ \<Rightarrow> Inl bad_parameters)"

definition sql_update_playlist :: "params \<Rightarrow> database \<Rightarrow> string + DataFrame \<times> database" where
  "sql_update_playlist ps db =
     (case (get_int ps ''pid'', get_str ps ''n'', get_int ps ''ns'') of
        (Some pid, Some n, Some k) \<Rightarrow>
          Inr (frame playlist_cols
                 (map playlist_cells (returning_where pid (set_where pid (n, k) (Playlist db)))),
               db\<lparr>Playlist := set_where pid (n, k) (Playlist db)\<rparr>)
      | _ \<Rightarrow> Inl bad_parameters)"

text \<open>
  \<^verbatim>\<open>DELETE ... WHERE id = :id RETURNING\<close>: the rows with that identifier go and are
  returned; when there is none, nothing happens and the result has no row. When a row
  goes, the association rows that reference it either forbid the deletion or go with it.
\<close>

definition delete_where :: "int \<Rightarrow> (int \<times> 'f) list \<Rightarrow> (int \<times> 'f) list" where
  "delete_where k rs = filter (\<lambda>r. fst r \<noteq> k) rs"

definition song_referenced :: "database \<Rightarrow> int \<Rightarrow> bool" where
  "song_referenced db sid =
     (list_ex (\<lambda>r. snd r = sid) (Produces db) \<or> list_ex (\<lambda>r. fst (snd r) = sid) (Contains db)
      \<or> list_ex (\<lambda>r. fst (snd r) = sid) (Saves db) \<or> list_ex (\<lambda>r. fst (snd r) = sid) (Likes db))"

definition artist_referenced :: "database \<Rightarrow> int \<Rightarrow> bool" where
  "artist_referenced db aid =
     (list_ex (\<lambda>r. fst r = aid) (Produces db) \<or> list_ex (\<lambda>r. fst r = aid) (Records db))"

definition user_referenced :: "database \<Rightarrow> int \<Rightarrow> bool" where
  "user_referenced db uid =
     (list_ex (\<lambda>r. fst r = uid) (Creates db) \<or> list_ex (\<lambda>r. fst r = uid) (Likes db))"

definition playlist_referenced :: "database \<Rightarrow> int \<Rightarrow> bool" where
  "playlist_referenced db pid =
     (list_ex (\<lambda>r. fst r = pid) (Saves db) \<or> list_ex (\<lambda>r. snd r = pid) (Creates db))"

definition sql_delete_song :: "on_delete \<Rightarrow> params \<Rightarrow> database \<Rightarrow> string + DataFrame \<times> database" where
  "sql_delete_song fk ps db =
     (case get_int ps ''sid'' of
        None \<Rightarrow> Inl bad_parameters
      | Some sid \<Rightarrow>
          (if returning_where sid (Song db) = [] then Inr (frame song_cols [], db)
           else if fk = Restrict \<and> song_referenced db sid then Inl foreign_key
           else Inr (frame song_cols (map song_cells (returning_where sid (Song db))),
                     db\<lparr>Song := delete_where sid (Song db),
                        Produces := filter (\<lambda>r. snd r \<noteq> sid) (Produces db),
                        Contains := filter (\<lambda>r. fst (snd r) \<noteq> sid) (Contains db),
                        Saves := filter (\<lambda>r. fst (snd r) \<noteq> sid) (Saves db),
                        Likes := filter (\<lambda>r. fst (snd r) \<noteq> sid) (Likes db)\<rparr>)))"

definition sql_delete_artist :: "on_delete \<Rightarrow> params \<Rightarrow> database \<Rightarrow> string + DataFrame \<times> database" where
  "sql_delete_artist fk ps db =
     (case get_int ps ''aid'' of
        None \<Rightarrow> Inl bad_parameters
      | Some aid \<Rightarrow>
          (if returning_where aid (Artist db) = [] then Inr (frame artist_cols [], db)
           else if fk = Restrict \<and> artist_referenced db aid then Inl foreign_key
           else Inr (frame artist_cols (map artist_cells (returning_where aid (Artist db))),
                     db\<lparr>Artist := delete_where aid (Artist db),
                        Produces := filter (\<lambda>r. fst r \<noteq> aid) (Produces db),
                        Records := filter (\<lambda>r. fst r \<noteq> aid) (Records db)\<rparr>)))"

definition sql_delete_user :: "on_delete \<Rightarrow> params \<Rightarrow> database \<Rightarrow> string + DataFrame \<times> database" where
  "sql_delete_user fk ps db =
     (case get_int ps ''uid'' of
        None \<Rightarrow> Inl bad_parameters
      | Some uid \<Rightarrow>
          (if returning_where uid (User_table db) = [] then Inr (frame user_cols [], db)
           else if fk = Restrict \<and> user_referenced db uid then Inl foreign_key
           else Inr (frame user_cols (map user_cells (returning_where uid (User_table db))),
                     db\<lparr>User_table := delete_where uid (User_table db),
                        Creates := filter (\<lambda>r. fst r \<noteq> uid) (Creates db),
                        Likes := filter (\<lambda>r. fst r \<noteq> uid) (Likes db)\<rparr>)))"

definition sql_delete_playlist :: "on_delete \<Rightarrow> params \<Rightarrow> database \<Rightarrow> string + DataFrame \<times> database" where
  "sql_delete_playlist fk ps db =
     (case get_int ps ''pid'' of
        None \<Rightarrow> Inl bad_parameters
      | Some pid \<Rightarrow>
          (if returning_where pid (Playlist db) = [] then Inr (frame playlist_cols [], db)
           else if fk = Restrict \<and> playlist_referenced db pid then Inl foreign_key
           else Inr (frame playlist_cols (map playlist_cells (returning_where pid (Playlist db))),
                     db\<lparr>Playlist := delete_where pid (Playlist db),
                        Saves := filter (\<lambda>r. fst r \<noteq> pid) (Saves db),
                        Creates := filter (\<lambda>r. snd r \<noteq> pid) (Creates db)\<rparr>)))"

subsection \<open>The store\<close>

text \<open>
  The store that executes the statements above. A query only reads; the session
  directives touch no table. Four statements of \<^verbatim>\<open>app.py\<close> are left to a
  parameter, \<open>other\<close>: the album tracks, ordered by a text column under the collation of
  the database; the user and song network, which has no order, so that the store may
  return any 500 of its rows; and the two statements behind the charts.
\<close>

definition reads :: "database \<Rightarrow> string + DataFrame \<Rightarrow> string + DataFrame \<times> database" where
  "reads db r = (case r of Inl e \<Rightarrow> Inl e | Inr df \<Rightarrow> Inr (df, db))"

definition pg :: "on_delete \<Rightarrow> database store \<Rightarrow> database store" where
  "pg fk other q ps db =
     (case q of
        CrudUsers \<Rightarrow> Inr (select_users db, db)
      | CrudArtists \<Rightarrow> Inr (select_artists db, db)
      | CrudAlbums \<Rightarrow> Inr (select_albums db, db)
      | CrudSongs \<Rightarrow> reads db (select_songs ps db)
      | CrudPlaylists \<Rightarrow> Inr (select_playlists db, db)
      | InsertSong \<Rightarrow> sql_insert_song ps db
      | UpdateSong \<Rightarrow> sql_update_song ps db
      | DeleteSong \<Rightarrow> sql_delete_song fk ps db
      | InsertArtist \<Rightarrow> sql_insert_artist ps db
      | UpdateArtist \<Rightarrow> sql_update_artist ps db
      | DeleteArtist \<Rightarrow> sql_delete_artist fk ps db
      | InsertUser \<Rightarrow> sql_insert_user ps db
      | UpdateUser \<Rightarrow> sql_update_user ps db
      | DeleteUser \<Rightarrow> sql_delete_user fk ps db
      | InsertPlaylist \<Rightarrow> sql_insert_playlist ps db
      | UpdatePlaylist \<Rightarrow> sql_update_playlist ps db
      | DeletePlaylist \<Rightarrow> sql_delete_playlist fk ps db
      | AppUsers \<Rightarrow> reads db (select_star_users ps db)
      | AppSongs \<Rightarrow> reads db (select_star_songs ps db)
      | AppSongsArtists \<Rightarrow> reads db (select_songs_artists ps db)
      | AppAlbums \<Rightarrow> reads db (select_star_albums ps db)
      | AppAlbumsArtists \<Rightarrow> reads db (select_albums_artists ps db)
      | AppArtists \<Rightarrow> reads db (select_star_artists ps db)
      | AppArtistSongCounts \<Rightarrow> reads db (select_artist_song_counts ps db)
      | AppPlaylists \<Rightarrow> reads db (select_star_playlists ps db)
      | AppPlaylistsCreators \<Rightarrow> reads db (select_playlists_creators ps db)
      | AppPlaylistChoices \<Rightarrow> Inr (select_playlist_choices db, db)
      | AppPlaylistSongs \<Rightarrow> reads db (select_playlist_songs ps db)
      | AppUserLikes \<Rightarrow> reads db (select_user_likes ps db)
      | AppMostLiked \<Rightarrow> reads db (select_most_liked ps db)
      | AppUserActivity \<Rightarrow> reads db (select_user_activity ps db)
      | SetStatementTimeout \<Rightarrow> Inr (DataFrame_new, db)
      | SetSearchPath u \<Rightarrow> Inr (DataFrame_new, db)
      | _ \<Rightarrow> other q ps db)"

section \<open>Notions used by the properties\<close>

text \<open>
  A statement as it was sent, with its bound parameters, respects the row limit when it
  binds no \<^verbatim>\<open>lim\<close>, or binds it to an integer from 1 to 2000.
\<close>

definition lim_ok :: "string \<times> params \<Rightarrow> bool" where
  "lim_ok s = (case map_of (snd s) ''lim'' of None \<Rightarrow> True
               | Some v \<Rightarrow> (case v of VInt i \<Rightarrow> 1 \<le> i \<and> i \<le> 2000 | _ \<Rightarrow> False))"

text \<open>The world once a connection is taken from the pool when the store accepts the directives.\<close>

definition opened :: "config \<Rightarrow> 'db world \<Rightarrow> 'db world" where
  "opened c w =
     (if connected w then w
      else w\<lparr>sent := sent w @ [(sql_text SetStatementTimeout, []),
                               (sql_text (SetSearchPath (fmt_opt (PGUSER c))), [])],
             connected := True\<rparr>)"

text \<open>A small database, a configuration and a fresh process, for concrete runs.\<close>

definition example_db :: database where
  "example_db =
     \<lparr>User_table = [(1, ''ann''), (2, ''bob'')],
      Artist = [(1, ''Taylor Swift'', Some ''Nashville, TN''), (2, ''Solo'', None)],
      Song = [(1, ''Anti-Hero'', 19286), (2, ''Orphan'', 19000)],
      Album = [(1, ''Midnights'', 19286)],
      Playlist = [(1, ''My Favorites'', 1)],
      Produces = [(1, 1)],
      Records = [(1, 1)],
      Contains = [(1, 1, 3)],
      Saves = [(1, 1, 1)],
      Creates = [(1, 1)],
      Likes = [(1, 1, 19300)],
      userID_seq = 3, artistID_seq = 3, song_id_seq = 3, playlistID_seq = 2\<rparr>"

definition example_config :: config where
  "example_config =
     \<lparr>PGHOST = ''localhost'', PGPORT = ''5432'', PGDATABASE = Some ''music'',
      PGUSER = Some ''hawk'', PGPASSWORD = Some ''secret'', PGSSLMODE = ''require''\<rparr>"

definition example_world :: "database world" where
  "example_world = \<lparr>store_db = example_db, connected = False, sent = [], shown = []\<rparr>"

definition not_modelled :: "database store" where
  "not_modelled q ps db = Inl ''not modelled''"

text \<open>
  Reading the text of a statement: whether it contains a phrase, and the column names of
  its \<^verbatim>\<open>RETURNING\<close> clause as PostgreSQL labels them (folded to lower case).
\<close>

definition starts_with :: "string \<Rightarrow> string \<Rightarrow> bool" where
  "starts_with p s = (take (length p) s = p)"

fun drop_to :: "string \<Rightarrow> string \<Rightarrow> string option" where
  "drop_to needle [] = (if needle = [] then Some [] else None)"
| "drop_to needle (x # xs) =
     (if starts_with needle (x # xs) then Some (drop (length needle) (x # xs))
      else drop_to needle xs)"

definition contains_text :: "string \<Rightarrow> string \<Rightarrow> bool" where
  "contains_text needle s = (drop_to needle s \<noteq> None)"

fun split_on :: "char \<Rightarrow> string \<Rightarrow> string list" where
  "split_on c [] = [[]]"
| "split_on c (x # xs) =
     (if x = c then [] # split_on c xs
      else (case split_on c xs of [] \<Rightarrow> [[x]] | y # ys \<Rightarrow> (x # y) # ys))"

definition lower_char :: "char \<Rightarrow> char" where
  "lower_char ch =
     (case map_of (zip ''ABCDEFGHIJKLMNOPQRSTUVWXYZ'' ''abcdefghijklmnopqrstuvwxyz'') ch of
        None \<Rightarrow> ch | Some l \<Rightarrow> l)"

definition lower :: "string \<Rightarrow> string" where
  "lower s = map lower_char s"

definition returning_columns :: "string \<Rightarrow> string list" where
  "returning_columns sql =
     (case drop_to ''RETURNING '' sql of
        None \<Rightarrow> []
      | Some t \<Rightarrow> map (\<lambda>x. lower (strip x)) (split_on CHR '','' t))"

text \<open>
  Two stores for concrete runs: one on which every statement runs into the statement
  timeout, and one that answers every statement with the same two rows.
\<close>

definition timed_out :: "database store" where
  "timed_out q ps db = Inl ''canceling statement due to statement timeout''"

definition two_rows :: "nat store" where
  "two_rows q ps db =
     Inr (\<lparr>columns = [''song_id'', ''songname''],
           rows = [[VInt 1, VStr ''first''], [VInt 1, VStr ''second'']]\<rparr>, db)"


text \<open>
  What \<^verbatim>\<open>ORDER BY key LIMIT n\<close> may return of the rows \<open>xs\<close>, in whatever order the store
  puts rows with equal keys: \<open>n\<close> rows, or all when there are fewer; in ascending order of
  the key; each at most as often as it is in \<open>xs\<close>; and with every row whose key is below
  the key of a returned row. For a descending order the key is negated.
\<close>

definition first_rows :: "('r \<Rightarrow> int) \<Rightarrow> nat \<Rightarrow> 'r list \<Rightarrow> 'r list \<Rightarrow> bool" where
  "first_rows key n xs rs \<longleftrightarrow>
     length rs = min n (length xs)
   \<and> sorted (map key rs)
   \<and> (\<forall>x\<in>set rs. count_list rs x \<le> count_list xs x)
   \<and> (\<forall>x\<in>set xs. \<forall>y\<in>set rs. key x < key y \<longrightarrow> count_list rs x = count_list xs x)"

definition descending :: "('r \<Rightarrow> int) \<Rightarrow> 'r \<Rightarrow> int" where
  "descending key r = - key r"

text \<open>A database with one user and nothing else.\<close>

definition users_only_db :: database where
  "users_only_db =
     \<lparr>User_table = [(1, ''ann'')], Artist = [], Song = [], Album = [], Playlist = [],
      Produces = [], Records = [], Contains = [], Saves = [], Creates = [], Likes = [],
      userID_seq = 2, artistID_seq = 1, song_id_seq = 1, playlistID_seq = 1\<rparr>"

text \<open>
  The rows of \<^verbatim>\<open>Artist LEFT JOIN Produces\<close> that make the group of one artist in the
  artist song counts.
\<close>

definition artist_group :: "database \<Rightarrow> int \<Rightarrow> string \<Rightarrow> ((int \<times> string \<times> string option) \<times> (int \<times> int) option) list" where
  "artist_group db aid name =
     filter (\<lambda>(a, p). fst a = aid \<and> fst (snd a) = name)
       (left_join (Artist db) (Produces db) (\<lambda>a p. fst a = fst p))"

text \<open>
  The small database with one more song, produced by the first artist and liked by nobody.
\<close>

definition example_db_unliked :: database where
  "example_db_unliked =
     example_db\<lparr>Song := Song example_db @ [(3, ''Lavender Haze'', 19286)],
                Produces := Produces example_db @ [(1, 3)]\<rparr>"

section \<open>Properties\<close>

subsection \<open>Startup\<close>

text \<open>
  C8. If the database name, the user name or the password is absent from the
  environment, a run of either program ends at the credential check with \<^verbatim>\<open>st.stop()\<close>:
  the outcome is \<open>Stopped\<close>, the only effect is the message on the page, and in
  particular no statement is sent to the store and the database state is the one before
  the run.
\<close>

theorem C8_missing_credential_halts:
  assumes "getenv e ''PGDATABASE'' = None \<or> getenv e ''PGUSER'' = None
           \<or> getenv e ''PGPASSWORD'' = None"
  shows "app_main py_int e ui store w = (Stopped, w\<lparr>shown := shown w @ [missing_credentials]\<rparr>)
       \<and> crud_main py_int e cui store' w' = (Stopped, w'\<lparr>shown := shown w' @ [missing_credentials]\<rparr>)
       \<and> sent (snd (app_main py_int e ui store w)) = sent w
       \<and> sent (snd (crud_main py_int e cui store' w')) = sent w'"
  using assms
  by (auto simp: app_main_def crud_main_def load_config_crud_def load_config_def
                 credentials_present_def truthy_def Let_def)

theorem C8_missing_credential_halts_witness:
  "fst (app_main (\<lambda>_. Some 5432) [''PGDATABASE'' \<mapsto> ''music'', ''PGUSER'' \<mapsto> ''hawk'']
      \<lparr>row_limit_entry = None, view_choice = UserLikes,
       selected_playlist = (\<lambda>_. Inr 1), presents = (\<lambda>_ _. None)\<rparr>
      (\<lambda>q ps db. Inr (DataFrame_new, db))
      \<lparr>store_db = (0::nat), connected = False, sent = [], shown = []\<rparr>) = Stopped
   \<and> sent (snd (app_main (\<lambda>_. Some 5432) [''PGDATABASE'' \<mapsto> ''music'', ''PGUSER'' \<mapsto> ''hawk'']
      \<lparr>row_limit_entry = None, view_choice = UserLikes,
       selected_playlist = (\<lambda>_. Inr 1), presents = (\<lambda>_ _. None)\<rparr>
      (\<lambda>q ps db. Inr (DataFrame_new, db))
      \<lparr>store_db = (0::nat), connected = False, sent = [], shown = []\<rparr>)) = []"
  using C8_missing_credential_halts
          [where e = "[''PGDATABASE'' \<mapsto> ''music'', ''PGUSER'' \<mapsto> ''hawk'']"
             and py_int = "\<lambda>_. Some 5432"
             and ui = "\<lparr>row_limit_entry = None, view_choice = UserLikes,
                       selected_playlist = (\<lambda>_. Inr 1), presents = (\<lambda>_ _. None)\<rparr>"
             and store = "\<lambda>q ps db. Inr (DataFrame_new, db)"
             and w = "\<lparr>store_db = (0::nat), connected = False, sent = [], shown = []\<rparr>"
             and cui = "\<lparr>crud_row_limit_entry = None, event = NoEvent,
                        upd_sel = (\<lambda>_ _. Inr 1), del_sel = (\<lambda>_ _. 1),
                        current_num_songs = (\<lambda>_. 0)\<rparr>"
             and store' = "\<lambda>q ps db. Inr (DataFrame_new, db)"
             and w' = "\<lparr>store_db = (0::nat), connected = False, sent = [], shown = []\<rparr>"]
  by (simp add: getenv_def)


subsection \<open>The row limit\<close>

lemma checkout_lim_ok:
  "list_all lim_ok (sent w) \<Longrightarrow> list_all lim_ok (sent (snd (checkout store c w)))"
  by (auto simp: checkout_def set_search_path_def send_def Let_def lim_ok_def split: sum.splits)

lemma read_sql_lim_ok:
  "list_all lim_ok (sent w) \<Longrightarrow> lim_ok (sql_text q, ps) \<Longrightarrow>
   list_all lim_ok (sent (snd (read_sql store c q ps w)))"
  using checkout_lim_ok[of w store c]
  by (auto simp: read_sql_def send_def Let_def split: sum.splits prod.splits)

lemma fetch_df_with_lim_ok:
  "list_all lim_ok (sent w) \<Longrightarrow> lim_ok (sql_text q, case ps of None \<Rightarrow> [] | Some p \<Rightarrow> p) \<Longrightarrow>
   list_all lim_ok (sent (snd (fetch_df_with pre store c q ps w)))"
  using read_sql_lim_ok[of w q "case ps of None \<Rightarrow> [] | Some p \<Rightarrow> p" store c]
  by (auto simp: fetch_df_with_def split: sum.splits prod.splits)

lemma mutate_lim_ok:
  "list_all lim_ok (sent w) \<Longrightarrow> lim_ok (sql_text q, ps) \<Longrightarrow>
   list_all lim_ok (sent (snd (mutate store c q ps w)))"
  using read_sql_lim_ok[of w q ps store c]
  by (auto simp: mutate_def split: sum.splits prod.splits)

lemma row_limit_of_range: "1 \<le> row_limit_of entry \<and> row_limit_of entry \<le> 2000"
  by (auto simp: row_limit_of_def number_input_def split: option.splits)

lemma lim_ok_lim: "1 \<le> l \<Longrightarrow> l \<le> 2000 \<Longrightarrow> lim_ok (t, case lim_params l of None \<Rightarrow> [] | Some p \<Rightarrow> p)"
  by (simp add: lim_ok_def lim_params_def)

lemma lim_ok_none: "lim_ok (t, [])"
  by (simp add: lim_ok_def)

lemma fetch_df_lim:
  "list_all lim_ok (sent w) \<Longrightarrow> 1 \<le> l \<Longrightarrow> l \<le> 2000 \<Longrightarrow>
   list_all lim_ok (sent (snd (fetch_df store c q (lim_params l) w)))"
  unfolding fetch_df_def by (rule fetch_df_with_lim_ok) (auto intro: lim_ok_lim)

lemma fetch_df_nolim:
  "list_all lim_ok (sent w) \<Longrightarrow>
   list_all lim_ok (sent (snd (fetch_df store c q None w)))"
  unfolding fetch_df_def by (rule fetch_df_with_lim_ok) (auto simp: lim_ok_def)

lemma app_tabs_1_4_lim_ok:
  assumes "list_all lim_ok (sent w)" "1 \<le> l" "l \<le> 2000"
  shows "list_all lim_ok (sent (app_tabs_1_4 store c l w))"
proof -
  note F = fetch_df_lim[OF _ assms(2,3)]
  obtain d1 w1 where 1: "fetch_df store c AppUsers (lim_params l) w = (d1, w1)" by fastforce
  obtain d2 w2 where 2: "fetch_df store c AppSongs (lim_params l) w1 = (d2, w2)" by fastforce
  obtain d3 w3 where 3: "fetch_df store c AppSongsArtists (lim_params l) w2 = (d3, w3)" by fastforce
  obtain d4 w4 where 4: "fetch_df store c AppAlbums (lim_params l) w3 = (d4, w4)" by fastforce
  obtain d5 w5 where 5: "fetch_df store c AppAlbumsArtists (lim_params l) w4 = (d5, w5)" by fastforce
  obtain d6 w6 where 6: "fetch_df store c AppArtists (lim_params l) w5 = (d6, w6)" by fastforce
  have a1: "list_all lim_ok (sent w1)" using F[OF assms(1), of store c AppUsers] 1 by simp
  have a2: "list_all lim_ok (sent w2)" using F[OF a1, of store c AppSongs] 2 by simp
  have a3: "list_all lim_ok (sent w3)" using F[OF a2, of store c AppSongsArtists] 3 by simp
  have a4: "list_all lim_ok (sent w4)" using F[OF a3, of store c AppAlbums] 4 by simp
  have a5: "list_all lim_ok (sent w5)" using F[OF a4, of store c AppAlbumsArtists] 5 by simp
  have a6: "list_all lim_ok (sent w6)" using F[OF a5, of store c AppArtists] 6 by simp
  show ?thesis
    using a6 F[OF a6, of store c AppArtistSongCounts]
    by (simp add: app_tabs_1_4_def 1 2 3 4 5 6)
qed


lemma app_tab_5_lim_ok:
  assumes "list_all lim_ok (sent w)" "1 \<le> l" "l \<le> 2000"
  shows "list_all lim_ok (sent (snd (app_tab_5 store c ui l w)))"
proof -
  note F = fetch_df_lim[OF _ assms(2,3)]
  obtain d1 w1 where 1: "fetch_df store c AppPlaylists (lim_params l) w = (d1, w1)" by fastforce
  obtain d2 w2 where 2: "fetch_df store c AppPlaylistsCreators (lim_params l) w1 = (d2, w2)" by fastforce
  obtain d3 w3 where 3: "fetch_df store c AppPlaylistChoices None w2 = (d3, w3)" by fastforce
  have a1: "list_all lim_ok (sent w1)" using F[OF assms(1), of store c AppPlaylists] 1 by simp
  have a2: "list_all lim_ok (sent w2)" using F[OF a1, of store c AppPlaylistsCreators] 2 by simp
  have a3: "list_all lim_ok (sent w3)" using fetch_df_nolim[OF a2, of store c AppPlaylistChoices] 3 by simp
  have a4: "list_all lim_ok (sent (snd (fetch_df store c AppPlaylistSongs (Some [(''pid'', VInt pid)]) w3)))" for pid
    unfolding fetch_df_def by (rule fetch_df_with_lim_ok[OF a3]) (simp add: lim_ok_def)
  show ?thesis
    using a3 a4 by (simp add: app_tab_5_def 1 2 3 split: sum.splits)
qed

lemma app_tab_6_lim_ok:
  assumes "list_all lim_ok (sent w)" "1 \<le> l" "l \<le> 2000"
  shows "list_all lim_ok (sent (snd (app_tab_6 store c ui l w)))"
proof -
  note F = fetch_df_lim[OF _ assms(2,3)]
  obtain d1 w1 where 1: "fetch_df store c (view_stmt (view_choice ui)) (lim_params l) w = (d1, w1)" by fastforce
  obtain d2 w2 where 2: "fetch_df store c AppNetwork None w1 = (d2, w2)" by fastforce
  obtain d3 w3 where 3: "fetch_df store c AppTopLiked None w2 = (d3, w3)" by fastforce
  obtain d4 w4 where 4: "fetch_df store c AppAvgSongs None w3 = (d4, w4)" by fastforce
  have a1: "list_all lim_ok (sent w1)" using F[OF assms(1), of store c "view_stmt (view_choice ui)"] 1 by simp
  have a2: "list_all lim_ok (sent w2)" using fetch_df_nolim[OF a1, of store c AppNetwork] 2 by simp
  have a3: "list_all lim_ok (sent w3)" using fetch_df_nolim[OF a2, of store c AppTopLiked] 3 by simp
  have a4: "list_all lim_ok (sent w4)" using fetch_df_nolim[OF a3, of store c AppAvgSongs] 4 by simp
  show ?thesis
    using a2 a3 a4 by (simp add: app_tab_6_def 1 2 3 4 split: option.splits)
qed

lemma app_page_lim_ok:
  assumes "list_all lim_ok (sent w)"
  shows "list_all lim_ok (sent (snd (app_page store c ui w)))"
proof -
  let ?l = "row_limit_of (row_limit_entry ui)"
  have r: "1 \<le> ?l" "?l \<le> 2000" using row_limit_of_range by auto
  have a1: "list_all lim_ok (sent (app_tabs_1_4 store c ?l w))"
    by (rule app_tabs_1_4_lim_ok[OF assms r])
  obtain o5 w5 where 5: "app_tab_5 store c ui ?l (app_tabs_1_4 store c ?l w) = (o5, w5)" by fastforce
  have a5: "list_all lim_ok (sent w5)"
    using app_tab_5_lim_ok[OF a1 r, of store c ui] 5 by simp
  show ?thesis
    using a5 app_tab_6_lim_ok[OF a5 r, of store c ui]
    by (simp add: app_page_def Let_def 5 split: option.splits)
qed

lemma app_main_lim_ok:
  assumes "list_all lim_ok (sent w)"
  shows "list_all lim_ok (sent (snd (app_main py_int e ui store w)))"
  using assms app_page_lim_ok[OF assms]
  by (simp add: app_main_def Let_def split: sum.splits)

lemma flash_rerun_sent: "sent (snd (flash_rerun r)) = sent (snd r)"
  by (auto simp: flash_rerun_def split: prod.splits sum.splits)

lemma lim_ok_simps:
  "lim_ok (t, [(''n'', a)])" "lim_ok (t, [(''n'', a), (''d'', b)])"
  "lim_ok (t, [(''n'', a), (''l'', b)])" "lim_ok (t, [(''n'', a), (''ns'', b)])"
  "lim_ok (t, [(''sid'', a)])" "lim_ok (t, [(''aid'', a)])" "lim_ok (t, [(''uid'', a)])"
  "lim_ok (t, [(''pid'', a)])"
  "lim_ok (t, [(''sid'', a), (''n'', b), (''d'', x)])"
  "lim_ok (t, [(''aid'', a), (''n'', b), (''l'', x)])"
  "lim_ok (t, [(''uid'', a), (''n'', b)])"
  "lim_ok (t, [(''pid'', a), (''n'', b), (''ns'', x)])"
  by (simp_all add: lim_ok_def)

lemma helpers_lim_ok:
  assumes "list_all lim_ok (sent w)"
  shows "list_all lim_ok (sent (snd (insert_user store c a w)))"
    and "list_all lim_ok (sent (snd (update_user store c i a w)))"
    and "list_all lim_ok (sent (snd (delete_user store c i w)))"
    and "list_all lim_ok (sent (snd (insert_artist store c a lo w)))"
    and "list_all lim_ok (sent (snd (update_artist store c i a lo w)))"
    and "list_all lim_ok (sent (snd (delete_artist store c i w)))"
    and "list_all lim_ok (sent (snd (insert_song store c a d w)))"
    and "list_all lim_ok (sent (snd (update_song store c i a d w)))"
    and "list_all lim_ok (sent (snd (delete_song store c i w)))"
    and "list_all lim_ok (sent (snd (insert_playlist store c a k w)))"
    and "list_all lim_ok (sent (snd (update_playlist store c i a k w)))"
    and "list_all lim_ok (sent (snd (delete_playlist store c i w)))"
  unfolding insert_user_def update_user_def delete_user_def insert_artist_def update_artist_def
    delete_artist_def insert_song_def update_song_def delete_song_def insert_playlist_def
    update_playlist_def delete_playlist_def
  by (rule mutate_lim_ok[OF assms], rule lim_ok_simps)+

lemma handlers_lim_ok:
  assumes "list_all lim_ok (sent w)"
  shows "list_all lim_ok (sent (snd (on_insert_user store c ev w)))"
    and "list_all lim_ok (sent (snd (on_update_user store c ev df i w)))"
    and "list_all lim_ok (sent (snd (on_delete_user store c ev i w)))"
    and "list_all lim_ok (sent (snd (on_insert_artist store c ev w)))"
    and "list_all lim_ok (sent (snd (on_update_artist store c ev df i w)))"
    and "list_all lim_ok (sent (snd (on_delete_artist store c ev i w)))"
    and "list_all lim_ok (sent (snd (on_insert_song store c ev w)))"
    and "list_all lim_ok (sent (snd (on_update_song store c ev df i w)))"
    and "list_all lim_ok (sent (snd (on_delete_song store c ev i w)))"
    and "list_all lim_ok (sent (snd (on_insert_playlist store c ev w)))"
    and "list_all lim_ok (sent (snd (on_update_playlist store c cui ev df i w)))"
    and "list_all lim_ok (sent (snd (on_delete_playlist store c ev i w)))"
  using assms helpers_lim_ok[OF assms]
  by (auto simp: on_insert_user_def on_update_user_def on_delete_user_def
      on_insert_artist_def on_update_artist_def on_delete_artist_def
      on_insert_song_def on_update_song_def on_delete_song_def
      on_insert_playlist_def on_update_playlist_def on_delete_playlist_def
      flash_rerun_sent split: crud_event.splits)

lemma crud_tab_lim_ok:
  assumes "list_all lim_ok (sent (snd listing))"
    and "\<And>w. list_all lim_ok (sent w) \<Longrightarrow> list_all lim_ok (sent (snd (ins w)))"
    and "\<And>w df i. list_all lim_ok (sent w) \<Longrightarrow> list_all lim_ok (sent (snd (upd df i w)))"
    and "\<And>w i. list_all lim_ok (sent w) \<Longrightarrow> list_all lim_ok (sent (snd (del i w)))"
  shows "list_all lim_ok (sent (snd (crud_tab cui q ins upd del listing)))"
proof -
  obtain df w1 where l: "listing = (df, w1)" by fastforce
  obtain o2 w2 where i: "ins w1 = (o2, w2)" by fastforce
  have a1: "list_all lim_ok (sent w1)" using assms(1) l by simp
  have a2: "list_all lim_ok (sent w2)" using assms(2)[OF a1] i by simp
  show ?thesis
  proof (cases "upd_sel cui q df")
    case (Inl e)
    then show ?thesis using a2 by (simp add: crud_tab_def l i split: option.splits)
  next
    case (Inr sel)
    obtain o3 w3 where u: "upd df sel w2 = (o3, w3)" by fastforce
    have a3: "list_all lim_ok (sent w3)" using assms(3)[OF a2, of df sel] u by simp
    show ?thesis using a2 a3 assms(4)[OF a3, of "del_sel cui q df"]
      by (simp add: crud_tab_def l i Inr u split: option.splits)
  qed
qed

lemma crud_page_lim_ok:
  assumes "list_all lim_ok (sent w)"
  shows "list_all lim_ok (sent (snd (crud_page store c cui w)))"
proof -
  let ?l = "row_limit_of (crud_row_limit_entry cui)"
  have r: "1 \<le> ?l" "?l \<le> 2000" using row_limit_of_range by auto
  have N: "list_all lim_ok (sent (snd (fetch_df_crud store c q None w')))"
    if "list_all lim_ok (sent w')" for q w'
    unfolding fetch_df_crud_def by (rule fetch_df_with_lim_ok[OF that]) (simp add: lim_ok_def)
  have S: "list_all lim_ok (sent (snd (fetch_songs store c ?l w')))"
    if "list_all lim_ok (sent w')" for w'
    unfolding fetch_songs_def fetch_df_crud_def
    by (rule fetch_df_with_lim_ok[OF that]) (use r in \<open>simp add: lim_ok_def\<close>)
  have T1: "list_all lim_ok (sent (snd (tab_users store c cui w')))"
    if "list_all lim_ok (sent w')" for w'
    unfolding tab_users_def fetch_users_def
    by (rule crud_tab_lim_ok[OF N[OF that]]) (auto intro: handlers_lim_ok)
  have T2: "list_all lim_ok (sent (snd (tab_artists store c cui w')))"
    if "list_all lim_ok (sent w')" for w'
    unfolding tab_artists_def fetch_artists_def
    by (rule crud_tab_lim_ok[OF N[OF that]]) (auto intro: handlers_lim_ok)
  have T3: "list_all lim_ok (sent (snd (tab_songs store c cui ?l w')))"
    if "list_all lim_ok (sent w')" for w'
    unfolding tab_songs_def
    by (rule crud_tab_lim_ok[OF S[OF that]]) (auto intro: handlers_lim_ok)
  have T4: "list_all lim_ok (sent (snd (tab_playlists store c cui w')))"
    if "list_all lim_ok (sent w')" for w'
    unfolding tab_playlists_def fetch_playlists_def
    by (rule crud_tab_lim_ok[OF N[OF that]]) (auto intro: handlers_lim_ok)
  obtain o1 w1 where 1: "tab_users store c cui w = (o1, w1)" by fastforce
  obtain o2 w2 where 2: "tab_artists store c cui w1 = (o2, w2)" by fastforce
  obtain o3 w3 where 3: "tab_songs store c cui ?l w2 = (o3, w3)" by fastforce
  obtain d4 w4 where 4: "fetch_albums store c w3 = (d4, w4)" by fastforce
  obtain o5 w5 where 5: "tab_playlists store c cui w4 = (o5, w5)" by fastforce
  have a1: "list_all lim_ok (sent w1)" using T1[OF assms] 1 by simp
  have a2: "list_all lim_ok (sent w2)" using T2[OF a1] 2 by simp
  have a3: "list_all lim_ok (sent w3)" using T3[OF a2] 3 by simp
  have a4: "list_all lim_ok (sent w4)" using N[OF a3, of CrudAlbums] 4 by (simp add: fetch_albums_def)
  have a5: "list_all lim_ok (sent w5)" using T4[OF a4] 5 by simp
  show ?thesis using a1 a2 a3 a5
    by (simp add: crud_page_def Let_def 1 2 3 4 5 split: option.splits)
qed

lemma crud_main_lim_ok:
  assumes "list_all lim_ok (sent w)"
  shows "list_all lim_ok (sent (snd (crud_main py_int e cui store w)))"
  using assms crud_page_lim_ok[of "w\<lparr>connected := False\<rparr>" store _ cui]
  by (simp add: crud_main_def Let_def split: sum.splits)

text \<open>
  C9. The row limit is what the number widget yields, between 1 and 2000 (200 until the
  user enters a number), and every statement that a run of either program sends with a
  \<^verbatim>\<open>lim\<close> parameter binds it to an integer in that range, whatever the user does and
  whatever the store answers.
\<close>

theorem C9_row_limit_in_range:
  assumes "list_all lim_ok (sent w)" and "list_all lim_ok (sent w')"
  shows "list_all lim_ok (sent (snd (app_main py_int e ui store w)))
       \<and> list_all lim_ok (sent (snd (crud_main py_int e cui store' w')))
       \<and> 1 \<le> row_limit_of entry \<and> row_limit_of entry \<le> 2000 \<and> row_limit_of None = 200"
  using app_main_lim_ok[OF assms(1)] crud_main_lim_ok[OF assms(2)] row_limit_of_range[of entry]
  by (simp add: row_limit_of_def number_input_def)

theorem C9_row_limit_in_range_witness:
  "list_all lim_ok
     (sent (snd (app_main (\<lambda>_. Some 5432)
        [''PGDATABASE'' \<mapsto> ''music'', ''PGUSER'' \<mapsto> ''hawk'', ''PGPASSWORD'' \<mapsto> ''pw'']
        \<lparr>row_limit_entry = Some 5000, view_choice = MostLikedSongs,
         selected_playlist = (\<lambda>_. Inr 1), presents = (\<lambda>_ _. None)\<rparr>
        (\<lambda>q ps db. Inr (DataFrame_new, db))
        \<lparr>store_db = (0::nat), connected = False, sent = [], shown = []\<rparr>)))
   \<and> row_limit_of (Some 5000) = 2000 \<and> row_limit_of (Some 0) = 1"
  using C9_row_limit_in_range
          [where w = "\<lparr>store_db = (0::nat), connected = False, sent = [], shown = []\<rparr>"
             and w' = "\<lparr>store_db = (0::nat), connected = False, sent = [], shown = []\<rparr>"
             and py_int = "\<lambda>_. Some 5432"
             and e = "[''PGDATABASE'' \<mapsto> ''music'', ''PGUSER'' \<mapsto> ''hawk'', ''PGPASSWORD'' \<mapsto> ''pw'']"
             and ui = "\<lparr>row_limit_entry = Some 5000, view_choice = MostLikedSongs,
                       selected_playlist = (\<lambda>_. Inr 1), presents = (\<lambda>_ _. None)\<rparr>"
             and store = "\<lambda>q ps db. Inr (DataFrame_new, db)"
             and cui = "\<lparr>crud_row_limit_entry = None, event = NoEvent,
                        upd_sel = (\<lambda>_ _. Inr 1), del_sel = (\<lambda>_ _. 1),
                        current_num_songs = (\<lambda>_. 0)\<rparr>"
             and store' = "\<lambda>q ps db. Inr (DataFrame_new, db)"
             and entry = "Some 5000"]
  by (simp add: row_limit_of_def number_input_def)


subsection \<open>The store under the data access layer\<close>

lemma pg_checkout: "checkout (pg fk other) c w = (Inr (), opened c w)"
  by (simp add: checkout_def set_search_path_def opened_def send_def pg_def Let_def)

lemma store_db_opened [simp]: "store_db (opened c w) = store_db w"
  by (simp add: opened_def)

lemma pg_read_sql:
  "read_sql (pg fk other) c q ps w =
     (case pg fk other q ps (store_db w) of
        Inl e \<Rightarrow> (Inl e, send q ps (opened c w))
      | Inr (df, db') \<Rightarrow> (Inr df, (send q ps (opened c w))\<lparr>store_db := db'\<rparr>))"
  by (simp add: read_sql_def pg_checkout send_def Let_def split: sum.splits)

lemma returning_set_where:
  "k \<in> fst ` set rs \<Longrightarrow> \<exists>m. returning_where k (set_where k f rs) = (k, f) # m"
  by (induction rs) (auto simp: returning_where_def set_where_def)

lemma length_set_where [simp]: "length (set_where k f rs) = length rs"
  by (simp add: set_where_def)

lemma iloc0_frame_Cons:
  "cs \<noteq> [] \<Longrightarrow> iloc0_to_dict (frame cs (r # rs)) = Some (zip cs r)"
  by (simp add: iloc0_to_dict_def frame_def df_empty_def)

lemma iloc0_frame_Nil: "iloc0_to_dict (frame cs []) = None"
  by (simp add: iloc0_to_dict_def frame_def df_empty_def)


lemmas pg_mutation_defs =
  mutate_def pg_read_sql pg_def get_int_def get_str_def get_date_def get_opt_str_def
  opt_str_def iloc0_frame_Cons iloc0_frame_Nil
  user_cols_def artist_cols_def song_cols_def playlist_cols_def
  user_cells_def artist_cells_def song_cells_def playlist_cells_def

lemma update_song_pg:
  assumes "sid \<in> fst ` set (Song (store_db w))"
  shows "fst (update_song (pg fk other) c sid n d w) =
           Inr (Some [(''song_id'', VInt sid), (''songname'', VStr n), (''dayreleased'', VDate d)])
       \<and> store_db (snd (update_song (pg fk other) c sid n d w)) =
           (store_db w)\<lparr>Song := set_where sid (n, d) (Song (store_db w))\<rparr>"
proof -
  obtain m where m: "returning_where sid (set_where sid (n, d) (Song (store_db w))) = (sid, n, d) # m"
    using returning_set_where[OF assms] by blast
  show ?thesis
    by (simp add: update_song_def sql_update_song_def pg_mutation_defs m)
qed

lemma update_artist_pg:
  assumes "aid \<in> fst ` set (Artist (store_db w))"
  shows "fst (update_artist (pg fk other) c aid n l w) =
           Inr (Some [(''artistid'', VInt aid), (''artist_name'', VStr n),
                      (''artist_location'', opt_str l)])
       \<and> store_db (snd (update_artist (pg fk other) c aid n l w)) =
           (store_db w)\<lparr>Artist := set_where aid (n, l) (Artist (store_db w))\<rparr>"
proof -
  obtain m where m: "returning_where aid (set_where aid (n, l) (Artist (store_db w))) = (aid, n, l) # m"
    using returning_set_where[OF assms] by blast
  show ?thesis
    using m by (cases l) (simp_all add: update_artist_def sql_update_artist_def pg_mutation_defs)
qed

lemma update_user_pg:
  assumes "uid \<in> fst ` set (User_table (store_db w))"
  shows "fst (update_user (pg fk other) c uid n w) =
           Inr (Some [(''userid'', VInt uid), (''username'', VStr n)])
       \<and> store_db (snd (update_user (pg fk other) c uid n w)) =
           (store_db w)\<lparr>User_table := set_where uid n (User_table (store_db w))\<rparr>"
proof -
  obtain m where m: "returning_where uid (set_where uid n (User_table (store_db w))) = (uid, n) # m"
    using returning_set_where[OF assms] by blast
  show ?thesis
    by (simp add: update_user_def sql_update_user_def pg_mutation_defs m)
qed

lemma update_playlist_pg:
  assumes "pid \<in> fst ` set (Playlist (store_db w))"
  shows "fst (update_playlist (pg fk other) c pid n k w) =
           Inr (Some [(''playlistid'', VInt pid), (''playlist_name'', VStr n),
                      (''num_songs'', VInt k)])
       \<and> store_db (snd (update_playlist (pg fk other) c pid n k w)) =
           (store_db w)\<lparr>Playlist := set_where pid (n, k) (Playlist (store_db w))\<rparr>"
proof -
  obtain m where m: "returning_where pid (set_where pid (n, k) (Playlist (store_db w))) = (pid, n, k) # m"
    using returning_set_where[OF assms] by blast
  show ?thesis
    by (simp add: update_playlist_def sql_update_playlist_def pg_mutation_defs m)
qed


subsection \<open>Updates\<close>

text \<open>
  C4. For each of the four entities, on its own, and an identifier that is in the table
  of that entity, \<^verbatim>\<open>update\<close> returns the projection of the updated row (the identifier
  and the new fields, under the lower-case column names), and the database after it is
  the one before with only the entity table changed: the row with that identifier carries
  the new fields, every other row of that table is as it was and where it was, every
  other table is untouched, and the table has as many rows as before.
\<close>

theorem C4_update_only_target_row:
  "(uid \<in> fst ` set (User_table (store_db w)) \<longrightarrow>
      fst (update_user (pg fk other) c uid un w) =
        Inr (Some [(''userid'', VInt uid), (''username'', VStr un)])
    \<and> store_db (snd (update_user (pg fk other) c uid un w)) =
        (store_db w)\<lparr>User_table :=
           map (\<lambda>r. if fst r = uid then (uid, un) else r) (User_table (store_db w))\<rparr>
    \<and> length (User_table (store_db (snd (update_user (pg fk other) c uid un w)))) =
        length (User_table (store_db w)))
 \<and> (aid \<in> fst ` set (Artist (store_db w)) \<longrightarrow>
      fst (update_artist (pg fk other) c aid an al w) =
        Inr (Some [(''artistid'', VInt aid), (''artist_name'', VStr an),
                   (''artist_location'', opt_str al)])
    \<and> store_db (snd (update_artist (pg fk other) c aid an al w)) =
        (store_db w)\<lparr>Artist :=
           map (\<lambda>r. if fst r = aid then (aid, an, al) else r) (Artist (store_db w))\<rparr>
    \<and> length (Artist (store_db (snd (update_artist (pg fk other) c aid an al w)))) =
        length (Artist (store_db w)))
 \<and> (sid \<in> fst ` set (Song (store_db w)) \<longrightarrow>
      fst (update_song (pg fk other) c sid sn sd w) =
        Inr (Some [(''song_id'', VInt sid), (''songname'', VStr sn), (''dayreleased'', VDate sd)])
    \<and> store_db (snd (update_song (pg fk other) c sid sn sd w)) =
        (store_db w)\<lparr>Song :=
           map (\<lambda>r. if fst r = sid then (sid, sn, sd) else r) (Song (store_db w))\<rparr>
    \<and> length (Song (store_db (snd (update_song (pg fk other) c sid sn sd w)))) =
        length (Song (store_db w)))
 \<and> (pid \<in> fst ` set (Playlist (store_db w)) \<longrightarrow>
      fst (update_playlist (pg fk other) c pid pn pk w) =
        Inr (Some [(''playlistid'', VInt pid), (''playlist_name'', VStr pn),
                   (''num_songs'', VInt pk)])
    \<and> store_db (snd (update_playlist (pg fk other) c pid pn pk w)) =
        (store_db w)\<lparr>Playlist :=
           map (\<lambda>r. if fst r = pid then (pid, pn, pk) else r) (Playlist (store_db w))\<rparr>
    \<and> length (Playlist (store_db (snd (update_playlist (pg fk other) c pid pn pk w)))) =
        length (Playlist (store_db w)))"
proof (intro conjI impI)
  assume m: "uid \<in> fst ` set (User_table (store_db w))"
  show "fst (update_user (pg fk other) c uid un w) =
        Inr (Some [(''userid'', VInt uid), (''username'', VStr un)])"
    using update_user_pg[OF m, of fk other c un] by simp
  show "store_db (snd (update_user (pg fk other) c uid un w)) =
        (store_db w)\<lparr>User_table :=
           map (\<lambda>r. if fst r = uid then (uid, un) else r) (User_table (store_db w))\<rparr>"
    using update_user_pg[OF m, of fk other c un] by (simp add: set_where_def)
  show "length (User_table (store_db (snd (update_user (pg fk other) c uid un w)))) =
        length (User_table (store_db w))"
    using update_user_pg[OF m, of fk other c un] by simp
next
  assume m: "aid \<in> fst ` set (Artist (store_db w))"
  show "fst (update_artist (pg fk other) c aid an al w) =
        Inr (Some [(''artistid'', VInt aid), (''artist_name'', VStr an),
                   (''artist_location'', opt_str al)])"
    using update_artist_pg[OF m, of fk other c an al] by simp
  show "store_db (snd (update_artist (pg fk other) c aid an al w)) =
        (store_db w)\<lparr>Artist :=
           map (\<lambda>r. if fst r = aid then (aid, an, al) else r) (Artist (store_db w))\<rparr>"
    using update_artist_pg[OF m, of fk other c an al] by (simp add: set_where_def)
  show "length (Artist (store_db (snd (update_artist (pg fk other) c aid an al w)))) =
        length (Artist (store_db w))"
    using update_artist_pg[OF m, of fk other c an al] by simp
next
  assume m: "sid \<in> fst ` set (Song (store_db w))"
  show "fst (update_song (pg fk other) c sid sn sd w) =
        Inr (Some [(''song_id'', VInt sid), (''songname'', VStr sn), (''dayreleased'', VDate sd)])"
    using update_song_pg[OF m, of fk other c sn sd] by simp
  show "store_db (snd (update_song (pg fk other) c sid sn sd w)) =
        (store_db w)\<lparr>Song :=
           map (\<lambda>r. if fst r = sid then (sid, sn, sd) else r) (Song (store_db w))\<rparr>"
    using update_song_pg[OF m, of fk other c sn sd] by (simp add: set_where_def)
  show "length (Song (store_db (snd (update_song (pg fk other) c sid sn sd w)))) =
        length (Song (store_db w))"
    using update_song_pg[OF m, of fk other c sn sd] by simp
next
  assume m: "pid \<in> fst ` set (Playlist (store_db w))"
  show "fst (update_playlist (pg fk other) c pid pn pk w) =
        Inr (Some [(''playlistid'', VInt pid), (''playlist_name'', VStr pn),
                   (''num_songs'', VInt pk)])"
    using update_playlist_pg[OF m, of fk other c pn pk] by simp
  show "store_db (snd (update_playlist (pg fk other) c pid pn pk w)) =
        (store_db w)\<lparr>Playlist :=
           map (\<lambda>r. if fst r = pid then (pid, pn, pk) else r) (Playlist (store_db w))\<rparr>"
    using update_playlist_pg[OF m, of fk other c pn pk] by (simp add: set_where_def)
  show "length (Playlist (store_db (snd (update_playlist (pg fk other) c pid pn pk w)))) =
        length (Playlist (store_db w))"
    using update_playlist_pg[OF m, of fk other c pn pk] by simp
qed

text \<open>
  An update of the only user of a database that has no artist, song or playlist, and the
  four updates on the small database.
\<close>

theorem C4_update_only_target_row_witness:
  "fst (update_user (pg Restrict not_modelled) example_config 1 ''eve''
          (example_world\<lparr>store_db := users_only_db\<rparr>)) =
     Inr (Some [(''userid'', VInt 1), (''username'', VStr ''eve'')])
   \<and> store_db (snd (update_user (pg Restrict not_modelled) example_config 1 ''eve''
                       (example_world\<lparr>store_db := users_only_db\<rparr>))) =
       users_only_db\<lparr>User_table := [(1, ''eve'')]\<rparr>
   \<and> User_table (store_db (snd (update_user (pg Restrict not_modelled) example_config 2 ''rob''
                              example_world))) =
       [(1, ''ann''), (2, ''rob'')]
   \<and> Artist (store_db (snd (update_artist (pg Restrict not_modelled) example_config 2 ''Duo''
                              (Some ''Paris'') example_world))) =
       [(1, ''Taylor Swift'', Some ''Nashville, TN''), (2, ''Duo'', Some ''Paris'')]
   \<and> fst (update_song (pg Restrict not_modelled) example_config 1 ''Karma'' 19287 example_world) =
       Inr (Some [(''song_id'', VInt 1), (''songname'', VStr ''Karma''), (''dayreleased'', VDate 19287)])
   \<and> Song (store_db (snd (update_song (pg Restrict not_modelled) example_config 1 ''Karma'' 19287
                              example_world))) =
       [(1, ''Karma'', 19287), (2, ''Orphan'', 19000)]
   \<and> Playlist (store_db (snd (update_playlist (pg Restrict not_modelled) example_config 1 ''Best'' 4
                              example_world))) =
       [(1, ''Best'', 4)]"
  using C4_update_only_target_row
          [where w = "example_world\<lparr>store_db := users_only_db\<rparr>" and fk = Restrict
             and other = not_modelled and c = example_config and uid = 1 and un = "''eve''"
             and aid = 1 and an = "''Duo''" and al = "Some ''Paris''"
             and sid = 1 and sn = "''Karma''" and sd = 19287
             and pid = 1 and pn = "''Best''" and pk = 4]
        C4_update_only_target_row
          [where w = example_world and fk = Restrict and other = not_modelled
             and c = example_config and uid = 2 and un = "''rob''"
             and aid = 2 and an = "''Duo''" and al = "Some ''Paris''"
             and sid = 1 and sn = "''Karma''" and sd = 19287
             and pid = 1 and pn = "''Best''" and pk = 4]
  by (simp add: example_world_def example_db_def users_only_db_def)


subsection \<open>The text of the statements\<close>

lemma rc_song: "returning_columns (sql_text InsertSong) = song_cols"
  "returning_columns (sql_text UpdateSong) = song_cols"
  "returning_columns (sql_text DeleteSong) = song_cols"
  by (simp_all add: returning_columns_def starts_with_def lower_def lower_char_def strip_def isspace_def song_cols_def)

lemma rc_artist: "returning_columns (sql_text InsertArtist) = artist_cols"
  "returning_columns (sql_text UpdateArtist) = artist_cols"
  "returning_columns (sql_text DeleteArtist) = artist_cols"
  by (simp_all add: returning_columns_def starts_with_def lower_def lower_char_def strip_def isspace_def artist_cols_def)

lemma rc_user: "returning_columns (sql_text InsertUser) = user_cols"
  "returning_columns (sql_text UpdateUser) = user_cols"
  "returning_columns (sql_text DeleteUser) = user_cols"
  by (simp_all add: returning_columns_def starts_with_def lower_def lower_char_def strip_def isspace_def user_cols_def)

lemma rc_playlist: "returning_columns (sql_text InsertPlaylist) = playlist_cols"
  "returning_columns (sql_text UpdatePlaylist) = playlist_cols"
  "returning_columns (sql_text DeletePlaylist) = playlist_cols"
  by (simp_all add: returning_columns_def starts_with_def lower_def lower_char_def strip_def isspace_def playlist_cols_def)




subsection \<open>Transactions and deletions\<close>

lemma store_db_checkout: "store_db (snd (checkout store c w)) = store_db w"
  by (auto simp: checkout_def set_search_path_def send_def Let_def split: sum.splits)


lemma mutate_commit:
  "fst (mutate store c q ps w) = Inr r \<Longrightarrow>
   \<exists>df. store q ps (store_db w) = Inr (df, store_db (snd (mutate store c q ps w)))
        \<and> r = iloc0_to_dict df"
  using store_db_checkout[of store c w]
  by (auto simp: mutate_def read_sql_def send_def Let_def split: sum.splits prod.splits)


lemma returning_delete_where [simp]: "returning_where k (delete_where k rs) = []"
  by (induction rs) (auto simp: returning_where_def delete_where_def)














subsection \<open>Insertions and listings\<close>

lemma mutate_pg:
  "fst (mutate (pg fk other) c q ps w) =
     (case pg fk other q ps (store_db w) of Inl e \<Rightarrow> Inl e | Inr (df, db') \<Rightarrow> Inr (iloc0_to_dict df))"
  "store_db (snd (mutate (pg fk other) c q ps w)) =
     (case pg fk other q ps (store_db w) of Inl e \<Rightarrow> store_db w | Inr (df, db') \<Rightarrow> db')"
  by (simp_all add: mutate_def pg_read_sql send_def split: sum.splits prod.splits)

lemma fetch_crud_pg:
  "fst (fetch_df_crud (pg fk other) c q ps w) =
     (case pg fk other q (case ps of None \<Rightarrow> [] | Some p \<Rightarrow> p) (store_db w) of
        Inl e \<Rightarrow> DataFrame_new | Inr (df, db') \<Rightarrow> df)"
  by (simp add: fetch_df_crud_def fetch_df_with_def pg_read_sql split: sum.splits prod.splits)

lemma set_order_by [simp]: "set (order_by key rs) = set rs"
  by (simp add: order_by_def)

lemma length_order_by [simp]: "length (order_by key rs) = length rs"
  by (simp add: order_by_def)





lemma fetch_users_pg:
  "fst (fetch_users (pg fk other) c w) =
     frame user_cols (map user_cells (order_by fst (User_table (store_db w))))"
  by (simp add: fetch_users_def fetch_crud_pg pg_def select_users_def)

lemma fetch_artists_pg:
  "fst (fetch_artists (pg fk other) c w) =
     frame artist_cols (map artist_cells (order_by fst (Artist (store_db w))))"
  by (simp add: fetch_artists_def fetch_crud_pg pg_def select_artists_def)

lemma fetch_albums_pg:
  "fst (fetch_albums (pg fk other) c w) =
     frame album_cols (map album_cells (order_by fst (Album (store_db w))))"
  by (simp add: fetch_albums_def fetch_crud_pg pg_def select_albums_def)

lemma fetch_playlists_pg:
  "fst (fetch_playlists (pg fk other) c w) =
     frame playlist_cols (map playlist_cells (order_by fst (Playlist (store_db w))))"
  by (simp add: fetch_playlists_def fetch_crud_pg pg_def select_playlists_def)

lemma fetch_songs_pg:
  "0 \<le> lim \<Longrightarrow>
   fst (fetch_songs (pg fk other) c lim w) =
     frame song_cols (map song_cells (take (nat lim) (order_by fst (Song (store_db w)))))"
  by (simp add: fetch_songs_def fetch_crud_pg pg_def select_songs_def get_int_def
                limit_rows_def reads_def)

lemma rows_frame [simp]: "rows (frame cs rs) = rs" "columns (frame cs rs) = cs"
  by (simp_all add: frame_def)














subsection \<open>What is sent to the store\<close>

lemma read_sql_texts:
  "map fst (sent (snd (read_sql store c q ps w))) = map fst (sent (snd (read_sql store c q ps' w)))"
  by (auto simp: read_sql_def send_def Let_def split: sum.splits prod.splits)

lemma read_sql_texts_subset:
  "set (map fst (sent (snd (read_sql store c q ps w))))
     \<subseteq> set (map fst (sent w))
       \<union> {sql_text SetStatementTimeout, sql_text (SetSearchPath (fmt_opt (PGUSER c))), sql_text q}"
  by (auto simp: read_sql_def checkout_def set_search_path_def send_def Let_def
           split: sum.splits prod.splits if_splits)

lemma read_sql_texts_connected:
  "map fst (sent (snd (read_sql store c q ps (w\<lparr>connected := True\<rparr>)))) =
     map fst (sent w) @ [sql_text q]"
  by (auto simp: read_sql_def checkout_def send_def Let_def split: sum.splits prod.splits)

lemma sent_fetch_df_with:
  "sent (snd (fetch_df_with pre store c q ps w)) =
     sent (snd (read_sql store c q (case ps of None \<Rightarrow> [] | Some p \<Rightarrow> p) w))"
  by (auto simp: fetch_df_with_def split: sum.splits prod.splits)

lemma sent_mutate: "sent (snd (mutate store c q ps w)) = sent (snd (read_sql store c q ps w))"
  by (auto simp: mutate_def split: sum.splits prod.splits)

lemma mutate_texts:
  "map fst (sent (snd (mutate store c q ps w))) = map fst (sent (snd (mutate store c q ps' w)))"
  unfolding sent_mutate by (rule read_sql_texts)

lemma fetch_texts:
  "map fst (sent (snd (fetch_df_with pre store c q ps w))) =
     map fst (sent (snd (fetch_df_with pre store c q ps' w)))"
  unfolding sent_fetch_df_with by (rule read_sql_texts)


text \<open>
  C7. The text that an operation of the data access layer sends to the store does not
  depend on what the caller passes: \<^verbatim>\<open>fetch_df\<close> of either program and \<open>mutate\<close> send
  the same texts for any two parameter dictionaries, and so does each of the five
  listings and twelve mutation helpers for any two argument tuples (the arguments travel
  as bound parameters). On an open connection the one text sent is the literal of the
  statement. The only other texts an operation can send are the two session directives of
  a new connection, and the only text built from a value is the search path directive,
  built from the configured user name.
\<close>

theorem C7_sql_text_fixed:
  "map fst (sent (snd (fetch_df store c q ps w))) = map fst (sent (snd (fetch_df store c q ps' w)))
   \<and> map fst (sent (snd (fetch_df_crud store c q ps w))) =
       map fst (sent (snd (fetch_df_crud store c q ps' w)))
   \<and> map fst (sent (snd (mutate store c q qs w))) = map fst (sent (snd (mutate store c q qs' w)))
   \<and> map fst (sent (snd (fetch_songs store c lim w))) =
       map fst (sent (snd (fetch_songs store c lim' w)))
   \<and> map fst (sent (snd (insert_song store c n d w))) = map fst (sent (snd (insert_song store c n' d' w)))
   \<and> map fst (sent (snd (update_song store c i n d w))) = map fst (sent (snd (update_song store c i' n' d' w)))
   \<and> map fst (sent (snd (delete_song store c i w))) = map fst (sent (snd (delete_song store c i' w)))
   \<and> map fst (sent (snd (insert_artist store c n l w))) = map fst (sent (snd (insert_artist store c n' l' w)))
   \<and> map fst (sent (snd (update_artist store c i n l w))) = map fst (sent (snd (update_artist store c i' n' l' w)))
   \<and> map fst (sent (snd (delete_artist store c i w))) = map fst (sent (snd (delete_artist store c i' w)))
   \<and> map fst (sent (snd (insert_user store c n w))) = map fst (sent (snd (insert_user store c n' w)))
   \<and> map fst (sent (snd (update_user store c i n w))) = map fst (sent (snd (update_user store c i' n' w)))
   \<and> map fst (sent (snd (delete_user store c i w))) = map fst (sent (snd (delete_user store c i' w)))
   \<and> map fst (sent (snd (insert_playlist store c n k w))) = map fst (sent (snd (insert_playlist store c n' k' w)))
   \<and> map fst (sent (snd (update_playlist store c i n k w))) = map fst (sent (snd (update_playlist store c i' n' k' w)))
   \<and> map fst (sent (snd (delete_playlist store c i w))) = map fst (sent (snd (delete_playlist store c i' w)))
   \<and> map fst (sent (snd (fetch_df store c q ps (w\<lparr>connected := True\<rparr>)))) =
       map fst (sent w) @ [sql_text q]
   \<and> map fst (sent (snd (mutate store c q qs (w\<lparr>connected := True\<rparr>)))) =
       map fst (sent w) @ [sql_text q]
   \<and> set (map fst (sent (snd (fetch_df store c q ps w))))
       \<subseteq> set (map fst (sent w))
         \<union> {''SET statement_timeout TO 8000'',
             ''SET search_path TO '' @ fmt_opt (PGUSER c) @ '', public'', sql_text q}
   \<and> set (map fst (sent (snd (mutate store c q qs w))))
       \<subseteq> set (map fst (sent w))
         \<union> {''SET statement_timeout TO 8000'',
             ''SET search_path TO '' @ fmt_opt (PGUSER c) @ '', public'', sql_text q}"
proof -
  have sub: "set (map fst (sent (snd (read_sql store c q xs w))))
       \<subseteq> set (map fst (sent w))
         \<union> {''SET statement_timeout TO 8000'',
             ''SET search_path TO '' @ fmt_opt (PGUSER c) @ '', public'', sql_text q}" for xs
    using read_sql_texts_subset[of store c q xs w] by simp
  show ?thesis
    unfolding fetch_df_def fetch_df_crud_def fetch_songs_def insert_song_def update_song_def
      delete_song_def insert_artist_def update_artist_def delete_artist_def insert_user_def
      update_user_def delete_user_def insert_playlist_def update_playlist_def delete_playlist_def
    by (intro conjI mutate_texts fetch_texts)
       (simp_all only: sent_fetch_df_with sent_mutate read_sql_texts_connected sub)
qed



subsection \<open>What a mutation helper returns\<close>

lemma dict_keys:
  "iloc0_to_dict (frame cs (map f rs)) = Some d \<Longrightarrow> (\<And>r. length (f r) = length cs) \<Longrightarrow>
   map fst d = cs"
  by (cases rs) (auto simp: iloc0_to_dict_def frame_def df_empty_def split: if_splits)

lemma dict_none:
  "iloc0_to_dict (frame cs (map f rs)) = None \<Longrightarrow> cs \<noteq> [] \<Longrightarrow> rs = []"
  by (cases rs) (auto simp: iloc0_to_dict_def frame_def df_empty_def split: if_splits)

lemma cells_length:
  "length (user_cells u) = length user_cols" "length (artist_cells a) = length artist_cols"
  "length (song_cells s) = length song_cols" "length (playlist_cells p) = length playlist_cols"
  by (simp_all add: user_cells_def user_cols_def artist_cells_def artist_cols_def
        song_cells_def song_cols_def playlist_cells_def playlist_cols_def split: prod.splits)

lemma cols_nonempty:
  "user_cols \<noteq> []" "artist_cols \<noteq> []" "song_cols \<noteq> []" "playlist_cols \<noteq> []"
  by (simp_all add: user_cols_def artist_cols_def song_cols_def playlist_cols_def)

lemma returning_where_nil: "returning_where k rs = [] \<Longrightarrow> k \<notin> fst ` set rs"
  by (induction rs) (auto simp: returning_where_def split: if_splits)

lemma returning_set_where_nil:
  "returning_where k (set_where k f rs) = [] \<Longrightarrow> k \<notin> fst ` set rs"
  using returning_set_where[of k rs f] by auto

lemma get_opt_str_l:
  "get_opt_str [(''n'', x), (''l'', opt_str l)] ''l'' = Some l"
  "get_opt_str [(''aid'', y), (''n'', x), (''l'', opt_str l)] ''l'' = Some l"
  by (cases l; simp add: get_opt_str_def opt_str_def)+

lemma user_fst:
  "fst (insert_user (pg fk other) c n w) =
     (if userID_seq (store_db w) \<in> fst ` set (User_table (store_db w)) then Inl duplicate_key
      else Inr (Some (zip user_cols (user_cells (userID_seq (store_db w), n)))))"
  "fst (update_user (pg fk other) c k n w) =
     Inr (iloc0_to_dict (frame user_cols
            (map user_cells (returning_where k (set_where k n (User_table (store_db w)))))))"
  "fst (delete_user (pg fk other) c k w) =
     (if returning_where k (User_table (store_db w)) = [] then Inr None
      else if fk = Restrict \<and> user_referenced (store_db w) k then Inl foreign_key
      else Inr (iloc0_to_dict (frame user_cols
                  (map user_cells (returning_where k (User_table (store_db w)))))))"
  by (simp_all add: insert_user_def update_user_def delete_user_def sql_insert_user_def
        sql_update_user_def sql_delete_user_def mutate_pg pg_def get_int_def get_str_def
        Let_def iloc0_frame_Nil iloc0_frame_Cons cols_nonempty)


lemma artist_fst:
  "fst (insert_artist (pg fk other) c n l w) =
     (if artistID_seq (store_db w) \<in> fst ` set (Artist (store_db w)) then Inl duplicate_key
      else Inr (Some (zip artist_cols (artist_cells (artistID_seq (store_db w), n, l)))))"
  "fst (update_artist (pg fk other) c k n l w) =
     Inr (iloc0_to_dict (frame artist_cols
            (map artist_cells (returning_where k (set_where k (n, l) (Artist (store_db w)))))))"
  "fst (delete_artist (pg fk other) c k w) =
     (if returning_where k (Artist (store_db w)) = [] then Inr None
      else if fk = Restrict \<and> artist_referenced (store_db w) k then Inl foreign_key
      else Inr (iloc0_to_dict (frame artist_cols
                  (map artist_cells (returning_where k (Artist (store_db w)))))))"
  by (simp_all add: insert_artist_def update_artist_def delete_artist_def sql_insert_artist_def
        sql_update_artist_def sql_delete_artist_def mutate_pg pg_def get_int_def get_str_def
        get_opt_str_l Let_def iloc0_frame_Nil iloc0_frame_Cons cols_nonempty)

lemma song_fst:
  "fst (insert_song (pg fk other) c n d w) =
     (if song_id_seq (store_db w) \<in> fst ` set (Song (store_db w)) then Inl duplicate_key
      else Inr (Some (zip song_cols (song_cells (song_id_seq (store_db w), n, d)))))"
  "fst (update_song (pg fk other) c k n d w) =
     Inr (iloc0_to_dict (frame song_cols
            (map song_cells (returning_where k (set_where k (n, d) (Song (store_db w)))))))"
  "fst (delete_song (pg fk other) c k w) =
     (if returning_where k (Song (store_db w)) = [] then Inr None
      else if fk = Restrict \<and> song_referenced (store_db w) k then Inl foreign_key
      else Inr (iloc0_to_dict (frame song_cols
                  (map song_cells (returning_where k (Song (store_db w)))))))"
  by (simp_all add: insert_song_def update_song_def delete_song_def sql_insert_song_def
        sql_update_song_def sql_delete_song_def mutate_pg pg_def get_int_def get_str_def
        get_date_def Let_def iloc0_frame_Nil iloc0_frame_Cons cols_nonempty)

lemma playlist_fst:
  "fst (insert_playlist (pg fk other) c n j w) =
     (if playlistID_seq (store_db w) \<in> fst ` set (Playlist (store_db w)) then Inl duplicate_key
      else Inr (Some (zip playlist_cols (playlist_cells (playlistID_seq (store_db w), n, j)))))"
  "fst (update_playlist (pg fk other) c k n j w) =
     Inr (iloc0_to_dict (frame playlist_cols
            (map playlist_cells (returning_where k (set_where k (n, j) (Playlist (store_db w)))))))"
  "fst (delete_playlist (pg fk other) c k w) =
     (if returning_where k (Playlist (store_db w)) = [] then Inr None
      else if fk = Restrict \<and> playlist_referenced (store_db w) k then Inl foreign_key
      else Inr (iloc0_to_dict (frame playlist_cols
                  (map playlist_cells (returning_where k (Playlist (store_db w)))))))"
  by (simp_all add: insert_playlist_def update_playlist_def delete_playlist_def
        sql_insert_playlist_def sql_update_playlist_def sql_delete_playlist_def mutate_pg pg_def
        get_int_def get_str_def Let_def iloc0_frame_Nil iloc0_frame_Cons cols_nonempty)

lemma upd_none:
  assumes "Inr (iloc0_to_dict (frame cs (map f (returning_where k (set_where k x rs))))) =
             (Inr None :: string + (string \<times> val) list option)"
      and "cs \<noteq> []"
  shows "k \<notin> fst ` set rs"
proof -
  have "iloc0_to_dict (frame cs (map f (returning_where k (set_where k x rs)))) = None"
    using assms(1) by simp
  then have "returning_where k (set_where k x rs) = []"
    by (rule dict_none[OF _ assms(2)])
  then show ?thesis by (rule returning_set_where_nil)
qed

lemma del_none:
  assumes "(if returning_where k rs = [] then Inr None
            else if B then Inl e
            else Inr (iloc0_to_dict (frame cs (map f (returning_where k rs))))) =
             (Inr None :: string + (string \<times> val) list option)"
      and "cs \<noteq> []"
  shows "k \<notin> fst ` set rs"
proof (cases "returning_where k rs = []")
  case True
  then show ?thesis by (rule returning_where_nil)
next
  case False
  then have "iloc0_to_dict (frame cs (map f (returning_where k rs))) = None"
    using assms(1) by (simp split: if_splits)
  then have "returning_where k rs = []" by (rule dict_none[OF _ assms(2)])
  with False show ?thesis by simp
qed

lemma upd_some:
  assumes "Inr (iloc0_to_dict (frame cs (map f rs))) =
             (Inr (Some d) :: string + (string \<times> val) list option)"
      and "\<And>r. length (f r) = length cs"
  shows "map fst d = cs"
proof -
  have "iloc0_to_dict (frame cs (map f rs)) = Some d" using assms(1) by simp
  then show ?thesis by (rule dict_keys) (rule assms(2))
qed

lemma del_some:
  assumes "(if A then Inr None else if B then Inl e
            else Inr (iloc0_to_dict (frame cs (map f rs)))) =
             (Inr (Some d) :: string + (string \<times> val) list option)"
      and "\<And>r. length (f r) = length cs"
  shows "map fst d = cs"
proof -
  have "iloc0_to_dict (frame cs (map f rs)) = Some d"
    using assms(1) by (simp split: if_splits)
  then show ?thesis by (rule dict_keys) (rule assms(2))
qed

lemma ins_some:
  assumes "(if A then Inl e else Inr (Some (zip cs r))) =
             (Inr (Some d) :: string + (string \<times> val) list option)"
      and "length r = length cs"
  shows "map fst d = cs"
  using assms by (auto split: if_splits)

lemma ins_not_none:
  "(if A then Inl e else Inr (Some x)) \<noteq> (Inr None :: string + (string \<times> val) list option)"
  by simp

lemma user_results:
  "(\<forall>d. fst (insert_user (pg fk other) c n w) = Inr (Some d) \<longrightarrow>
          map fst d = returning_columns (sql_text InsertUser))
   \<and> (\<forall>d. fst (update_user (pg fk other) c k n w) = Inr (Some d) \<longrightarrow>
          map fst d = returning_columns (sql_text UpdateUser))
   \<and> (\<forall>d. fst (delete_user (pg fk other) c k w) = Inr (Some d) \<longrightarrow>
          map fst d = returning_columns (sql_text DeleteUser))
   \<and> fst (insert_user (pg fk other) c n w) \<noteq> Inr None
   \<and> (fst (update_user (pg fk other) c k n w) = Inr None \<longrightarrow>
          k \<notin> fst ` set (User_table (store_db w)))
   \<and> (fst (delete_user (pg fk other) c k w) = Inr None \<longrightarrow>
          k \<notin> fst ` set (User_table (store_db w)))"
  unfolding rc_user user_fst
  by (intro conjI allI impI ins_not_none)
     (erule ins_some upd_some del_some upd_none del_none, rule cells_length cols_nonempty)+

lemma artist_results:
  "(\<forall>d. fst (insert_artist (pg fk other) c n l w) = Inr (Some d) \<longrightarrow>
          map fst d = returning_columns (sql_text InsertArtist))
   \<and> (\<forall>d. fst (update_artist (pg fk other) c k n l w) = Inr (Some d) \<longrightarrow>
          map fst d = returning_columns (sql_text UpdateArtist))
   \<and> (\<forall>d. fst (delete_artist (pg fk other) c k w) = Inr (Some d) \<longrightarrow>
          map fst d = returning_columns (sql_text DeleteArtist))
   \<and> fst (insert_artist (pg fk other) c n l w) \<noteq> Inr None
   \<and> (fst (update_artist (pg fk other) c k n l w) = Inr None \<longrightarrow>
          k \<notin> fst ` set (Artist (store_db w)))
   \<and> (fst (delete_artist (pg fk other) c k w) = Inr None \<longrightarrow>
          k \<notin> fst ` set (Artist (store_db w)))"
  unfolding rc_artist artist_fst
  by (intro conjI allI impI ins_not_none)
     (erule ins_some upd_some del_some upd_none del_none, rule cells_length cols_nonempty)+

lemma song_results:
  "(\<forall>d. fst (insert_song (pg fk other) c n t w) = Inr (Some d) \<longrightarrow>
          map fst d = returning_columns (sql_text InsertSong))
   \<and> (\<forall>d. fst (update_song (pg fk other) c k n t w) = Inr (Some d) \<longrightarrow>
          map fst d = returning_columns (sql_text UpdateSong))
   \<and> (\<forall>d. fst (delete_song (pg fk other) c k w) = Inr (Some d) \<longrightarrow>
          map fst d = returning_columns (sql_text DeleteSong))
   \<and> fst (insert_song (pg fk other) c n t w) \<noteq> Inr None
   \<and> (fst (update_song (pg fk other) c k n t w) = Inr None \<longrightarrow>
          k \<notin> fst ` set (Song (store_db w)))
   \<and> (fst (delete_song (pg fk other) c k w) = Inr None \<longrightarrow>
          k \<notin> fst ` set (Song (store_db w)))"
  unfolding rc_song song_fst
  by (intro conjI allI impI ins_not_none)
     (erule ins_some upd_some del_some upd_none del_none, rule cells_length cols_nonempty)+

lemma playlist_results:
  "(\<forall>d. fst (insert_playlist (pg fk other) c n j w) = Inr (Some d) \<longrightarrow>
          map fst d = returning_columns (sql_text InsertPlaylist))
   \<and> (\<forall>d. fst (update_playlist (pg fk other) c k n j w) = Inr (Some d) \<longrightarrow>
          map fst d = returning_columns (sql_text UpdatePlaylist))
   \<and> (\<forall>d. fst (delete_playlist (pg fk other) c k w) = Inr (Some d) \<longrightarrow>
          map fst d = returning_columns (sql_text DeletePlaylist))
   \<and> fst (insert_playlist (pg fk other) c n j w) \<noteq> Inr None
   \<and> (fst (update_playlist (pg fk other) c k n j w) = Inr None \<longrightarrow>
          k \<notin> fst ` set (Playlist (store_db w)))
   \<and> (fst (delete_playlist (pg fk other) c k w) = Inr None \<longrightarrow>
          k \<notin> fst ` set (Playlist (store_db w)))"
  unfolding rc_playlist playlist_fst
  by (intro conjI allI impI ins_not_none)
     (erule ins_some upd_some del_some upd_none del_none, rule cells_length cols_nonempty)+

lemma mutate_first_row:
  "\<forall>r. fst (mutate store c q ps v) = Inr r \<longrightarrow>
     (\<exists>df db'. store q ps (store_db v) = Inr (df, db')
        \<and> r = (case rows df of [] \<Rightarrow> None
                | x # xs \<Rightarrow> if columns df = [] then None else Some (zip (columns df) x)))"
proof (intro allI impI)
  fix r assume "fst (mutate store c q ps v) = Inr r"
  then obtain df where df: "store q ps (store_db v) = Inr (df, store_db (snd (mutate store c q ps v)))"
    and r: "r = iloc0_to_dict df"
    using mutate_commit by blast
  have "iloc0_to_dict df = (case rows df of [] \<Rightarrow> None
                | x # xs \<Rightarrow> if columns df = [] then None else Some (zip (columns df) x))"
    by (simp add: iloc0_to_dict_def df_empty_def split: list.splits)
  with df r show "\<exists>df db'. store q ps (store_db v) = Inr (df, db')
        \<and> r = (case rows df of [] \<Rightarrow> None
                | x # xs \<Rightarrow> if columns df = [] then None else Some (zip (columns df) x))"
    by blast
qed



text \<open>
  C10. A mutation helper that returns, returns \<^verbatim>\<open>None\<close> when the result of the store
  has no row (or no column), and otherwise the first row only, as a dictionary over the
  columns of the result. On the relational store the keys of that dictionary are the
  columns named in the \<^verbatim>\<open>RETURNING\<close> clause of the statement's text (as PostgreSQL labels
  them, in lower case); an insertion never returns \<^verbatim>\<open>None\<close>, and an update or a
  deletion returns \<^verbatim>\<open>None\<close> only when no row has the identifier.
\<close>

theorem C10_mutation_returns_first_row:
  "(\<forall>r. fst (mutate store c q ps v) = Inr r \<longrightarrow>
     (\<exists>df db'. store q ps (store_db v) = Inr (df, db')
        \<and> r = (case rows df of [] \<Rightarrow> None
                | x # xs \<Rightarrow> if columns df = [] then None else Some (zip (columns df) x))))
   \<and> ((\<forall>d. fst (insert_user (pg fk other) c un w) = Inr (Some d) \<longrightarrow>
          map fst d = returning_columns (sql_text InsertUser))
   \<and> (\<forall>d. fst (update_user (pg fk other) c uid un w) = Inr (Some d) \<longrightarrow>
          map fst d = returning_columns (sql_text UpdateUser))
   \<and> (\<forall>d. fst (delete_user (pg fk other) c uid w) = Inr (Some d) \<longrightarrow>
          map fst d = returning_columns (sql_text DeleteUser))
   \<and> fst (insert_user (pg fk other) c un w) \<noteq> Inr None
   \<and> (fst (update_user (pg fk other) c uid un w) = Inr None \<longrightarrow>
          uid \<notin> fst ` set (User_table (store_db w)))
   \<and> (fst (delete_user (pg fk other) c uid w) = Inr None \<longrightarrow>
          uid \<notin> fst ` set (User_table (store_db w))))
   \<and> ((\<forall>d. fst (insert_artist (pg fk other) c an al w) = Inr (Some d) \<longrightarrow>
          map fst d = returning_columns (sql_text InsertArtist))
   \<and> (\<forall>d. fst (update_artist (pg fk other) c aid an al w) = Inr (Some d) \<longrightarrow>
          map fst d = returning_columns (sql_text UpdateArtist))
   \<and> (\<forall>d. fst (delete_artist (pg fk other) c aid w) = Inr (Some d) \<longrightarrow>
          map fst d = returning_columns (sql_text DeleteArtist))
   \<and> fst (insert_artist (pg fk other) c an al w) \<noteq> Inr None
   \<and> (fst (update_artist (pg fk other) c aid an al w) = Inr None \<longrightarrow>
          aid \<notin> fst ` set (Artist (store_db w)))
   \<and> (fst (delete_artist (pg fk other) c aid w) = Inr None \<longrightarrow>
          aid \<notin> fst ` set (Artist (store_db w))))
   \<and> ((\<forall>d. fst (insert_song (pg fk other) c sn sd w) = Inr (Some d) \<longrightarrow>
          map fst d = returning_columns (sql_text InsertSong))
   \<and> (\<forall>d. fst (update_song (pg fk other) c sid sn sd w) = Inr (Some d) \<longrightarrow>
          map fst d = returning_columns (sql_text UpdateSong))
   \<and> (\<forall>d. fst (delete_song (pg fk other) c sid w) = Inr (Some d) \<longrightarrow>
          map fst d = returning_columns (sql_text DeleteSong))
   \<and> fst (insert_song (pg fk other) c sn sd w) \<noteq> Inr None
   \<and> (fst (update_song (pg fk other) c sid sn sd w) = Inr None \<longrightarrow>
          sid \<notin> fst ` set (Song (store_db w)))
   \<and> (fst (delete_song (pg fk other) c sid w) = Inr None \<longrightarrow>
          sid \<notin> fst ` set (Song (store_db w))))
   \<and> ((\<forall>d. fst (insert_playlist (pg fk other) c pn pk w) = Inr (Some d) \<longrightarrow>
          map fst d = returning_columns (sql_text InsertPlaylist))
   \<and> (\<forall>d. fst (update_playlist (pg fk other) c pid pn pk w) = Inr (Some d) \<longrightarrow>
          map fst d = returning_columns (sql_text UpdatePlaylist))
   \<and> (\<forall>d. fst (delete_playlist (pg fk other) c pid w) = Inr (Some d) \<longrightarrow>
          map fst d = returning_columns (sql_text DeletePlaylist))
   \<and> fst (insert_playlist (pg fk other) c pn pk w) \<noteq> Inr None
   \<and> (fst (update_playlist (pg fk other) c pid pn pk w) = Inr None \<longrightarrow>
          pid \<notin> fst ` set (Playlist (store_db w)))
   \<and> (fst (delete_playlist (pg fk other) c pid w) = Inr None \<longrightarrow>
          pid \<notin> fst ` set (Playlist (store_db w))))"
  by (rule conjI[OF mutate_first_row conjI[OF user_results conjI[OF artist_results
        conjI[OF song_results playlist_results]]]])

theorem C10_mutation_returns_first_row_witness:
  "fst (mutate two_rows example_config UpdateSong [(''sid'', VInt 1)]
          \<lparr>store_db = 0, connected = True, sent = [], shown = []\<rparr>) =
     Inr (Some [(''song_id'', VInt 1), (''songname'', VStr ''first'')])
   \<and> fst (delete_song (pg Restrict not_modelled) example_config 9 example_world) = Inr None
   \<and> 9 \<notin> fst ` set (Song (store_db example_world))"
proof -
  have a: "fst (mutate two_rows example_config UpdateSong [(''sid'', VInt 1)]
          \<lparr>store_db = 0, connected = True, sent = [], shown = []\<rparr>) =
     Inr (Some [(''song_id'', VInt 1), (''songname'', VStr ''first'')])"
    by (simp add: mutate_def read_sql_def checkout_def send_def two_rows_def
                  iloc0_to_dict_def df_empty_def)
  have b: "fst (delete_song (pg Restrict not_modelled) example_config 9 example_world) = Inr None"
    by (simp add: song_fst returning_where_def example_world_def example_db_def)
  show ?thesis
    using a b
          C10_mutation_returns_first_row
            [where store = two_rows and c = example_config and q = UpdateSong
               and ps = "[(''sid'', VInt 1)]"
               and v = "\<lparr>store_db = 0, connected = True, sent = [], shown = []\<rparr>"
               and fk = Restrict and other = not_modelled and w = example_world
               and un = "''cy''" and uid = 9 and an = "''Duo''" and al = None and aid = 9
               and sn = "''Karma''" and sd = 19287 and sid = 9
               and pn = "''Mix''" and pk = 0 and pid = 9]
    by (simp add: example_world_def example_db_def)
qed


subsection \<open>Exceptions of the store\<close>

text \<open>
  C1 (the code does not do what the claim says for mutations). At concrete inputs: when
  the statement of \<^verbatim>\<open>insert_song\<close> runs into the statement timeout, the exception leaves
  the helper, after the rollback; when the schema forbids deleting a referenced row,
  \<^verbatim>\<open>delete_artist\<close> on the artist of a song raises the constraint violation, no message is
  put on the page, and the run of the page that pressed the button ends with that
  exception. The read path of the same program, \<^verbatim>\<open>fetch_songs\<close>, on the same failing store
  returns an empty table and reports the failure.
\<close>

theorem C1_mutation_exception_propagates:
  "insert_song timed_out example_config ''Test Song'' 19723 (example_world\<lparr>connected := True\<rparr>) =
     (Inl ''canceling statement due to statement timeout'',
      example_world\<lparr>connected := True,
                     sent := [(sql_text InsertSong,
                               [(''n'', VStr ''Test Song''), (''d'', VDate 19723)])]\<rparr>)
   \<and> fst (delete_artist (pg Restrict not_modelled) example_config 1 example_world) =
       Inl foreign_key
   \<and> shown (snd (delete_artist (pg Restrict not_modelled) example_config 1 example_world)) = []
   \<and> fst (crud_page (pg Restrict not_modelled) example_config
            \<lparr>crud_row_limit_entry = None, event = DeleteArtistClick True,
             upd_sel = (\<lambda>_ _. Inr 1), del_sel = (\<lambda>_ _. 1), current_num_songs = (\<lambda>_. 0)\<rparr>
            example_world) =
       Raised foreign_key
   \<and> fetch_songs timed_out example_config 200 (example_world\<lparr>connected := True\<rparr>) =
       (DataFrame_new,
        example_world\<lparr>connected := True,
                       sent := [(sql_text CrudSongs, [(''lim'', VInt 200)])],
                       shown := [''Query failed: canceling statement due to statement timeout'']\<rparr>)"
proof (intro conjI)
  show "insert_song timed_out example_config ''Test Song'' 19723 (example_world\<lparr>connected := True\<rparr>) =
     (Inl ''canceling statement due to statement timeout'',
      example_world\<lparr>connected := True,
                     sent := [(sql_text InsertSong,
                               [(''n'', VStr ''Test Song''), (''d'', VDate 19723)])]\<rparr>)"
    by (simp add: insert_song_def mutate_def read_sql_def checkout_def send_def timed_out_def
                  example_world_def)
  show "fst (delete_artist (pg Restrict not_modelled) example_config 1 example_world) =
       Inl foreign_key"
    by (simp add: artist_fst artist_referenced_def returning_where_def example_world_def
                  example_db_def)
  show "shown (snd (delete_artist (pg Restrict not_modelled) example_config 1 example_world)) = []"
    by (simp add: delete_artist_def mutate_def pg_read_sql send_def opened_def example_world_def
                  split: sum.splits prod.splits)
  show "fst (crud_page (pg Restrict not_modelled) example_config
            \<lparr>crud_row_limit_entry = None, event = DeleteArtistClick True,
             upd_sel = (\<lambda>_ _. Inr 1), del_sel = (\<lambda>_ _. 1), current_num_songs = (\<lambda>_. 0)\<rparr>
            example_world) =
       Raised foreign_key"
    by (simp add: crud_page_def tab_users_def tab_artists_def crud_tab_def
        fetch_users_def fetch_artists_def fetch_df_crud_def fetch_df_with_def
        pg_read_sql pg_def select_users_def select_artists_def frame_def df_empty_def
        on_insert_user_def on_update_user_def on_delete_user_def
        on_insert_artist_def on_update_artist_def on_delete_artist_def flash_rerun_def
        order_by_def user_cols_def artist_cols_def send_def opened_def
        delete_artist_def mutate_def sql_delete_artist_def get_int_def returning_where_def
        artist_referenced_def example_world_def example_db_def Let_def)
  show "fetch_songs timed_out example_config 200 (example_world\<lparr>connected := True\<rparr>) =
       (DataFrame_new,
        example_world\<lparr>connected := True,
                       sent := [(sql_text CrudSongs, [(''lim'', VInt 200)])],
                       shown := [''Query failed: canceling statement due to statement timeout'']\<rparr>)"
    by (simp add: fetch_songs_def fetch_df_crud_def fetch_df_with_def read_sql_def checkout_def
                  send_def timed_out_def example_world_def)
qed

subsection \<open>The aggregate views\<close>

lemma left_join_keeps: "x \<in> set xs \<Longrightarrow> \<exists>p. (x, p) \<in> set (left_join xs ys on)"
proof -
  assume x: "x \<in> set xs"
  let ?chunk = "\<lambda>x. if filter (on x) ys = [] then [(x, None)]
                       else map (\<lambda>y. (x, Some y)) (filter (on x) ys)"
  have "?chunk x \<noteq> []" by simp
  then obtain r where r: "r \<in> set (?chunk x)" by (cases "?chunk x") fastforce+
  then have "fst r = x" by (auto split: if_splits)
  moreover have "r \<in> set (left_join xs ys on)"
    unfolding left_join_def set_concat using x r by (intro UN_I[of "?chunk x"]) auto
  ultimately show ?thesis by (metis prod.collapse)
qed

lemma left_join_Some: "(x, Some y) \<in> set (left_join xs ys on) \<Longrightarrow> y \<in> set ys \<and> on x y"
  by (auto simp: left_join_def split: if_splits)

lemma left_join_left: "(x, p) \<in> set (left_join xs ys on) \<Longrightarrow> x \<in> set xs"
  by (auto simp: left_join_def split: if_splits)

lemma inner_join_iff:
  "(x, y) \<in> set (inner_join xs ys on) \<longleftrightarrow> x \<in> set xs \<and> y \<in> set ys \<and> on x y"
  by (auto simp: inner_join_def)

lemma group_by_mem:
  "r \<in> set rs \<Longrightarrow> (key r, filter (\<lambda>x. key x = key r) rs) \<in> set (group_by key rs)"
  by (auto simp: group_by_def image_iff)

lemma length_group_by: "length (group_by key rs) = card (key ` set rs)"
  by (simp add: group_by_def length_remdups_card_conv)

lemma count_col_zero: "(\<And>r. r \<in> set rs \<Longrightarrow> col r = None) \<Longrightarrow> count_col col rs = 0"
  by (simp add: count_col_def filter_empty_conv)

lemma set_order_by_desc [simp]: "set (order_by_desc key rs) = set rs"
  by (simp add: order_by_desc_def)

lemma length_order_by_desc [simp]: "length (order_by_desc key rs) = length rs"
  by (simp add: order_by_desc_def)

lemma artist_row_present:
  assumes "(aid, name, loc) \<in> set (Artist db)"
  shows "(name, count_col (\<lambda>(a, p). map_option snd p) (artist_group db aid name))
           \<in> set (artist_song_count_rows db)"
proof -
  let ?J = "left_join (Artist db) (Produces db) (\<lambda>a p. fst a = fst p)"
  let ?K = "\<lambda>(a, p). (fst a, fst (snd a))"
  obtain p where p: "((aid, name, loc), p) \<in> set ?J"
    using left_join_keeps[OF assms] by blast
  have "(?K ((aid, name, loc), p), filter (\<lambda>x. ?K x = ?K ((aid, name, loc), p)) ?J)
          \<in> set (group_by ?K ?J)"
    by (rule group_by_mem[OF p])
  moreover have "filter (\<lambda>x. ?K x = ?K ((aid, name, loc), p)) ?J = artist_group db aid name"
    by (auto simp: artist_group_def intro!: filter_cong)
  ultimately have "((aid, name), artist_group db aid name) \<in> set (group_by ?K ?J)"
    by simp
  then show ?thesis
    unfolding artist_song_count_rows_def by (force simp: image_iff)
qed

lemma artist_group_zero:
  assumes "\<forall>p\<in>set (Produces db). fst p \<noteq> aid"
  shows "count_col (\<lambda>(a, p). map_option snd p) (artist_group db aid name) = 0"
proof (rule count_col_zero)
  fix r assume "r \<in> set (artist_group db aid name)"
  then obtain a p where r: "r = (a, p)" and a: "fst a = aid"
    and m: "(a, p) \<in> set (left_join (Artist db) (Produces db) (\<lambda>a p. fst a = fst p))"
    by (auto simp: artist_group_def)
  have "p = None"
  proof (cases p)
    case (Some y)
    with m have "y \<in> set (Produces db) \<and> fst a = fst y" using left_join_Some by fast
    with assms a show ?thesis by auto
  qed simp
  with r show "(case r of (a, p) \<Rightarrow> map_option snd p) = None" by simp
qed

lemma length_artist_rows: "length (artist_song_count_rows db) \<le> length (Artist db)"
proof -
  let ?J = "left_join (Artist db) (Produces db) (\<lambda>a p. fst a = fst p)"
  let ?K = "\<lambda>(a, p). (fst a, fst (snd a))"
  have "?K ` set ?J \<subseteq> (\<lambda>a. (fst a, fst (snd a))) ` set (Artist db)"
    using left_join_left by fastforce
  then have "card (?K ` set ?J) \<le> card ((\<lambda>a. (fst a, fst (snd a))) ` set (Artist db))"
    by (intro card_mono) auto
  also have "\<dots> \<le> card (set (Artist db))" by (rule card_image_le) simp
  also have "\<dots> \<le> length (Artist db)" by (rule card_length)
  finally show ?thesis by (simp add: artist_song_count_rows_def length_group_by)
qed


lemma filter_left_join_other:
  "\<forall>x\<in>set xs. fst x \<noteq> k \<Longrightarrow> filter (\<lambda>(x, p). fst x = k) (left_join xs ys on) = []"
  by (auto simp: filter_empty_conv dest: left_join_left)

lemma left_join_Cons:
  "left_join (x # xs) ys on =
     (if filter (on x) ys = [] then [(x, None)] else map (\<lambda>y. (x, Some y)) (filter (on x) ys))
     @ left_join xs ys on"
  by (simp add: left_join_def)

lemma filter_left_join_key:
  assumes "distinct (map fst xs)" and "a \<in> set xs"
  shows "filter (\<lambda>(x, p). fst x = fst a) (left_join xs ys on) =
           (if filter (on a) ys = [] then [(a, None)] else map (\<lambda>y. (a, Some y)) (filter (on a) ys))"
  using assms
proof (induction xs)
  case Nil
  then show ?case by simp
next
  case (Cons x xs)
  show ?case
  proof (cases "x = a")
    case True
    have "\<forall>z\<in>set xs. fst z \<noteq> fst a" using Cons.prems(1) True by (auto simp: image_iff)
    then have "filter (\<lambda>(x, p). fst x = fst a) (left_join xs ys on) = []"
      by (rule filter_left_join_other)
    then show ?thesis using True by (simp add: left_join_Cons o_def)
  next
    case False
    then have a: "a \<in> set xs" using Cons.prems(2) by simp
    then have "fst x \<noteq> fst a" using Cons.prems(1) by (auto simp: image_iff)
    moreover have "distinct (map fst xs)" using Cons.prems(1) by simp
    ultimately show ?thesis using Cons.IH a by (simp add: left_join_Cons o_def)
  qed
qed

lemma artist_group_count:
  assumes d: "distinct (map fst (Artist db))" and a: "(aid, name, loc) \<in> set (Artist db)"
  shows "count_col (\<lambda>(a, p). map_option snd p) (artist_group db aid name) =
           int (length (filter (\<lambda>p. fst p = aid) (Produces db)))"
proof -
  let ?J = "left_join (Artist db) (Produces db) (\<lambda>a p. fst a = fst p)"
  have "\<And>x p. (x, p) \<in> set ?J \<Longrightarrow> fst x = aid \<Longrightarrow> fst (snd x) = name"
  proof -
    fix x p assume j: "(x, p) \<in> set ?J" and k: "fst x = aid"
    from j have "x \<in> set (Artist db)" by (rule left_join_left)
    with d a k have "x = (aid, name, loc)"
      by (metis distinct_map fst_conv inj_onD)
    then show "fst (snd x) = name" by simp
  qed
  then have "artist_group db aid name = filter (\<lambda>(x, p). fst x = aid) ?J"
    unfolding artist_group_def by (intro filter_cong) auto
  also have "\<dots> = (if filter (\<lambda>p. aid = fst p) (Produces db) = [] then [((aid, name, loc), None)]
                   else map (\<lambda>y. ((aid, name, loc), Some y)) (filter (\<lambda>p. aid = fst p) (Produces db)))"
    using filter_left_join_key[OF d a, of "Produces db" "\<lambda>a p. fst a = fst p"] by simp
  finally have g: "artist_group db aid name =
      (if filter (\<lambda>p. aid = fst p) (Produces db) = [] then [((aid, name, loc), None)]
       else map (\<lambda>y. ((aid, name, loc), Some y)) (filter (\<lambda>p. aid = fst p) (Produces db)))" .
  have e: "(\<lambda>p. aid = fst p) = (\<lambda>p. fst p = aid)" by auto
  show ?thesis
    unfolding g e by (simp add: count_col_def o_def)
qed

lemma song_row_present:
  assumes s: "(sid, sname, d) \<in> set (Song db)" and p: "(aid, sid) \<in> set (Produces db)"
      and a: "(aid, aname, loc) \<in> set (Artist db)"
  shows "\<exists>n. (sname, aname, n) \<in> set (most_liked_rows db)
            \<and> ((\<forall>l\<in>set (Likes db). fst (snd l) \<noteq> sid) \<longrightarrow> n = 0)"
proof -
  let ?I = "inner_join (inner_join (Song db) (Produces db) (\<lambda>s p. fst s = snd p))
              (Artist db) (\<lambda>(s, p) a. fst p = fst a)"
  let ?J = "left_join ?I (Likes db) (\<lambda>((s, p), a) l. fst s = fst (snd l))"
  let ?K = "\<lambda>(((s, p), a), l). (fst s, fst (snd s), fst (snd a))"
  let ?col = "\<lambda>(spa, l). map_option fst l"
  let ?x = "(((sid, sname, d), (aid, sid)), (aid, aname, loc))"
  have "?x \<in> set ?I" using s p a by (simp add: inner_join_iff)
  then obtain l where l: "(?x, l) \<in> set ?J" using left_join_keeps by fast
  let ?g = "filter (\<lambda>r. ?K r = ?K (?x, l)) ?J"
  have "(?K (?x, l), ?g) \<in> set (group_by ?K ?J)" by (rule group_by_mem[OF l])
  then have "((sid, sname, aname), ?g) \<in> set (group_by ?K ?J)" by simp
  then have m: "(sname, aname, count_col ?col ?g) \<in> set (most_liked_rows db)"
    unfolding most_liked_rows_def by (force simp: image_iff)
  have "count_col ?col ?g = 0" if no: "\<forall>l\<in>set (Likes db). fst (snd l) \<noteq> sid"
  proof (rule count_col_zero)
    fix r assume "r \<in> set ?g"
    then have g: "r \<in> set ?J" "?K r = (sid, sname, aname)" by simp_all
    define s' p' a' l' where "s' = fst (fst (fst r))" and "p' = snd (fst (fst r))"
      and "a' = snd (fst r)" and "l' = snd r"
    then have r: "r = (((s', p'), a'), l')" by simp
    have k: "fst s' = sid" using g(2) unfolding r by simp
    have j: "(((s', p'), a'), l') \<in> set ?J" using g(1) unfolding r .
    have "l' = None"
    proof (cases l')
      case (Some y)
      with j have "y \<in> set (Likes db) \<and> fst s' = fst (snd y)" using left_join_Some by fast
      with no k show ?thesis by auto
    qed simp
    with r show "(case r of (spa, l) \<Rightarrow> map_option fst l) = None" by simp
  qed
  with m show ?thesis by blast
qed

lemma group_by_key: "(k, g) \<in> set (group_by key rs) \<Longrightarrow> \<exists>r\<in>set rs. key r = k"
  by (auto simp: group_by_def)

lemma most_liked_row_origin:
  assumes "(sname, aname, n) \<in> set (most_liked_rows db)"
  shows "\<exists>s\<in>set (Song db). \<exists>p\<in>set (Produces db). \<exists>a\<in>set (Artist db).
           snd p = fst s \<and> fst p = fst a \<and> sname = fst (snd s) \<and> aname = fst (snd a)"
proof -
  let ?I = "inner_join (inner_join (Song db) (Produces db) (\<lambda>s p. fst s = snd p))
              (Artist db) (\<lambda>(s, p) a. fst p = fst a)"
  let ?J = "left_join ?I (Likes db) (\<lambda>((s, p), a) l. fst s = fst (snd l))"
  let ?K = "\<lambda>(((s, p), a), l). (fst s, fst (snd s), fst (snd a))"
  let ?F = "\<lambda>((sid, sname, aname), g). (sname, aname, count_col (\<lambda>(spa, l). map_option fst l) g)"
  from assms have "(sname, aname, n) \<in> ?F ` set (group_by ?K ?J)"
    unfolding most_liked_rows_def set_map .
  then obtain kg where kg: "kg \<in> set (group_by ?K ?J)" and e: "(sname, aname, n) = ?F kg"
    by blast
  from kg have "(fst kg, snd kg) \<in> set (group_by ?K ?J)" by simp
  then obtain r where g0: "r \<in> set ?J" "?K r = fst kg" using group_by_key by fast
  from e have "fst kg = (fst (fst kg), sname, aname)" by (simp add: split_beta)
  with g0 have g: "r \<in> set ?J" "?K r = (fst (fst kg), sname, aname)" by simp_all
  define s p a l where "s = fst (fst (fst r))" and "p = snd (fst (fst r))"
    and "a = snd (fst r)" and "l = snd r"
  then have r: "r = (((s, p), a), l)" by simp
  have k: "sname = fst (snd s)" "aname = fst (snd a)" using g(2) unfolding r by simp_all
  have j: "(((s, p), a), l) \<in> set ?J" using g(1) unfolding r .
  from j have "((s, p), a) \<in> set ?I" by (rule left_join_left)
  then have "s \<in> set (Song db) \<and> p \<in> set (Produces db) \<and> a \<in> set (Artist db)
             \<and> fst s = snd p \<and> fst p = fst a"
    by (simp add: inner_join_iff)
  with k show ?thesis by (intro bexI[of _ s] bexI[of _ p] bexI[of _ a]) simp_all
qed

lemma fetch_artist_song_counts_pg:
  "rows (fst (fetch_df (pg fk other) c AppArtistSongCounts (lim_params lim) w)) =
     (if lim < 0 then []
      else map (\<lambda>(name, n). [VStr name, VInt n])
             (take (nat lim) (order_by_desc snd (artist_song_count_rows (store_db w)))))"
  by (simp add: fetch_df_def fetch_df_with_def pg_read_sql pg_def reads_def
                select_artist_song_counts_def get_int_def lim_params_def limit_rows_def
                DataFrame_new_def)

lemma fetch_most_liked_pg:
  "rows (fst (fetch_df (pg fk other) c AppMostLiked (lim_params lim) w)) =
     (if lim < 0 then []
      else map (\<lambda>(sname, aname, n). [VStr sname, VStr aname, VInt n])
             (take (nat lim) (order_by_desc (\<lambda>r. snd (snd r)) (most_liked_rows (store_db w)))))"
  by (simp add: fetch_df_def fetch_df_with_def pg_read_sql pg_def reads_def
                select_most_liked_def get_int_def lim_params_def limit_rows_def
                DataFrame_new_def)

lemma artist_counts_keep:
  assumes L: "int (length (Artist (store_db w))) \<le> lim"
      and a: "(aid, name, loc) \<in> set (Artist (store_db w))"
  shows "\<exists>n. [VStr name, VInt n]
               \<in> set (rows (fst (fetch_df (pg fk other) c AppArtistSongCounts (lim_params lim) w)))
            \<and> ((\<forall>p\<in>set (Produces (store_db w)). fst p \<noteq> aid) \<longrightarrow> n = 0)
            \<and> (distinct (map fst (Artist (store_db w))) \<longrightarrow>
                 n = int (length (filter (\<lambda>p. fst p = aid) (Produces (store_db w)))))"
proof -
  let ?db = "store_db w"
  let ?n = "count_col (\<lambda>(a, p). map_option snd p) (artist_group ?db aid name)"
  have l: "\<not> lim < 0" using L by linarith
  have "length (artist_song_count_rows ?db) \<le> nat lim"
    using length_artist_rows[of ?db] L by linarith
  then have t: "take (nat lim) (order_by_desc snd (artist_song_count_rows ?db)) =
                order_by_desc snd (artist_song_count_rows ?db)"
    by simp
  have "(name, ?n) \<in> set (artist_song_count_rows ?db)" by (rule artist_row_present[OF a])
  then have "[VStr name, VInt ?n]
        \<in> set (rows (fst (fetch_df (pg fk other) c AppArtistSongCounts (lim_params lim) w)))"
    unfolding fetch_artist_song_counts_pg t using l by (force simp: image_iff)
  then show ?thesis
    using artist_group_zero[of ?db aid name] artist_group_count[OF _ a] by blast
qed

lemma most_liked_keep:
  assumes L: "int (length (most_liked_rows (store_db w))) \<le> lim"
      and s: "(sid, sname, d) \<in> set (Song (store_db w))"
      and p: "(pa, sid) \<in> set (Produces (store_db w))"
      and a: "(pa, aname, ploc) \<in> set (Artist (store_db w))"
  shows "\<exists>n. [VStr sname, VStr aname, VInt n]
               \<in> set (rows (fst (fetch_df (pg fk other) c AppMostLiked (lim_params lim) w)))
            \<and> ((\<forall>l\<in>set (Likes (store_db w)). fst (snd l) \<noteq> sid) \<longrightarrow> n = 0)"
proof -
  let ?db = "store_db w"
  have l: "\<not> lim < 0" using L by linarith
  have "length (most_liked_rows ?db) \<le> nat lim" using L by linarith
  then have t: "take (nat lim) (order_by_desc (\<lambda>r. snd (snd r)) (most_liked_rows ?db)) =
                order_by_desc (\<lambda>r. snd (snd r)) (most_liked_rows ?db)"
    by simp
  obtain n where n: "(sname, aname, n) \<in> set (most_liked_rows ?db)"
    and z: "(\<forall>l\<in>set (Likes ?db). fst (snd l) \<noteq> sid) \<longrightarrow> n = 0"
    using song_row_present[OF s p a] by blast
  from n have "[VStr sname, VStr aname, VInt n]
        \<in> set (rows (fst (fetch_df (pg fk other) c AppMostLiked (lim_params lim) w)))"
    unfolding fetch_most_liked_pg t using l by (force simp: image_iff)
  with z show ?thesis by blast
qed

lemma most_liked_only_produced:
  assumes "r \<in> set (rows (fst (fetch_df (pg fk other) c AppMostLiked (lim_params lim) w)))"
  shows "\<exists>s\<in>set (Song (store_db w)). \<exists>p\<in>set (Produces (store_db w)).
           \<exists>a\<in>set (Artist (store_db w)).
             snd p = fst s \<and> fst p = fst a
           \<and> (\<exists>n. r = [VStr (fst (snd s)), VStr (fst (snd a)), VInt n])"
proof -
  let ?db = "store_db w"
  let ?F = "\<lambda>(sname, aname, n). [VStr sname, VStr aname, VInt n]"
  from assms have "r \<in> ?F ` set (take (nat lim) (order_by_desc (\<lambda>r. snd (snd r)) (most_liked_rows ?db)))"
    unfolding fetch_most_liked_pg by (simp split: if_splits)
  then obtain x where x: "x \<in> set (take (nat lim) (order_by_desc (\<lambda>r. snd (snd r)) (most_liked_rows ?db)))"
    and r: "r = ?F x" by blast
  from x have "x \<in> set (most_liked_rows ?db)" using in_set_takeD by fastforce
  then have "(fst x, fst (snd x), snd (snd x)) \<in> set (most_liked_rows ?db)" by simp
  from most_liked_row_origin[OF this]
  obtain s p a where "s \<in> set (Song ?db)" "p \<in> set (Produces ?db)" "a \<in> set (Artist ?db)"
    "snd p = fst s" "fst p = fst a" "fst x = fst (snd s)" "fst (snd x) = fst (snd a)"
    by blast
  moreover have "r = [VStr (fst x), VStr (fst (snd x)), VInt (snd (snd x))]"
    using r by (simp add: split_beta)
  ultimately show ?thesis by (intro bexI[of _ s] bexI[of _ p] bexI[of _ a]) simp_all
qed

text \<open>
  C2 as it is worded fails on the small database. The song Orphan has no row in
  \<^verbatim>\<open>Produces\<close>, and the inner joins of the most liked songs leave it out: the view has
  the one row of Anti-Hero. With a row limit of one, the artist song counts show one of
  the two artists.
\<close>

theorem C2_counterexample:
  "(2, ''Orphan'', 19000) \<in> set (Song example_db)
   \<and> rows (fst (fetch_df (pg Restrict not_modelled) example_config AppMostLiked
                  (lim_params 200) example_world)) =
       [[VStr ''Anti-Hero'', VStr ''Taylor Swift'', VInt 1]]
   \<and> (2, ''Solo'', None) \<in> set (Artist example_db)
   \<and> rows (fst (fetch_df (pg Restrict not_modelled) example_config AppArtistSongCounts
                  (lim_params 1) example_world)) =
       [[VStr ''Taylor Swift'', VInt 1]]"
  by (simp add: fetch_most_liked_pg fetch_artist_song_counts_pg example_world_def example_db_def
                most_liked_rows_def artist_song_count_rows_def inner_join_def left_join_def
                group_by_def count_col_def order_by_desc_def)

text \<open>
  C2. When the row limit is at least the number of artists, the artist song counts have a
  row for every artist, with \<^verbatim>\<open>song_count\<close> 0 for an artist without a row in
  \<^verbatim>\<open>Produces\<close>, and with the number of its rows in \<^verbatim>\<open>Produces\<close> when the artist
  identifiers are distinct. When the row limit is at least the number of rows of the view,
  the most liked songs have a row for every song with a producing artist, with
  \<^verbatim>\<open>like_count\<close> 0 for a song nobody likes. Every row of the most liked songs is a
  song with a producing artist: the left join to \<^verbatim>\<open>Likes\<close> drops no song, the inner
  joins to \<^verbatim>\<open>Produces\<close> and \<^verbatim>\<open>Artist\<close> drop the songs without one.
\<close>

theorem C2_views_keep_joined_parents:
  "(int (length (Artist (store_db w))) \<le> lim \<and> (aid, name, loc) \<in> set (Artist (store_db w)) \<longrightarrow>
      (\<exists>n. [VStr name, VInt n]
               \<in> set (rows (fst (fetch_df (pg fk other) c AppArtistSongCounts (lim_params lim) w)))
            \<and> ((\<forall>p\<in>set (Produces (store_db w)). fst p \<noteq> aid) \<longrightarrow> n = 0)
            \<and> (distinct (map fst (Artist (store_db w))) \<longrightarrow>
                 n = int (length (filter (\<lambda>p. fst p = aid) (Produces (store_db w)))))))
 \<and> (int (length (most_liked_rows (store_db w))) \<le> lim
      \<and> (sid, sname, d) \<in> set (Song (store_db w))
      \<and> (pa, sid) \<in> set (Produces (store_db w))
      \<and> (pa, aname, ploc) \<in> set (Artist (store_db w)) \<longrightarrow>
      (\<exists>n. [VStr sname, VStr aname, VInt n]
               \<in> set (rows (fst (fetch_df (pg fk other) c AppMostLiked (lim_params lim) w)))
            \<and> ((\<forall>l\<in>set (Likes (store_db w)). fst (snd l) \<noteq> sid) \<longrightarrow> n = 0)))
 \<and> (\<forall>r\<in>set (rows (fst (fetch_df (pg fk other) c AppMostLiked (lim_params lim) w))).
       \<exists>s\<in>set (Song (store_db w)). \<exists>p\<in>set (Produces (store_db w)).
         \<exists>a\<in>set (Artist (store_db w)).
           snd p = fst s \<and> fst p = fst a
         \<and> (\<exists>n. r = [VStr (fst (snd s)), VStr (fst (snd a)), VInt n]))"
proof (intro conjI impI ballI)
  assume "int (length (Artist (store_db w))) \<le> lim \<and> (aid, name, loc) \<in> set (Artist (store_db w))"
  then show "\<exists>n. [VStr name, VInt n]
               \<in> set (rows (fst (fetch_df (pg fk other) c AppArtistSongCounts (lim_params lim) w)))
            \<and> ((\<forall>p\<in>set (Produces (store_db w)). fst p \<noteq> aid) \<longrightarrow> n = 0)
            \<and> (distinct (map fst (Artist (store_db w))) \<longrightarrow>
                 n = int (length (filter (\<lambda>p. fst p = aid) (Produces (store_db w)))))"
    using artist_counts_keep by blast
next
  assume "int (length (most_liked_rows (store_db w))) \<le> lim
      \<and> (sid, sname, d) \<in> set (Song (store_db w))
      \<and> (pa, sid) \<in> set (Produces (store_db w))
      \<and> (pa, aname, ploc) \<in> set (Artist (store_db w))"
  then show "\<exists>n. [VStr sname, VStr aname, VInt n]
               \<in> set (rows (fst (fetch_df (pg fk other) c AppMostLiked (lim_params lim) w)))
            \<and> ((\<forall>l\<in>set (Likes (store_db w)). fst (snd l) \<noteq> sid) \<longrightarrow> n = 0)"
    using most_liked_keep by blast
next
  fix r assume "r \<in> set (rows (fst (fetch_df (pg fk other) c AppMostLiked (lim_params lim) w)))"
  then show "\<exists>s\<in>set (Song (store_db w)). \<exists>p\<in>set (Produces (store_db w)).
         \<exists>a\<in>set (Artist (store_db w)).
           snd p = fst s \<and> fst p = fst a
         \<and> (\<exists>n. r = [VStr (fst (snd s)), VStr (fst (snd a)), VInt n])"
    by (rule most_liked_only_produced)
qed

theorem C2_views_keep_joined_parents_witness:
  "[VStr ''Solo'', VInt 0]
     \<in> set (rows (fst (fetch_df (pg Restrict not_modelled) example_config AppArtistSongCounts
                         (lim_params 200) (example_world\<lparr>store_db := example_db_unliked\<rparr>))))
   \<and> [VStr ''Lavender Haze'', VStr ''Taylor Swift'', VInt 0]
     \<in> set (rows (fst (fetch_df (pg Restrict not_modelled) example_config AppMostLiked
                         (lim_params 200) (example_world\<lparr>store_db := example_db_unliked\<rparr>))))"
  using C2_views_keep_joined_parents
          [where w = "example_world\<lparr>store_db := example_db_unliked\<rparr>" and fk = Restrict
             and other = not_modelled and c = example_config and lim = 200
             and aid = 2 and name = "''Solo''" and loc = None
             and sid = 3 and sname = "''Lavender Haze''" and d = 19286
             and pa = 1 and aname = "''Taylor Swift''" and ploc = "Some ''Nashville, TN''"]
  by (simp add: example_world_def example_db_unliked_def example_db_def
                most_liked_rows_def inner_join_def left_join_def group_by_def)

subsection \<open>Bounds and orders of the listings\<close>

lemma count_list_insort: "count_list (insort_key k a xs) x = count_list (a # xs) x"
  by (induction xs) auto

lemma count_list_sort: "count_list (sort_key k xs) x = count_list xs x"
  by (induction xs) (auto simp: count_list_insort)

lemma first_rows_take_sort: "first_rows key n xs (take n (sort_key key xs))"
proof -
  let ?S = "sort_key key xs"
  have c: "count_list xs x = count_list (take n ?S) x + count_list (drop n ?S) x" for x
    using count_list_append[of "take n ?S" "drop n ?S" x] by (simp add: count_list_sort)
  have "sorted (map key (take n ?S @ drop n ?S))" by simp
  then have s: "sorted (map key (take n ?S))"
    and o: "\<forall>y\<in>set (take n ?S). \<forall>z\<in>set (drop n ?S). key y \<le> key z"
    unfolding map_append sorted_append by auto
  have "count_list (take n ?S) x = count_list xs x"
    if "y \<in> set (take n ?S)" "key x < key y" for x y
  proof -
    have "x \<notin> set (drop n ?S)" using o that by fastforce
    then show ?thesis using c[of x] by simp
  qed
  then show ?thesis
    unfolding first_rows_def using s c by (auto simp: min_def)
qed

lemma first_rows_order_by: "first_rows key n xs (take n (order_by key xs))"
  unfolding order_by_def by (rule first_rows_take_sort)

lemma first_rows_order_by_all: "first_rows key (length xs) xs (order_by key xs)"
  using first_rows_order_by[of key "length xs" xs] by simp

lemma first_rows_order_by_desc:
  "first_rows (descending key) n xs (take n (order_by_desc key xs))"
proof -
  have "descending key = (\<lambda>r. - key r)" by (auto simp: descending_def)
  then show ?thesis unfolding order_by_desc_def using first_rows_take_sort[of "\<lambda>r. - key r"] by simp
qed

lemma listed_all:
  "rows df = map cells (order_by key xs) \<Longrightarrow>
   \<exists>rs. rows df = map cells rs \<and> first_rows key (length xs) xs rs"
  using first_rows_order_by_all by blast

lemma fetch_df_pg:
  "fst (fetch_df (pg fk other) c q ps w) =
     (case pg fk other q (case ps of None \<Rightarrow> [] | Some p \<Rightarrow> p) (store_db w) of
        Inl e \<Rightarrow> DataFrame_new | Inr (df, db') \<Rightarrow> df)"
  by (simp add: fetch_df_def fetch_df_with_def pg_read_sql split: sum.splits prod.splits)

lemma select_limited_lim:
  "0 \<le> lim \<Longrightarrow>
   select_limited cols cells xs [(''lim'', VInt lim)] =
     Inr (frame cols (map cells (take (nat lim) xs)))"
  by (simp add: select_limited_def get_int_def limit_rows_def)

lemma bounded_AppUsers:
  assumes "0 \<le> lim"
  shows "(\<exists>rs. rows (fst (fetch_df (pg fk other) c AppUsers (lim_params lim) w)) = map user_cells rs
              \<and> first_rows fst (nat lim) (User_table (store_db w)) rs)"
proof -
  have "rows (fst (fetch_df (pg fk other) c AppUsers (lim_params lim) w)) =
          map user_cells (take (nat lim) (order_by fst (User_table (store_db w))))"
    using assms
    by (simp add: fetch_df_pg pg_def reads_def select_star_users_def select_limited_lim lim_params_def)
  then show ?thesis using first_rows_order_by by blast
qed

lemma bounded_AppSongs:
  assumes "0 \<le> lim"
  shows "(\<exists>rs. rows (fst (fetch_df (pg fk other) c AppSongs (lim_params lim) w)) = map song_cells rs
              \<and> first_rows fst (nat lim) (Song (store_db w)) rs)"
proof -
  have "rows (fst (fetch_df (pg fk other) c AppSongs (lim_params lim) w)) =
          map song_cells (take (nat lim) (order_by fst (Song (store_db w))))"
    using assms
    by (simp add: fetch_df_pg pg_def reads_def select_star_songs_def select_limited_lim lim_params_def)
  then show ?thesis using first_rows_order_by by blast
qed

lemma bounded_AppAlbums:
  assumes "0 \<le> lim"
  shows "(\<exists>rs. rows (fst (fetch_df (pg fk other) c AppAlbums (lim_params lim) w)) = map album_cells rs
              \<and> first_rows fst (nat lim) (Album (store_db w)) rs)"
proof -
  have "rows (fst (fetch_df (pg fk other) c AppAlbums (lim_params lim) w)) =
          map album_cells (take (nat lim) (order_by fst (Album (store_db w))))"
    using assms
    by (simp add: fetch_df_pg pg_def reads_def select_star_albums_def select_limited_lim lim_params_def)
  then show ?thesis using first_rows_order_by by blast
qed

lemma bounded_AppArtists:
  assumes "0 \<le> lim"
  shows "(\<exists>rs. rows (fst (fetch_df (pg fk other) c AppArtists (lim_params lim) w)) = map artist_cells rs
              \<and> first_rows fst (nat lim) (Artist (store_db w)) rs)"
proof -
  have "rows (fst (fetch_df (pg fk other) c AppArtists (lim_params lim) w)) =
          map artist_cells (take (nat lim) (order_by fst (Artist (store_db w))))"
    using assms
    by (simp add: fetch_df_pg pg_def reads_def select_star_artists_def select_limited_lim lim_params_def)
  then show ?thesis using first_rows_order_by by blast
qed

lemma bounded_AppPlaylists:
  assumes "0 \<le> lim"
  shows "(\<exists>rs. rows (fst (fetch_df (pg fk other) c AppPlaylists (lim_params lim) w)) = map playlist_cells rs
              \<and> first_rows fst (nat lim) (Playlist (store_db w)) rs)"
proof -
  have "rows (fst (fetch_df (pg fk other) c AppPlaylists (lim_params lim) w)) =
          map playlist_cells (take (nat lim) (order_by fst (Playlist (store_db w))))"
    using assms
    by (simp add: fetch_df_pg pg_def reads_def select_star_playlists_def select_limited_lim lim_params_def)
  then show ?thesis using first_rows_order_by by blast
qed

lemma bounded_AppSongsArtists:
  assumes "0 \<le> lim"
  shows "(\<exists>rs. rows (fst (fetch_df (pg fk other) c AppSongsArtists (lim_params lim) w)) = map songs_artists_cells rs
              \<and> first_rows (\<lambda>((s, p), a). fst s) (nat lim) (songs_artists (store_db w)) rs)"
proof -
  have "rows (fst (fetch_df (pg fk other) c AppSongsArtists (lim_params lim) w)) =
          map songs_artists_cells (take (nat lim) (order_by (\<lambda>((s, p), a). fst s) (songs_artists (store_db w))))"
    using assms
    by (simp add: fetch_df_pg pg_def reads_def select_songs_artists_def select_limited_lim lim_params_def)
  then show ?thesis using first_rows_order_by by blast
qed

lemma bounded_AppPlaylistsCreators:
  assumes "0 \<le> lim"
  shows "(\<exists>rs. rows (fst (fetch_df (pg fk other) c AppPlaylistsCreators (lim_params lim) w)) = map playlists_creators_cells rs
              \<and> first_rows (\<lambda>((p, c), u). fst p) (nat lim) (playlists_creators (store_db w)) rs)"
proof -
  have "rows (fst (fetch_df (pg fk other) c AppPlaylistsCreators (lim_params lim) w)) =
          map playlists_creators_cells (take (nat lim) (order_by (\<lambda>((p, c), u). fst p) (playlists_creators (store_db w))))"
    using assms
    by (simp add: fetch_df_pg pg_def reads_def select_playlists_creators_def select_limited_lim lim_params_def)
  then show ?thesis using first_rows_order_by by blast
qed

lemma bounded_AppAlbumsArtists:
  assumes "0 \<le> lim"
  shows "(\<exists>rs. rows (fst (fetch_df (pg fk other) c AppAlbumsArtists (lim_params lim) w)) = map albums_artists_cells rs
              \<and> first_rows (descending (\<lambda>((al, rc), ar). snd (snd al))) (nat lim) (albums_artists (store_db w)) rs)"
proof -
  have "rows (fst (fetch_df (pg fk other) c AppAlbumsArtists (lim_params lim) w)) =
          map albums_artists_cells (take (nat lim) (order_by_desc (\<lambda>((al, rc), ar). snd (snd al)) (albums_artists (store_db w))))"
    using assms
    by (simp add: fetch_df_pg pg_def reads_def select_albums_artists_def select_limited_lim lim_params_def)
  then show ?thesis using first_rows_order_by_desc by blast
qed

lemma bounded_AppArtistSongCounts:
  assumes "0 \<le> lim"
  shows "(\<exists>rs. rows (fst (fetch_df (pg fk other) c AppArtistSongCounts (lim_params lim) w)) = map (\<lambda>(name, n). [VStr name, VInt n]) rs
              \<and> first_rows (descending snd) (nat lim) (artist_song_count_rows (store_db w)) rs)"
proof -
  have "rows (fst (fetch_df (pg fk other) c AppArtistSongCounts (lim_params lim) w)) =
          map (\<lambda>(name, n). [VStr name, VInt n]) (take (nat lim) (order_by_desc snd (artist_song_count_rows (store_db w))))"
    using assms by (simp add: fetch_artist_song_counts_pg)
  then show ?thesis using first_rows_order_by_desc by blast
qed

lemma bounded_AppUserLikes:
  assumes "0 \<le> lim"
  shows "(\<exists>rs. rows (fst (fetch_df (pg fk other) c AppUserLikes (lim_params lim) w)) = map user_likes_cells rs
              \<and> first_rows (descending (\<lambda>((((l, u), s), p), a). snd (snd l))) (nat lim) (user_likes (store_db w)) rs)"
proof -
  have "rows (fst (fetch_df (pg fk other) c AppUserLikes (lim_params lim) w)) =
          map user_likes_cells (take (nat lim) (order_by_desc (\<lambda>((((l, u), s), p), a). snd (snd l)) (user_likes (store_db w))))"
    using assms
    by (simp add: fetch_df_pg pg_def reads_def select_user_likes_def select_limited_lim lim_params_def)
  then show ?thesis using first_rows_order_by_desc by blast
qed

lemma bounded_AppMostLiked:
  assumes "0 \<le> lim"
  shows "(\<exists>rs. rows (fst (fetch_df (pg fk other) c AppMostLiked (lim_params lim) w)) = map (\<lambda>(sname, aname, n). [VStr sname, VStr aname, VInt n]) rs
              \<and> first_rows (descending (\<lambda>r. snd (snd r))) (nat lim) (most_liked_rows (store_db w)) rs)"
proof -
  have "rows (fst (fetch_df (pg fk other) c AppMostLiked (lim_params lim) w)) =
          map (\<lambda>(sname, aname, n). [VStr sname, VStr aname, VInt n]) (take (nat lim) (order_by_desc (\<lambda>r. snd (snd r)) (most_liked_rows (store_db w))))"
    using assms by (simp add: fetch_most_liked_pg)
  then show ?thesis using first_rows_order_by_desc by blast
qed

lemma bounded_AppUserActivity:
  assumes "0 \<le> lim"
  shows "(\<exists>rs. rows (fst (fetch_df (pg fk other) c AppUserActivity (lim_params lim) w)) = map user_activity_cells rs
              \<and> first_rows (descending (\<lambda>r. fst (snd r))) (nat lim) (user_activity_rows (store_db w)) rs)"
proof -
  have "rows (fst (fetch_df (pg fk other) c AppUserActivity (lim_params lim) w)) =
          map user_activity_cells (take (nat lim) (order_by_desc (\<lambda>r. fst (snd r)) (user_activity_rows (store_db w))))"
    using assms
    by (simp add: fetch_df_pg pg_def reads_def select_user_activity_def select_limited_lim lim_params_def)
  then show ?thesis using first_rows_order_by_desc by blast
qed

lemma bounded_views:
  "0 \<le> lim \<and> lim < 2 ^ 63 \<longrightarrow>
      (\<exists>rs. rows (fst (fetch_df (pg fk other) c AppUsers (lim_params lim) w)) = map user_cells rs
         \<and> first_rows fst (nat lim) (User_table (store_db w)) rs)
    \<and> (\<exists>rs. rows (fst (fetch_df (pg fk other) c AppSongs (lim_params lim) w)) = map song_cells rs
         \<and> first_rows fst (nat lim) (Song (store_db w)) rs)
    \<and> (\<exists>rs. rows (fst (fetch_df (pg fk other) c AppAlbums (lim_params lim) w)) = map album_cells rs
         \<and> first_rows fst (nat lim) (Album (store_db w)) rs)
    \<and> (\<exists>rs. rows (fst (fetch_df (pg fk other) c AppArtists (lim_params lim) w)) = map artist_cells rs
         \<and> first_rows fst (nat lim) (Artist (store_db w)) rs)
    \<and> (\<exists>rs. rows (fst (fetch_df (pg fk other) c AppPlaylists (lim_params lim) w)) = map playlist_cells rs
         \<and> first_rows fst (nat lim) (Playlist (store_db w)) rs)
    \<and> (\<exists>rs. rows (fst (fetch_df (pg fk other) c AppSongsArtists (lim_params lim) w)) = map songs_artists_cells rs
         \<and> first_rows (\<lambda>((s, p), a). fst s) (nat lim) (songs_artists (store_db w)) rs)
    \<and> (\<exists>rs. rows (fst (fetch_df (pg fk other) c AppPlaylistsCreators (lim_params lim) w)) = map playlists_creators_cells rs
         \<and> first_rows (\<lambda>((p, c), u). fst p) (nat lim) (playlists_creators (store_db w)) rs)
    \<and> (\<exists>rs. rows (fst (fetch_df (pg fk other) c AppAlbumsArtists (lim_params lim) w)) = map albums_artists_cells rs
         \<and> first_rows (descending (\<lambda>((al, rc), ar). snd (snd al))) (nat lim) (albums_artists (store_db w)) rs)
    \<and> (\<exists>rs. rows (fst (fetch_df (pg fk other) c AppArtistSongCounts (lim_params lim) w)) = map (\<lambda>(name, n). [VStr name, VInt n]) rs
         \<and> first_rows (descending snd) (nat lim) (artist_song_count_rows (store_db w)) rs)
    \<and> (\<exists>rs. rows (fst (fetch_df (pg fk other) c AppUserLikes (lim_params lim) w)) = map user_likes_cells rs
         \<and> first_rows (descending (\<lambda>((((l, u), s), p), a). snd (snd l))) (nat lim) (user_likes (store_db w)) rs)
    \<and> (\<exists>rs. rows (fst (fetch_df (pg fk other) c AppMostLiked (lim_params lim) w)) = map (\<lambda>(sname, aname, n). [VStr sname, VStr aname, VInt n]) rs
         \<and> first_rows (descending (\<lambda>r. snd (snd r))) (nat lim) (most_liked_rows (store_db w)) rs)
    \<and> (\<exists>rs. rows (fst (fetch_df (pg fk other) c AppUserActivity (lim_params lim) w)) = map user_activity_cells rs
         \<and> first_rows (descending (\<lambda>r. fst (snd r))) (nat lim) (user_activity_rows (store_db w)) rs)"
  by (intro impI conjI; (elim conjE)?)
     (rule bounded_AppUsers bounded_AppSongs bounded_AppAlbums bounded_AppArtists bounded_AppPlaylists bounded_AppSongsArtists bounded_AppPlaylistsCreators bounded_AppAlbumsArtists bounded_AppArtistSongCounts bounded_AppUserLikes bounded_AppMostLiked bounded_AppUserActivity, assumption)+

lemma unbounded_crud:
  "(\<exists>rs. rows (fst (fetch_users (pg fk other) c w)) = map user_cells rs
         \<and> first_rows fst (length (User_table (store_db w))) (User_table (store_db w)) rs)
 \<and> (\<exists>rs. rows (fst (fetch_artists (pg fk other) c w)) = map artist_cells rs
         \<and> first_rows fst (length (Artist (store_db w))) (Artist (store_db w)) rs)
 \<and> (\<exists>rs. rows (fst (fetch_albums (pg fk other) c w)) = map album_cells rs
         \<and> first_rows fst (length (Album (store_db w))) (Album (store_db w)) rs)
 \<and> (\<exists>rs. rows (fst (fetch_playlists (pg fk other) c w)) = map playlist_cells rs
         \<and> first_rows fst (length (Playlist (store_db w))) (Playlist (store_db w)) rs)"
  by (intro conjI; rule listed_all)
     (simp_all add: fetch_users_pg fetch_artists_pg fetch_albums_pg fetch_playlists_pg)

lemma bounded_songs:
  "0 \<le> lim \<and> lim < 2 ^ 63 \<longrightarrow>
      (\<exists>rs. rows (fst (fetch_songs (pg fk other) c lim w)) = map song_cells rs
           \<and> first_rows fst (nat lim) (Song (store_db w)) rs)"
proof
  assume "0 \<le> lim \<and> lim < 2 ^ 63"
  then have l: "0 \<le> lim" by simp
  show "(\<exists>rs. rows (fst (fetch_songs (pg fk other) c lim w)) = map song_cells rs
           \<and> first_rows fst (nat lim) (Song (store_db w)) rs)"
    using first_rows_order_by by (simp add: fetch_songs_pg[OF l]) blast
qed

lemma unbounded_app:
  "(\<exists>rs. rows (fst (fetch_df (pg fk other) c AppPlaylistChoices None w)) = map playlist_choice_cells rs
         \<and> first_rows fst (length (Playlist (store_db w))) (Playlist (store_db w)) rs)
 \<and> (\<exists>rs. rows (fst (fetch_df (pg fk other) c AppPlaylistSongs (Some [(''pid'', VInt pid)]) w)) = map playlist_songs_cells rs
         \<and> first_rows (\<lambda>(((sv, s), p), a). snd (snd sv)) (length (playlist_songs (store_db w) pid)) (playlist_songs (store_db w) pid) rs)"
proof
  have "rows (fst (fetch_df (pg fk other) c AppPlaylistChoices None w)) =
          map playlist_choice_cells (order_by fst (Playlist (store_db w)))"
    by (simp add: fetch_df_pg pg_def select_playlist_choices_def)
  then show "(\<exists>rs. rows (fst (fetch_df (pg fk other) c AppPlaylistChoices None w)) = map playlist_choice_cells rs
         \<and> first_rows fst (length (Playlist (store_db w))) (Playlist (store_db w)) rs)"
    using first_rows_order_by_all by blast
  have "rows (fst (fetch_df (pg fk other) c AppPlaylistSongs (Some [(''pid'', VInt pid)]) w)) =
          map playlist_songs_cells
            (order_by (\<lambda>(((sv, s), p), a). snd (snd sv)) (playlist_songs (store_db w) pid))"
    by (simp add: fetch_df_pg pg_def reads_def select_playlist_songs_def get_int_def)
  then show "(\<exists>rs. rows (fst (fetch_df (pg fk other) c AppPlaylistSongs (Some [(''pid'', VInt pid)]) w)) = map playlist_songs_cells rs
         \<and> first_rows (\<lambda>(((sv, s), p), a). snd (snd sv)) (length (playlist_songs (store_db w) pid)) (playlist_songs (store_db w) pid) rs)"
    using first_rows_order_by_all by blast
qed

lemma sent_fetch_users:
  "sent (snd (fetch_users (pg fk other) c w)) = sent (opened c w) @ [(sql_text CrudUsers, [])]"
  by (simp add: fetch_users_def fetch_df_crud_def fetch_df_with_def pg_read_sql pg_def send_def)

lemma texts_flat:
  "contains_text ''ORDER BY userID LIMIT :lim'' (sql_text AppUsers)"
  "contains_text ''ORDER BY song_id LIMIT :lim'' (sql_text AppSongs)"
  "contains_text ''ORDER BY albumID LIMIT :lim'' (sql_text AppAlbums)"
  "contains_text ''ORDER BY artistID LIMIT :lim'' (sql_text AppArtists)"
  "contains_text ''ORDER BY playlistID LIMIT :lim'' (sql_text AppPlaylists)"
  by (simp_all add: contains_text_def starts_with_def)

lemma texts_joined:
  "contains_text ''ORDER BY s.song_id LIMIT :lim'' (sql_text AppSongsArtists)"
  "contains_text ''ORDER BY p.playlistID LIMIT :lim'' (sql_text AppPlaylistsCreators)"
  "contains_text ''ORDER BY al.release_date DESC LIMIT :lim'' (sql_text AppAlbumsArtists)"
  "contains_text ''ORDER BY song_count DESC LIMIT :lim'' (sql_text AppArtistSongCounts)"
  by (simp_all add: contains_text_def starts_with_def)

lemma texts_views:
  "contains_text ''ORDER BY l.liked_date DESC LIMIT :lim'' (sql_text AppUserLikes)"
  "contains_text ''ORDER BY al.album_name, c.track_number LIMIT :lim'' (sql_text AppAlbumTracks)"
  "contains_text ''ORDER BY like_count DESC LIMIT :lim'' (sql_text AppMostLiked)"
  "contains_text ''ORDER BY songs_liked DESC LIMIT :lim'' (sql_text AppUserActivity)"
  by (simp_all add: contains_text_def starts_with_def)

lemma texts_unbounded:
  "contains_text ''ORDER BY playlistID'' (sql_text AppPlaylistChoices)"
  "\<not> contains_text ''LIMIT'' (sql_text AppPlaylistChoices)"
  "contains_text ''ORDER BY sv.position'' (sql_text AppPlaylistSongs)"
  "\<not> contains_text ''LIMIT'' (sql_text AppPlaylistSongs)"
  by (simp_all add: contains_text_def starts_with_def)

lemma texts_fixed:
  "\<not> contains_text ''ORDER BY'' (sql_text AppNetwork)"
  "contains_text ''LIMIT 500'' (sql_text AppNetwork)"
  "contains_text ''ORDER BY like_count DESC LIMIT 5'' (sql_text AppTopLiked)"
  by (simp_all add: contains_text_def starts_with_def)

lemma texts_crud:
  "contains_text ''ORDER BY userID'' (sql_text CrudUsers)"
  "\<not> contains_text ''LIMIT'' (sql_text CrudUsers)"
  "contains_text ''ORDER BY artistID'' (sql_text CrudArtists)"
  "\<not> contains_text ''LIMIT'' (sql_text CrudArtists)"
  "contains_text ''ORDER BY albumID'' (sql_text CrudAlbums)"
  "\<not> contains_text ''LIMIT'' (sql_text CrudAlbums)"
  "contains_text ''ORDER BY playlistID'' (sql_text CrudPlaylists)"
  "\<not> contains_text ''LIMIT'' (sql_text CrudPlaylists)"
  "contains_text ''ORDER BY song_id LIMIT :lim'' (sql_text CrudSongs)"
  by (simp_all add: contains_text_def starts_with_def)

text \<open>
  C6 as it is worded fails. \<^verbatim>\<open>fetch_users\<close> has no bound among its arguments, sends
  its statement with no parameter and a text without \<^verbatim>\<open>LIMIT\<close>, and returns both users of
  the small database; the statement behind the user and song network has no
  \<^verbatim>\<open>ORDER BY\<close>.
\<close>

text \<open>
  C6 as it is worded fails. \<^verbatim>\<open>fetch_users\<close> has no bound among its arguments, sends
  its statement with no parameter and a text without \<^verbatim>\<open>LIMIT\<close>, and returns both users of
  the small database; the statement behind the user and song network has no
  \<^verbatim>\<open>ORDER BY\<close>.
\<close>

theorem C6_counterexample:
  "rows (fst (fetch_users (pg Restrict not_modelled) example_config example_world)) =
     [[VInt 1, VStr ''ann''], [VInt 2, VStr ''bob'']]
   \<and> sent (snd (fetch_users (pg Restrict not_modelled) example_config example_world)) =
     [(''SET statement_timeout TO 8000'', []), (''SET search_path TO hawk, public'', []),
      (''SELECT userID, userName FROM User_table ORDER BY userID'', [])]
   \<and> \<not> contains_text ''LIMIT'' (sql_text CrudUsers)
   \<and> \<not> contains_text ''ORDER BY'' (sql_text AppNetwork)"
proof (intro conjI)
  show "rows (fst (fetch_users (pg Restrict not_modelled) example_config example_world)) =
     [[VInt 1, VStr ''ann''], [VInt 2, VStr ''bob'']]"
    by (simp add: fetch_users_pg example_world_def example_db_def order_by_def user_cells_def)
  show "sent (snd (fetch_users (pg Restrict not_modelled) example_config example_world)) =
     [(''SET statement_timeout TO 8000'', []), (''SET search_path TO hawk, public'', []),
      (''SELECT userID, userName FROM User_table ORDER BY userID'', [])]"
    by (simp add: sent_fetch_users opened_def example_world_def example_config_def fmt_opt_def)
  show "\<not> contains_text ''LIMIT'' (sql_text CrudUsers)"
    by (simp add: contains_text_def starts_with_def)
  show "\<not> contains_text ''ORDER BY'' (sql_text AppNetwork)"
    by (simp add: contains_text_def starts_with_def)
qed

text \<open>
  C6. Rows with equal keys may come in any order; with that, in \<^verbatim>\<open>app_full_crud.py\<close>,
  \<^verbatim>\<open>fetch_users\<close>, \<^verbatim>\<open>fetch_artists\<close>, \<^verbatim>\<open>fetch_albums\<close> and \<^verbatim>\<open>fetch_playlists\<close> take
  no bound and return every row of their table, and \<^verbatim>\<open>fetch_songs\<close> alone takes one and
  returns the first songs up to it; all five are ordered by the primary key. In
  \<^verbatim>\<open>app.py\<close>, for a bound that the store accepts, the five flat listings return the first
  rows by primary key; songs with artists and playlists with creators the first rows by
  the song and the playlist key; albums with artists, artist song counts, user likes, most
  liked songs and user activity the first rows by release date, song count, like date,
  like count and liked songs descending. The playlist picker and the songs of a playlist
  return every row, by playlist key and by position. The texts of all of them carry these
  clauses; the album tracks are bounded by \<^verbatim>\<open>:lim\<close> and ordered by album name and track
  number; the network statement has the fixed bound 500 and no order, the chart of top
  songs the fixed bound 5.
\<close>

theorem C6_listings_bound_and_order:
  "((\<exists>rs. rows (fst (fetch_users (pg fk other) c w)) = map user_cells rs
         \<and> first_rows fst (length (User_table (store_db w))) (User_table (store_db w)) rs)
    \<and> (\<exists>rs. rows (fst (fetch_artists (pg fk other) c w)) = map artist_cells rs
         \<and> first_rows fst (length (Artist (store_db w))) (Artist (store_db w)) rs)
    \<and> (\<exists>rs. rows (fst (fetch_albums (pg fk other) c w)) = map album_cells rs
         \<and> first_rows fst (length (Album (store_db w))) (Album (store_db w)) rs)
    \<and> (\<exists>rs. rows (fst (fetch_playlists (pg fk other) c w)) = map playlist_cells rs
         \<and> first_rows fst (length (Playlist (store_db w))) (Playlist (store_db w)) rs))
 \<and> (0 \<le> lim \<and> lim < 2 ^ 63 \<longrightarrow>
      (\<exists>rs. rows (fst (fetch_songs (pg fk other) c lim w)) = map song_cells rs
           \<and> first_rows fst (nat lim) (Song (store_db w)) rs))
 \<and> (0 \<le> lim \<and> lim < 2 ^ 63 \<longrightarrow>
      (\<exists>rs. rows (fst (fetch_df (pg fk other) c AppUsers (lim_params lim) w)) = map user_cells rs
         \<and> first_rows fst (nat lim) (User_table (store_db w)) rs)
    \<and> (\<exists>rs. rows (fst (fetch_df (pg fk other) c AppSongs (lim_params lim) w)) = map song_cells rs
         \<and> first_rows fst (nat lim) (Song (store_db w)) rs)
    \<and> (\<exists>rs. rows (fst (fetch_df (pg fk other) c AppAlbums (lim_params lim) w)) = map album_cells rs
         \<and> first_rows fst (nat lim) (Album (store_db w)) rs)
    \<and> (\<exists>rs. rows (fst (fetch_df (pg fk other) c AppArtists (lim_params lim) w)) = map artist_cells rs
         \<and> first_rows fst (nat lim) (Artist (store_db w)) rs)
    \<and> (\<exists>rs. rows (fst (fetch_df (pg fk other) c AppPlaylists (lim_params lim) w)) = map playlist_cells rs
         \<and> first_rows fst (nat lim) (Playlist (store_db w)) rs)
    \<and> (\<exists>rs. rows (fst (fetch_df (pg fk other) c AppSongsArtists (lim_params lim) w)) = map songs_artists_cells rs
         \<and> first_rows (\<lambda>((s, p), a). fst s) (nat lim) (songs_artists (store_db w)) rs)
    \<and> (\<exists>rs. rows (fst (fetch_df (pg fk other) c AppPlaylistsCreators (lim_params lim) w)) = map playlists_creators_cells rs
         \<and> first_rows (\<lambda>((p, c), u). fst p) (nat lim) (playlists_creators (store_db w)) rs)
    \<and> (\<exists>rs. rows (fst (fetch_df (pg fk other) c AppAlbumsArtists (lim_params lim) w)) = map albums_artists_cells rs
         \<and> first_rows (descending (\<lambda>((al, rc), ar). snd (snd al))) (nat lim) (albums_artists (store_db w)) rs)
    \<and> (\<exists>rs. rows (fst (fetch_df (pg fk other) c AppArtistSongCounts (lim_params lim) w)) = map (\<lambda>(name, n). [VStr name, VInt n]) rs
         \<and> first_rows (descending snd) (nat lim) (artist_song_count_rows (store_db w)) rs)
    \<and> (\<exists>rs. rows (fst (fetch_df (pg fk other) c AppUserLikes (lim_params lim) w)) = map user_likes_cells rs
         \<and> first_rows (descending (\<lambda>((((l, u), s), p), a). snd (snd l))) (nat lim) (user_likes (store_db w)) rs)
    \<and> (\<exists>rs. rows (fst (fetch_df (pg fk other) c AppMostLiked (lim_params lim) w)) = map (\<lambda>(sname, aname, n). [VStr sname, VStr aname, VInt n]) rs
         \<and> first_rows (descending (\<lambda>r. snd (snd r))) (nat lim) (most_liked_rows (store_db w)) rs)
    \<and> (\<exists>rs. rows (fst (fetch_df (pg fk other) c AppUserActivity (lim_params lim) w)) = map user_activity_cells rs
         \<and> first_rows (descending (\<lambda>r. fst (snd r))) (nat lim) (user_activity_rows (store_db w)) rs))
 \<and> ((\<exists>rs. rows (fst (fetch_df (pg fk other) c AppPlaylistChoices None w)) = map playlist_choice_cells rs
         \<and> first_rows fst (length (Playlist (store_db w))) (Playlist (store_db w)) rs)
    \<and> (\<exists>rs. rows (fst (fetch_df (pg fk other) c AppPlaylistSongs (Some [(''pid'', VInt pid)]) w)) = map playlist_songs_cells rs
         \<and> first_rows (\<lambda>(((sv, s), p), a). snd (snd sv)) (length (playlist_songs (store_db w) pid)) (playlist_songs (store_db w) pid) rs))
 \<and> (contains_text ''ORDER BY userID'' (sql_text CrudUsers)
    \<and> \<not> contains_text ''LIMIT'' (sql_text CrudUsers)
    \<and> contains_text ''ORDER BY artistID'' (sql_text CrudArtists)
    \<and> \<not> contains_text ''LIMIT'' (sql_text CrudArtists)
    \<and> contains_text ''ORDER BY albumID'' (sql_text CrudAlbums)
    \<and> \<not> contains_text ''LIMIT'' (sql_text CrudAlbums)
    \<and> contains_text ''ORDER BY playlistID'' (sql_text CrudPlaylists)
    \<and> \<not> contains_text ''LIMIT'' (sql_text CrudPlaylists)
    \<and> contains_text ''ORDER BY song_id LIMIT :lim'' (sql_text CrudSongs))
 \<and> (contains_text ''ORDER BY userID LIMIT :lim'' (sql_text AppUsers)
    \<and> contains_text ''ORDER BY song_id LIMIT :lim'' (sql_text AppSongs)
    \<and> contains_text ''ORDER BY albumID LIMIT :lim'' (sql_text AppAlbums)
    \<and> contains_text ''ORDER BY artistID LIMIT :lim'' (sql_text AppArtists)
    \<and> contains_text ''ORDER BY playlistID LIMIT :lim'' (sql_text AppPlaylists))
 \<and> (contains_text ''ORDER BY s.song_id LIMIT :lim'' (sql_text AppSongsArtists)
    \<and> contains_text ''ORDER BY p.playlistID LIMIT :lim'' (sql_text AppPlaylistsCreators)
    \<and> contains_text ''ORDER BY al.release_date DESC LIMIT :lim'' (sql_text AppAlbumsArtists)
    \<and> contains_text ''ORDER BY song_count DESC LIMIT :lim'' (sql_text AppArtistSongCounts))
 \<and> (contains_text ''ORDER BY l.liked_date DESC LIMIT :lim'' (sql_text AppUserLikes)
    \<and> contains_text ''ORDER BY al.album_name, c.track_number LIMIT :lim'' (sql_text AppAlbumTracks)
    \<and> contains_text ''ORDER BY like_count DESC LIMIT :lim'' (sql_text AppMostLiked)
    \<and> contains_text ''ORDER BY songs_liked DESC LIMIT :lim'' (sql_text AppUserActivity))
 \<and> (contains_text ''ORDER BY playlistID'' (sql_text AppPlaylistChoices)
    \<and> \<not> contains_text ''LIMIT'' (sql_text AppPlaylistChoices)
    \<and> contains_text ''ORDER BY sv.position'' (sql_text AppPlaylistSongs)
    \<and> \<not> contains_text ''LIMIT'' (sql_text AppPlaylistSongs))
 \<and> (\<not> contains_text ''ORDER BY'' (sql_text AppNetwork)
    \<and> contains_text ''LIMIT 500'' (sql_text AppNetwork)
    \<and> contains_text ''ORDER BY like_count DESC LIMIT 5'' (sql_text AppTopLiked))"
  by (intro conjI unbounded_crud bounded_songs bounded_views unbounded_app
            texts_crud texts_flat texts_joined texts_views texts_unbounded texts_fixed)

text \<open>The listings of the small database under a row limit of one.\<close>

theorem C6_listings_bound_and_order_witness:
  "(\<exists>rs. rows (fst (fetch_users (pg Restrict not_modelled) example_config example_world)) = map user_cells rs
         \<and> first_rows fst (length (User_table (store_db example_world))) (User_table (store_db example_world)) rs)
 \<and> (\<exists>rs. rows (fst (fetch_songs (pg Restrict not_modelled) example_config 1 example_world)) = map song_cells rs
         \<and> first_rows fst (nat 1) (Song (store_db example_world)) rs)
 \<and> (\<exists>rs. rows (fst (fetch_df (pg Restrict not_modelled) example_config AppUsers (lim_params 1) example_world)) = map user_cells rs
         \<and> first_rows fst (nat 1) (User_table (store_db example_world)) rs)
 \<and> (\<exists>rs. rows (fst (fetch_df (pg Restrict not_modelled) example_config AppMostLiked (lim_params 1) example_world)) = map (\<lambda>(sname, aname, n). [VStr sname, VStr aname, VInt n]) rs
         \<and> first_rows (descending (\<lambda>r. snd (snd r))) (nat 1) (most_liked_rows (store_db example_world)) rs)"
  using C6_listings_bound_and_order
          [where w = example_world and fk = Restrict and other = not_modelled
             and c = example_config and lim = 1 and pid = 1]
  by simp

end
